theory Spec2Isabelle
  imports Complex_Main
begin

section \<open>Numbers and errors\<close>

text \<open>
  The simulation computes with Python numbers. They are embedded as \<^typ>\<open>real\<close>:
  rounding is not modelled, and "within floating-point tolerance" is read as a distance
  of at most \<open>1 / 10 ^ 9\<close>. Python's \<open>/\<close> on numbers raises \<open>ZeroDivisionError\<close> for a
  zero divisor and an \<open>assert\<close> raises \<open>AssertionError\<close>; both are results of the sum
  type \<open>error + 'a\<close>, the error on the left.
\<close>

datatype error = ZeroDivisionError | AssertionError | AttributeError

text \<open>
  Sequencing of fallible steps: the first error ends the computation, as a raised
  exception does.
\<close>

definition and_then :: "error + 'a \<Rightarrow> ('a \<Rightarrow> error + 'b) \<Rightarrow> error + 'b" where
  "and_then r f = (case r of Inl e \<Rightarrow> Inl e | Inr x \<Rightarrow> f x)"

definition divide_py :: "real \<Rightarrow> real \<Rightarrow> error + real" where
  "divide_py a b = (if b = 0 then Inl ZeroDivisionError else Inr (a / b))"

text \<open>
  Not every operand is a Python number. \<open>proportionate_partitioning\<close> announces
  \<open>array-float\<close> demands, and numpy's \<open>/\<close> does not raise for a zero divisor: it warns
  and returns \<open>inf\<close>, \<open>-inf\<close> or \<open>nan\<close>. A \<open>float64\<close> is a real or one of these three
  values; the arithmetic on them is that of IEEE 754, without rounding and without the
  sign of zero (a zero divisor counts as \<open>+0.0\<close>, which is what \<open>sum\<close> returns for a zero
  total).
\<close>

datatype float64 = Finite real | PosInf | NegInf | NaN

fun float64_add :: "float64 \<Rightarrow> float64 \<Rightarrow> float64" where
  "float64_add (Finite a) (Finite b) = Finite (a + b)"
| "float64_add NaN y = NaN"
| "float64_add x NaN = NaN"
| "float64_add PosInf NegInf = NaN"
| "float64_add NegInf PosInf = NaN"
| "float64_add PosInf y = PosInf"
| "float64_add NegInf y = NegInf"
| "float64_add x PosInf = PosInf"
| "float64_add x NegInf = NegInf"

fun float64_mult :: "float64 \<Rightarrow> float64 \<Rightarrow> float64" where
  "float64_mult (Finite a) (Finite b) = Finite (a * b)"
| "float64_mult NaN y = NaN"
| "float64_mult x NaN = NaN"
| "float64_mult (Finite a) y =
     (if a = 0 then NaN else if (0 < a) = (y = PosInf) then PosInf else NegInf)"
| "float64_mult x (Finite b) =
     (if b = 0 then NaN else if (0 < b) = (x = PosInf) then PosInf else NegInf)"
| "float64_mult x y = (if x = y then PosInf else NegInf)"

fun float64_divide :: "float64 \<Rightarrow> float64 \<Rightarrow> float64" where
  "float64_divide (Finite a) (Finite b) =
     (if b = 0 then (if a = 0 then NaN else if 0 < a then PosInf else NegInf)
      else Finite (a / b))"
| "float64_divide NaN y = NaN"
| "float64_divide x NaN = NaN"
| "float64_divide (Finite a) y = Finite 0"
| "float64_divide x (Finite b) = (if (0 \<le> b) = (x = PosInf) then PosInf else NegInf)"
| "float64_divide x y = NaN"

text \<open>
  An operand is a Python number (\<open>int\<close> or \<open>float\<close>) or a numpy number (a numpy scalar
  or an entry of a numpy array). An operation with a numpy operand is numpy's and
  returns a numpy number. Python's \<open>/\<close> on two Python numbers raises
  \<open>ZeroDivisionError\<close> for a zero divisor, whatever the dividend. \<open>sum(Ds)\<close> adds the
  entries, from the left, to the Python number 0.
\<close>

datatype number = PyNum float64 | NpNum float64

fun number_value :: "number \<Rightarrow> float64" where
  "number_value (PyNum x) = x"
| "number_value (NpNum x) = x"

fun is_numpy :: "number \<Rightarrow> bool" where
  "is_numpy (PyNum x) = False"
| "is_numpy (NpNum x) = True"

definition number_add :: "number \<Rightarrow> number \<Rightarrow> number" where
  "number_add a b =
     (let v = float64_add (number_value a) (number_value b)
      in if is_numpy a \<or> is_numpy b then NpNum v else PyNum v)"

definition number_mult :: "number \<Rightarrow> number \<Rightarrow> number" where
  "number_mult a b =
     (let v = float64_mult (number_value a) (number_value b)
      in if is_numpy a \<or> is_numpy b then NpNum v else PyNum v)"

definition number_truediv :: "number \<Rightarrow> number \<Rightarrow> error + number" where
  "number_truediv a b =
     (if is_numpy a \<or> is_numpy b
      then Inr (NpNum (float64_divide (number_value a) (number_value b)))
      else if number_value b = Finite 0 then Inl ZeroDivisionError
      else Inr (PyNum (float64_divide (number_value a) (number_value b))))"

definition sum_py :: "number list \<Rightarrow> number" where
  "sum_py Ds = foldl number_add (PyNum (Finite 0)) Ds"

section \<open>The palm field as seen by its components (\<open>palm.py\<close>)\<close>

text \<open>
  Every component holds a reference \<open>_palm\<close> to the \<open>PalmField\<close> and reads its clock
  and its other components through it. The record holds the values a component reads
  at the moment of a call: the clock (\<open>DAP\<close>, \<open>MAP\<close>, \<open>YAP\<close>, \<open>_days_in_year\<close>,
  \<open>_days_in_month\<close>), \<open>dt\<close>, \<open>planting_density\<close>, \<open>fronds.initiation_rate\<close> and
  the allocations \<open>assimilates.assim_growth_trunk\<close> and
  \<open>assimilates.assim_growth_generative\<close>. A component built without a palm has
  \<open>_palm = None\<close>, here \<^term>\<open>None\<close>; reading an attribute of \<open>None\<close> raises
  \<open>AttributeError\<close>.
\<close>

record Palm =
  planting_density :: real
  DAP :: real
  MAP :: real
  YAP :: real
  days_in_year :: real
  days_in_month :: real
  palm_dt :: real
  fronds_initiation_rate :: real
  assim_growth_trunk :: real
  assim_growth_generative :: real

section \<open>Assimilate partitioning (\<open>components/assimilates.py\<close>)\<close>

text \<open>
  The \<open>for D in Ds[:-1]\<close> loop of \<open>prioritized_partitioning\<close>: the state is the
  remaining supply \<open>S\<close> and the output list \<open>Ss\<close>, to which the loop appends.
\<close>

fun prioritized_loop :: "real \<Rightarrow> real list \<Rightarrow> real list \<Rightarrow> real \<times> real list" where
  "prioritized_loop S [] Ss = (S, Ss)"
| "prioritized_loop S (D # Ds) Ss =
     (if D < S then prioritized_loop (S - D) Ds (Ss @ [D])
      else prioritized_loop 0 Ds (Ss @ [S]))"

text \<open>
  After the loop the remaining supply is appended, and \<open>Ss[Ss < 0] = 0\<close> replaces every
  negative entry by 0. \<open>Ds[:-1]\<close> is \<^term>\<open>butlast Ds\<close> (empty for an empty list).
\<close>

definition prioritized_partitioning :: "real \<Rightarrow> real list \<Rightarrow> real list" where
  "prioritized_partitioning S Ds =
     (case prioritized_loop S (butlast Ds) [] of
        (S', Ss) \<Rightarrow> map (\<lambda>x. if x < 0 then 0 else x) (Ss @ [S']))"

text \<open>
  \<open>proportionate_partitioning\<close> has no guard: \<open>total_demand = sum(Ds)\<close>,
  \<open>scalar = S / total_demand\<close>, and the array of the \<open>scalar * D\<close>. Whether the division
  raises depends on the operands, so the function is embedded on operands of both
  kinds; the array it returns holds \<open>float64\<close> values.
\<close>

definition proportionate_partitioning :: "number \<Rightarrow> number list \<Rightarrow> error + float64 list" where
  "proportionate_partitioning S Ds =
     (let total_demand = sum_py Ds in
      and_then (number_truediv S total_demand) (\<lambda>scalar.
        Inr (map (\<lambda>D. number_value (number_mult scalar D)) Ds)))"

text \<open>
  In a run of the palm field the supply and the demands are finite Python numbers. On
  these the function is \<open>proportionate_partitioning_py\<close>, the same three statements on
  reals with Python's division (lemma \<open>proportionate_partitioning_python_numbers\<close>).
\<close>

definition proportionate_partitioning_py :: "real \<Rightarrow> real list \<Rightarrow> error + real list" where
  "proportionate_partitioning_py S Ds =
     (let total_demand = sum_list Ds in
      and_then (divide_py S total_demand) (\<lambda>scalar.
        Inr (map (\<lambda>D. scalar * D) Ds)))"

text \<open>
  \<open>k*prioritized_partitioning(S,Ds) + (1-k)*proportionate_partitioning(S,Ds)\<close> on arrays
  of finite Python numbers: the prioritized part is computed first and cannot fail, the
  proportionate part may raise, and the arithmetic is elementwise on two arrays of the
  same length.
\<close>

definition parametrized_partitioning :: "real \<Rightarrow> real list \<Rightarrow> real \<Rightarrow> error + real list" where
  "parametrized_partitioning S Ds k =
     (let prio = prioritized_partitioning S Ds in
      case proportionate_partitioning_py S Ds of
        Inl e \<Rightarrow> Inl e
      | Inr propo \<Rightarrow> Inr (map2 (\<lambda>a b. k * a + (1 - k) * b) prio propo))"

section \<open>The trunk (\<open>components/trunk.py\<close>)\<close>

text \<open>
  The state of a \<open>Trunk\<close>: \<open>mass\<close>, \<open>lignified_mass\<close> and the test-only
  \<open>_assim_growth_\<close> (field \<open>trunk_assim_growth_attr\<close>). The parameters are the class
  constants \<open>density_a = 7.62\<close>, \<open>density_b = 83\<close>, \<open>conversion_efficiency = 0.69\<close>,
  \<open>lignification_rate = 0.74\<close>, \<open>mass_loss_rate = 0.0\<close> and the initial \<open>mass = 0.1\<close> per
  palm.
\<close>

record Trunk =
  trunk_mass :: real
  trunk_lignified_mass :: real
  trunk_assim_growth_attr :: real

definition Trunk_init :: "Palm option \<Rightarrow> error + Trunk" where
  "Trunk_init palm =
     (case palm of
        None \<Rightarrow> Inl AttributeError
      | Some p \<Rightarrow>
          Inr \<lparr>trunk_mass = planting_density p * (1 / 10), trunk_lignified_mass = 0,
               trunk_assim_growth_attr = 0\<rparr>)"

definition Trunk_YAP :: "Palm option \<Rightarrow> real" where
  "Trunk_YAP palm = (case palm of None \<Rightarrow> 0 | Some p \<Rightarrow> YAP p)"

definition Trunk_assim_growth :: "Palm option \<Rightarrow> Trunk \<Rightarrow> real" where
  "Trunk_assim_growth palm s =
     (case palm of None \<Rightarrow> trunk_assim_growth_attr s | Some p \<Rightarrow> assim_growth_trunk p)"

definition Trunk_mass_growth_rate :: "Palm option \<Rightarrow> Trunk \<Rightarrow> real" where
  "Trunk_mass_growth_rate palm s = (69 / 100) * Trunk_assim_growth palm s"

definition Trunk_mass_loss_rate :: real where
  "Trunk_mass_loss_rate = 0"

definition Trunk_mass_change_rate :: "Palm option \<Rightarrow> Trunk \<Rightarrow> real" where
  "Trunk_mass_change_rate palm s = Trunk_mass_growth_rate palm s - Trunk_mass_loss_rate"

definition Trunk_density :: "Palm option \<Rightarrow> real" where
  "Trunk_density palm = (762 / 100) * Trunk_YAP palm + 83"

definition Trunk_volume :: "Palm option \<Rightarrow> Trunk \<Rightarrow> error + real" where
  "Trunk_volume palm s = divide_py (trunk_mass s) (Trunk_density palm)"

text \<open>
  \<open>rate = self.volume * (c / self._palm._days_in_month)\<close>: the volume is read first,
  then the palm's month length. Nothing bounds the rate by the mass.
\<close>

definition Trunk_lignified_mass_change_rate :: "Palm option \<Rightarrow> Trunk \<Rightarrow> error + real" where
  "Trunk_lignified_mass_change_rate palm s =
     and_then (Trunk_volume palm s) (\<lambda>V.
       case palm of
         None \<Rightarrow> Inl AttributeError
       | Some p \<Rightarrow> and_then (divide_py (74 / 100) (days_in_month p)) (\<lambda>q. Inr (V * q)))"

text \<open>
  \<open>update(dt)\<close>: the lignified mass is advanced first, from the mass before the step;
  then the mass; then the two assertions \<open>mass >= 0\<close> and \<open>lignified_mass > 0\<close>.
\<close>

definition Trunk_update :: "Palm option \<Rightarrow> real \<Rightarrow> Trunk \<Rightarrow> error + Trunk" where
  "Trunk_update palm dt s =
     and_then (Trunk_lignified_mass_change_rate palm s) (\<lambda>rate.
       let s1 = s\<lparr>trunk_lignified_mass := trunk_lignified_mass s + rate * dt\<rparr>;
           s2 = s1\<lparr>trunk_mass := trunk_mass s1 + Trunk_mass_change_rate palm s1 * dt\<rparr>
       in if \<not> trunk_mass s2 \<ge> 0 then Inl AssertionError
          else if \<not> trunk_lignified_mass s2 > 0 then Inl AssertionError
          else Inr s2)"

text \<open>
  A simulated trajectory of the trunk: the palm calls \<open>update(dt)\<close> once per step, each
  time with the palm as it is at that step. \<open>Trunk_run\<close> returns the states after each
  update, or the first error.
\<close>

fun Trunk_run :: "Trunk \<Rightarrow> (Palm option \<times> real) list \<Rightarrow> error + Trunk list" where
  "Trunk_run s [] = Inr []"
| "Trunk_run s ((palm, dt) # steps) =
     and_then (Trunk_update palm dt s) (\<lambda>s'.
       and_then (Trunk_run s' steps) (\<lambda>states. Inr (s' # states)))"

text \<open>
  A step of a simulated trajectory: the palm's \<open>update\<close> asserts \<open>1 <= dt <= 31\<close>, its
  \<open>YAP\<close> is a number of whole years since planting and \<open>_days_in_month\<close> is a month
  length of the calendar.
\<close>

fun Trunk_step_valid :: "Palm option \<times> real \<Rightarrow> bool" where
  "Trunk_step_valid (palm, dt) =
     (0 \<le> dt \<and> (case palm of None \<Rightarrow> True | Some p \<Rightarrow> 0 \<le> YAP p \<and> 0 < days_in_month p))"

definition Trunk_final :: "Trunk \<Rightarrow> (Palm option \<times> real) list \<Rightarrow> error + Trunk" where
  "Trunk_final s steps = and_then (Trunk_run s steps) (\<lambda>states. Inr (last (s # states)))"

text \<open>
  A palm field of the default planting density in the zero-light case: no assimilates
  reach the trunk.
\<close>

definition dark_palm :: Palm where
  "dark_palm = \<lparr>planting_density = 143, DAP = 0, MAP = 0, YAP = 0, days_in_year = 365,
     days_in_month = 30, palm_dt = 10, fronds_initiation_rate = 0,
     assim_growth_trunk = 0, assim_growth_generative = 0\<rparr>"

text \<open>
  The zero-light case over the years: in year \<open>y\<close> after planting the palm calls
  \<open>update(10)\<close> 36 times, with \<open>YAP = y\<close>, no assimilates for the trunk and the longest
  month length, 31 days, which gives the lowest lignification rate.
\<close>

definition dark_palm_in_year :: "nat \<Rightarrow> Palm" where
  "dark_palm_in_year y =
     dark_palm\<lparr>YAP := real y, DAP := 365 * real y, MAP := 12 * real y, days_in_month := 31\<rparr>"

definition dark_year :: "nat \<Rightarrow> (Palm option \<times> real) list" where
  "dark_year y = replicate 36 (Some (dark_palm_in_year y), 10)"

definition dark_years :: "nat \<Rightarrow> (Palm option \<times> real) list" where
  "dark_years n = concat (map dark_year [0..<n])"

text \<open>
  Two more palms of a trajectory: one whose trunk receives assimilates, and one a year
  after planting, in a month of 31 days.
\<close>

definition lit_palm :: Palm where
  "lit_palm = dark_palm\<lparr>assim_growth_trunk := 5\<rparr>"

definition later_palm :: Palm where
  "later_palm = dark_palm\<lparr>YAP := 1, DAP := 365, MAP := 12, days_in_month := 31\<rparr>"

text \<open>
  What one such update in year \<open>y\<close> adds to the lignified mass of a trunk of mass 14.3.
\<close>

definition dark_lignification :: "nat \<Rightarrow> real" where
  "dark_lignification y =
     (143 / 10) / ((762 / 100) * real y + 83) * ((74 / 100) / 31) * 10"

section \<open>Bunch components (\<open>components/generative/bunch_components.py\<close>)\<close>

text \<open>
  \<open>make_quadratic_function(x1, x2, A)\<close> of \<open>helpers.py\<close> returns a closure over \<open>x1\<close>,
  \<open>x2\<close>, the height \<open>h = 1.5*A/W\<close> and the half width \<open>hw = .5*(x2-x1)\<close>. The closure
  is the record of \<open>x1\<close>, \<open>x2\<close> and \<open>h\<close>; \<open>func\<close> applies it and recomputes \<open>hw\<close> from
  \<open>x1\<close> and \<open>x2\<close>, which the closure never changes. The division by \<open>hw**2\<close> is reached
  only for \<open>x1 < x < x2\<close>, where \<open>hw\<close> is positive, so \<open>func\<close> cannot raise; building the
  closure raises for \<open>W = 0\<close>.
\<close>

record quadratic_function =
  qf_x1 :: real
  qf_x2 :: real
  qf_h :: real

definition make_quadratic_function :: "real \<Rightarrow> real \<Rightarrow> real \<Rightarrow> error + quadratic_function" where
  "make_quadratic_function x1 x2 A =
     (let W = x2 - x1 in
      and_then (divide_py ((3 / 2) * A) W) (\<lambda>h.
        Inr \<lparr>qf_x1 = x1, qf_x2 = x2, qf_h = h\<rparr>))"

definition func :: "quadratic_function \<Rightarrow> real \<Rightarrow> real" where
  "func q x =
     (let x1 = qf_x1 q; x2 = qf_x2 q; h = qf_h q; hw = (1 / 2) * (x2 - x1) in
      if x \<le> x1 then 0
      else if x \<ge> x2 then 0
      else max 0 (- h * (x - x1) * (x - x2) / hw ^ 2))"

text \<open>
  The four subclasses of \<open>BunchComponent\<close> differ in their \<open>parameters\<close> only; the
  class of an object is its \<open>bc_kind\<close>.
\<close>

datatype component_kind = Stalk | MesocarpFibers | MesocarpOil | Kernels

fun conversion_efficiency :: "component_kind \<Rightarrow> real" where
  "conversion_efficiency Stalk = 69 / 100"
| "conversion_efficiency MesocarpFibers = 69 / 100"
| "conversion_efficiency MesocarpOil = 42 / 100"
| "conversion_efficiency Kernels = 42 / 100"

fun potential_mass_fraction :: "component_kind \<Rightarrow> real" where
  "potential_mass_fraction Stalk = 25 / 100"
| "potential_mass_fraction MesocarpFibers = 35 / 100"
| "potential_mass_fraction MesocarpOil = 35 / 100"
| "potential_mass_fraction Kernels = 5 / 100"

fun specific_maintenance :: "component_kind \<Rightarrow> real" where
  "specific_maintenance k = 22 / 10000"

fun t_growth_start :: "component_kind \<Rightarrow> real" where
  "t_growth_start Stalk = 0"
| "t_growth_start MesocarpFibers = 825 / 1000"
| "t_growth_start MesocarpOil = 9 / 10"
| "t_growth_start Kernels = 875 / 1000"

fun t_growth_end :: "component_kind \<Rightarrow> real" where
  "t_growth_end Stalk = 75 / 100"
| "t_growth_end MesocarpFibers = 95 / 100"
| "t_growth_end MesocarpOil = 95 / 100"
| "t_growth_end Kernels = 975 / 1000"

text \<open>
  The attributes of a bunch component. The back reference \<open>_cohort\<close> is not a field: a
  component's \<open>_cohort\<close> is the cohort that holds it (the constructors pass \<open>self\<close>, and
  \<open>to_male\<close> and \<open>to_female\<close> set it on the copied stalk), so the methods that read
  \<open>self._cohort\<close> take the owner as an argument, \<^term>\<open>None\<close> for a component that stands
  alone. \<open>_assim_growth\<close> and \<open>_total_mass\<close> are the fields \<open>bc_assim_growth_attr\<close> and
  \<open>bc_total_mass_attr\<close>.
\<close>

record BunchComponent =
  bc_kind :: component_kind
  bc_potential_mass :: real
  bc_t_maturity :: real
  bc_potential_growth_function :: quadratic_function
  bc_mass :: real
  bc_age :: real
  bc_potential_sink_strength :: real
  bc_assim_growth_attr :: real
  bc_total_mass_attr :: real

definition BunchComponent_mass_growth_rate_potential :: "BunchComponent \<Rightarrow> real" where
  "BunchComponent_mass_growth_rate_potential b =
     func (bc_potential_growth_function b) (bc_age b)"

definition BunchComponent_get_potential_sink_strength :: "BunchComponent \<Rightarrow> real" where
  "BunchComponent_get_potential_sink_strength b =
     (let c = conversion_efficiency (bc_kind b) in
      BunchComponent_mass_growth_rate_potential b / c)"

definition BunchComponent_maintenance_requirement :: "BunchComponent \<Rightarrow> real" where
  "BunchComponent_maintenance_requirement b =
     (let c = specific_maintenance (bc_kind b) in c * bc_mass b)"

text \<open>
  \<open>__init__(cohort, age, potential_mass, t_maturity)\<close>. With \<open>potential_mass=None\<close> the
  constructor reads the potential mass of the cohort (\<open>owner_potential_mass\<close>, the result
  of reading \<open>cohort.potential_mass\<close>, which may raise); without a cohort it reads
  \<open>self._total_mass\<close> before that attribute exists, an \<open>AttributeError\<close>.
\<close>

definition BunchComponent_init ::
  "component_kind \<Rightarrow> (error + real) option \<Rightarrow> real \<Rightarrow> real option \<Rightarrow> real
     \<Rightarrow> error + BunchComponent" where
  "BunchComponent_init kind owner_potential_mass age0 potential_mass T =
     and_then
       (case potential_mass of
          Some pm \<Rightarrow> Inr pm
        | None \<Rightarrow>
            (case owner_potential_mass of
               None \<Rightarrow> Inl AttributeError
             | Some r \<Rightarrow> and_then r (\<lambda>total. Inr (potential_mass_fraction kind * total))))
       (\<lambda>pm.
          let t_start = T * t_growth_start kind;
              t_end = T * t_growth_end kind
          in and_then (make_quadratic_function t_start t_end pm) (\<lambda>f.
               let b = \<lparr>bc_kind = kind, bc_potential_mass = pm, bc_t_maturity = T,
                        bc_potential_growth_function = f, bc_mass = 0, bc_age = age0,
                        bc_potential_sink_strength = 0, bc_assim_growth_attr = 0,
                        bc_total_mass_attr = 0\<rparr>
               in Inr (b\<lparr>bc_potential_sink_strength :=
                            BunchComponent_get_potential_sink_strength b\<rparr>)))"

text \<open>
  \<open>copy()\<close>: a new component of the same class, built without a cohort from the
  potential mass and the maturity time of the original, then given its mass and age.
\<close>

definition BunchComponent_copy :: "BunchComponent \<Rightarrow> error + BunchComponent" where
  "BunchComponent_copy b =
     and_then (BunchComponent_init (bc_kind b) None 0 (Some (bc_potential_mass b))
                 (bc_t_maturity b)) (\<lambda>d.
       let d1 = d\<lparr>bc_mass := bc_mass b\<rparr>;
           d2 = d1\<lparr>bc_age := bc_age b\<rparr>
       in Inr (d2\<lparr>bc_potential_sink_strength :=
                     BunchComponent_get_potential_sink_strength d2\<rparr>))"

text \<open>
  Components are objects: a cohort refers to its components, and \<open>cohort.stalk\<close> and
  the first entry of \<open>cohort.components\<close> are the same object. The store of all
  components is a list, a reference is an index into it, and a new object is appended,
  so that its reference is the length of the store before.
\<close>

type_synonym ref = nat

type_synonym heap = "BunchComponent list"

definition alloc :: "heap \<Rightarrow> BunchComponent \<Rightarrow> heap \<times> ref" where
  "alloc h b = (h @ [b], length h)"

section \<open>Cohorts and their container (\<open>components/generative\<close>)\<close>

text \<open>
  The classes \<open>Indeterminate\<close>, \<open>Female\<close> and \<open>Male\<close> are one record with the class as
  the field \<open>sex\<close>; an attribute that a class does not have keeps the value that the
  constructor of the model gives it and is never read for that class. \<open>Female\<close> and
  \<open>Male\<close> store their \<open>components\<close> (field \<open>components_attr\<close>), \<open>Indeterminate\<close>
  computes them. The fields \<open>abortion_fraction_attr\<close>, \<open>stress_index_attr\<close>,
  \<open>female_fraction_attr\<close>, \<open>days_in_year_attr\<close> and \<open>t_maturity_proto\<close> are the attributes
  \<open>_abortion_fraction\<close>, \<open>_stress_index_\<close>, \<open>_female_fraction\<close>, \<open>_days_in_year\<close> and
  \<open>t_maturity_\<close>; \<open>potential_mass_attr\<close> is the attribute \<open>potential_mass\<close> of \<open>Female\<close>
  and \<open>Male\<close>. The back reference \<open>_container\<close> is an argument of the methods that read
  it, \<^term>\<open>None\<close> for a cohort that stands alone.
\<close>

datatype sex = indeterminate | female | male

record Cohort =
  sex :: sex
  num_inflorescences :: real
  age :: real
  relative_sink_strength :: real
  stalk :: ref
  components_attr :: "ref list"
  abortion_fraction_attr :: real
  t_differentiation :: real
  t_maturity_proto :: real
  female_fraction_attr :: real
  days_in_year_attr :: real
  potential_mass_attr :: real
  t_maturity :: real
  has_flowered :: bool
  t_anthesis :: real
  inflorescence_abortion_t0 :: real
  inflorescence_abortion_dt :: real
  inflorescence_abortion_t1 :: real
  bunch_failure_t0 :: real
  bunch_failure_dt :: real
  bunch_failure_t1 :: real
  stress_index_attr :: real
  mesocarp_oil :: "ref option"
  mesocarp_fibers :: "ref option"
  kernel :: "ref option"

text \<open>
  The container \<open>Cohorts\<close>. \<open>cohorts_palm\<close> is the reference \<open>_palm\<close> with the values
  read through it at the moment of the call; \<open>assim_growth_attr\<close>,
  \<open>initiation_rate_attr\<close> and \<open>bunches\<close> are \<open>_assim_growth\<close>, \<open>_initiation_rate\<close> and
  \<open>_bunches\<close>.
\<close>

record Cohorts =
  cohorts :: "Cohort list"
  cohorts_palm :: "Palm option"
  assim_growth_attr :: real
  assim_growth :: real
  potential_sink_strength :: real
  initiation_rate_attr :: real
  to_delete :: "Cohort list"
  bunches :: "Cohort list"

definition Cohorts_init :: "Palm option \<Rightarrow> Cohorts" where
  "Cohorts_init palm =
     \<lparr>cohorts = [], cohorts_palm = palm, assim_growth_attr = 0, assim_growth = 0,
      potential_sink_strength = 0, initiation_rate_attr = 0, to_delete = [], bunches = []\<rparr>"

definition Cohorts_DAP :: "Cohorts \<Rightarrow> real" where
  "Cohorts_DAP s = (case cohorts_palm s of None \<Rightarrow> 0 | Some p \<Rightarrow> DAP p)"

definition Cohorts_MAP :: "Cohorts \<Rightarrow> real" where
  "Cohorts_MAP s = (case cohorts_palm s of None \<Rightarrow> 0 | Some p \<Rightarrow> MAP p)"

definition Cohorts_dt :: "Cohorts \<Rightarrow> real" where
  "Cohorts_dt s = (case cohorts_palm s of None \<Rightarrow> 1 | Some p \<Rightarrow> palm_dt p)"

text \<open>
  \<open>t_maturity\<close>: \<open>t = self._DAP/self._palm._days_in_year\<close>, then the logistic curve with
  \<open>a0 = 1500\<close> and \<open>s = 27\<close>, and the assertion \<open>maturity > 0\<close>.
\<close>

definition Cohorts_years :: "Cohorts \<Rightarrow> error + real" where
  "Cohorts_years s =
     (case cohorts_palm s of
        None \<Rightarrow> Inl AttributeError
      | Some p \<Rightarrow> divide_py (Cohorts_DAP s) (days_in_year p))"

definition Cohorts_t_maturity :: "Cohorts \<Rightarrow> error + real" where
  "Cohorts_t_maturity s =
     and_then (Cohorts_years s) (\<lambda>t.
       let a0 = 1500; sl = 27;
           maturity = a0 * (1 / (1 + exp (- 4 * sl * t / a0)))
       in if \<not> maturity > 0 then Inl AssertionError else Inr maturity)"

text \<open>
  \<open>Ic\<close> and \<open>stress_index\<close> read the two stored rates \<open>assim_growth\<close> and
  \<open>potential_sink_strength\<close>.
\<close>

definition Cohorts_Ic :: "Cohorts \<Rightarrow> real" where
  "Cohorts_Ic s =
     (let res = (if potential_sink_strength s = 0 then 1
                 else assim_growth s / potential_sink_strength s)
      in min 1 res)"

definition Cohorts_stress_index :: "Cohorts \<Rightarrow> real" where
  "Cohorts_stress_index s = 1 - Cohorts_Ic s"

definition Cohorts_female_fraction_baseline :: "Cohorts \<Rightarrow> error + real" where
  "Cohorts_female_fraction_baseline s =
     and_then (Cohorts_years s) (\<lambda>t.
       let k = 22 / 100; a = 158 / 10; b = 2;
           female_fraction_boundary = a * (1 + b * exp (- k * t));
           leaf_initiation = (2128 / 100) * (1 + (156 / 100) * exp (- (24 / 100) * t))
       in Inr (female_fraction_boundary / leaf_initiation))"

definition Cohorts_calc_female_fraction_decrease :: "real \<Rightarrow> real" where
  "Cohorts_calc_female_fraction_decrease x = (let a = 6 / 10 in exp (- a * x))"

definition Cohorts_female_fraction :: "Cohorts \<Rightarrow> error + real" where
  "Cohorts_female_fraction s =
     (let x = Cohorts_stress_index s in
      and_then (Cohorts_female_fraction_baseline s) (\<lambda>baseline.
        let stress_effect = Cohorts_calc_female_fraction_decrease x
        in Inr (baseline * stress_effect)))"

definition Cohorts_get_assim_growth :: "Cohorts \<Rightarrow> real" where
  "Cohorts_get_assim_growth s =
     (case cohorts_palm s of None \<Rightarrow> assim_growth_attr s
      | Some p \<Rightarrow> assim_growth_generative p)"

text \<open>
  \<open>calc_onset_multiplicity\<close> with \<open>onset_time = 28\<close> and, from
  \<open>onset_multiplicity_factor\<close>, the steepness \<open>onset_steepness = 0.1\<close>.
\<close>

definition Cohorts_calc_onset_multiplicity :: "Cohorts \<Rightarrow> real \<Rightarrow> real \<Rightarrow> error + real" where
  "Cohorts_calc_onset_multiplicity s MAP' steepness =
     and_then (Cohorts_t_maturity s) (\<lambda>T.
       case cohorts_palm s of
         None \<Rightarrow> Inl AttributeError
       | Some p \<Rightarrow>
           and_then (divide_py T (days_in_month p)) (\<lambda>q.
             let t0 = 28 - q in
             if MAP' < t0 then Inr 0
             else Inr (1 - (1 / (1 + steepness * (MAP' - t0) ^ 4)))))"

definition Cohorts_onset_multiplicity_factor :: "Cohorts \<Rightarrow> error + real" where
  "Cohorts_onset_multiplicity_factor s =
     Cohorts_calc_onset_multiplicity s (Cohorts_MAP s) (1 / 10)"

definition Cohorts_initiation_rate :: "Cohorts \<Rightarrow> error + real" where
  "Cohorts_initiation_rate s =
     (case cohorts_palm s of
        None \<Rightarrow> Inr (initiation_rate_attr s)
      | Some p \<Rightarrow>
          and_then (Cohorts_onset_multiplicity_factor s) (\<lambda>onset.
            Inr (fronds_initiation_rate p * planting_density p * onset)))"

subsection \<open>Properties of a cohort (\<open>cohorts.py\<close>)\<close>

definition Cohort_DAP :: "Cohorts option \<Rightarrow> real" where
  "Cohort_DAP container =
     (case container of None \<Rightarrow> 0
      | Some s \<Rightarrow> (case cohorts_palm s of None \<Rightarrow> 0 | Some p \<Rightarrow> DAP p))"

definition Cohort_components :: "Cohort \<Rightarrow> ref list" where
  "Cohort_components c = (if sex c = indeterminate then [stalk c] else components_attr c)"

definition Cohort_potential_sink_strength :: "heap \<Rightarrow> Cohort \<Rightarrow> real" where
  "Cohort_potential_sink_strength h c =
     sum_list (map (\<lambda>x. bc_potential_sink_strength (h ! x)) (Cohort_components c))"

definition Cohort_cohort_sink_strength :: "heap \<Rightarrow> Cohort \<Rightarrow> real" where
  "Cohort_cohort_sink_strength h c =
     num_inflorescences c * Cohort_potential_sink_strength h c"

definition Cohort_get_relative_sink_strength :: "Cohorts option \<Rightarrow> heap \<Rightarrow> Cohort \<Rightarrow> real" where
  "Cohort_get_relative_sink_strength container h c =
     (case container of
        None \<Rightarrow> 1
      | Some s \<Rightarrow>
          (let total_sink_strength = potential_sink_strength s in
           if total_sink_strength = 0 then 0
           else Cohort_cohort_sink_strength h c / total_sink_strength))"

definition Cohort_assim_growth_cohort :: "Cohorts option \<Rightarrow> heap \<Rightarrow> Cohort \<Rightarrow> real" where
  "Cohort_assim_growth_cohort container h c =
     (case container of
        None \<Rightarrow> Cohort_cohort_sink_strength h c
      | Some s \<Rightarrow> relative_sink_strength c * assim_growth s)"

definition Cohort_assim_growth_organ :: "Cohorts option \<Rightarrow> heap \<Rightarrow> Cohort \<Rightarrow> real" where
  "Cohort_assim_growth_organ container h c =
     (if num_inflorescences c > 0
      then Cohort_assim_growth_cohort container h c / num_inflorescences c
      else 0)"

definition Cohort_mass :: "heap \<Rightarrow> Cohort \<Rightarrow> real" where
  "Cohort_mass h c = sum_list (map (\<lambda>x. bc_mass (h ! x)) (Cohort_components c))"

subsection \<open>Methods of a component that read its cohort\<close>

text \<open>
  The owner is the pair of the cohort and the cohort's container, read in the store as
  it is at the moment of the call.
\<close>

type_synonym owner = "(Cohorts option \<times> Cohort) option"

definition BunchComponent_relative_sink_strength :: "owner \<Rightarrow> heap \<Rightarrow> BunchComponent \<Rightarrow> real" where
  "BunchComponent_relative_sink_strength own h b =
     (case own of
        None \<Rightarrow> 1
      | Some (container, c) \<Rightarrow>
          (if Cohort_potential_sink_strength h c > 0
           then bc_potential_sink_strength b / Cohort_potential_sink_strength h c
           else 0))"

definition BunchComponent_assim_growth :: "owner \<Rightarrow> heap \<Rightarrow> BunchComponent \<Rightarrow> real" where
  "BunchComponent_assim_growth own h b =
     (case own of
        None \<Rightarrow> bc_assim_growth_attr b
      | Some (container, c) \<Rightarrow>
          (let total = Cohort_assim_growth_organ container h c
           in BunchComponent_relative_sink_strength own h b * total))"

definition BunchComponent_mass_growth_rate :: "owner \<Rightarrow> heap \<Rightarrow> BunchComponent \<Rightarrow> real" where
  "BunchComponent_mass_growth_rate own h b =
     (let c = conversion_efficiency (bc_kind b);
          res = c * BunchComponent_assim_growth own h b;
          cap = BunchComponent_mass_growth_rate_potential b
      in min cap res)"

definition BunchComponent_update_mass :: "owner \<Rightarrow> heap \<Rightarrow> real \<Rightarrow> BunchComponent \<Rightarrow> BunchComponent" where
  "BunchComponent_update_mass own h dt b =
     b\<lparr>bc_mass := bc_mass b + BunchComponent_mass_growth_rate own h b * dt\<rparr>"

definition BunchComponent_update_age :: "real \<Rightarrow> BunchComponent \<Rightarrow> BunchComponent" where
  "BunchComponent_update_age dt b =
     (let b1 = b\<lparr>bc_age := bc_age b + dt\<rparr>
      in b1\<lparr>bc_potential_sink_strength := BunchComponent_get_potential_sink_strength b1\<rparr>)"

subsection \<open>Abortion fractions\<close>

text \<open>
  \<open>Female\<close> overrides \<open>abortion_fraction\<close>; the parameters
  \<open>stress_inflorescence_abortion\<close> and \<open>stress_bunch_failure\<close> are 1 and both asymptotes
  are 0.95.
\<close>

definition stress_inflorescence_abortion :: real where
  "stress_inflorescence_abortion = 1"

definition stress_bunch_failure :: real where
  "stress_bunch_failure = 1"

definition Female_stress_index :: "Cohorts option \<Rightarrow> Cohort \<Rightarrow> real" where
  "Female_stress_index container c =
     (case container of None \<Rightarrow> stress_index_attr c | Some s \<Rightarrow> Cohorts_stress_index s)"

definition Female_inflorescence_abortion_fraction_raw :: "Cohorts option \<Rightarrow> Cohort \<Rightarrow> error + real" where
  "Female_inflorescence_abortion_fraction_raw container c =
     (let x = Female_stress_index container c;
          a = 95 / 100;
          res = 1 - (1 / exp (a * x))
      in if \<not> res \<ge> 0 then Inl AssertionError
         else if \<not> res < 1 then Inl AssertionError
         else Inr res)"

definition Female_inflorescence_abortion_fraction :: "Cohorts option \<Rightarrow> Cohort \<Rightarrow> error + real" where
  "Female_inflorescence_abortion_fraction container c =
     (if stress_inflorescence_abortion \<noteq> 1 then Inr 0
      else let t = age c; t0 = inflorescence_abortion_t0 c; t1 = inflorescence_abortion_t1 c
           in if t \<ge> t0 \<and> t < t1 then Female_inflorescence_abortion_fraction_raw container c
              else Inr 0)"

definition Female_bunch_failure_fraction_raw :: "Cohorts option \<Rightarrow> Cohort \<Rightarrow> error + real" where
  "Female_bunch_failure_fraction_raw container c =
     (let x = Female_stress_index container c;
          a = 95 / 100;
          res = 1 - exp (- a * x)
      in if \<not> res \<ge> 0 then Inl AssertionError
         else if \<not> res < 1 then Inl AssertionError
         else Inr res)"

definition Female_bunch_failure_fraction :: "Cohorts option \<Rightarrow> Cohort \<Rightarrow> error + real" where
  "Female_bunch_failure_fraction container c =
     (if stress_bunch_failure \<noteq> 1 then Inr 0
      else let t = age c; t0 = bunch_failure_t0 c; t1 = bunch_failure_t1 c
           in if t \<ge> t0 \<and> t < t1 then Female_bunch_failure_fraction_raw container c
              else Inr 0)"

definition Female_abortion_fraction :: "Cohorts option \<Rightarrow> Cohort \<Rightarrow> error + real" where
  "Female_abortion_fraction container c =
     and_then (Female_inflorescence_abortion_fraction container c) (\<lambda>ia.
       and_then (Female_bunch_failure_fraction container c) (\<lambda>bf. Inr (ia + bf)))"

definition Cohort_abortion_fraction :: "Cohorts option \<Rightarrow> Cohort \<Rightarrow> error + real" where
  "Cohort_abortion_fraction container c =
     (if sex c = female then Female_abortion_fraction container c
      else Inr (abortion_fraction_attr c))"

subsection \<open>The update of one cohort\<close>

text \<open>
  The two \<open>for\<close> statements of \<open>Cohort._update\<close> over \<open>self.components\<close>. Each \<open>update_mass\<close> reads
  the cohort and the store as they are when it is called.
\<close>

fun update_mass_loop :: "Cohorts option \<Rightarrow> Cohort \<Rightarrow> real \<Rightarrow> ref list \<Rightarrow> heap \<Rightarrow> heap" where
  "update_mass_loop container c dt [] h = h"
| "update_mass_loop container c dt (x # xs) h =
     update_mass_loop container c dt xs
       (h[x := BunchComponent_update_mass (Some (container, c)) h dt (h ! x)])"

fun update_age_loop :: "real \<Rightarrow> ref list \<Rightarrow> heap \<Rightarrow> heap" where
  "update_age_loop dt [] h = h"
| "update_age_loop dt (x # xs) h =
     update_age_loop dt xs (h[x := BunchComponent_update_age dt (h ! x)])"

definition Cohort_update_components :: "Cohorts option \<Rightarrow> real \<Rightarrow> heap \<Rightarrow> Cohort \<Rightarrow> heap" where
  "Cohort_update_components container dt h c =
     (let h1 = update_mass_loop container c dt (Cohort_components c) h
      in update_age_loop dt (Cohort_components c) h1)"

definition Cohort_update_raw :: "Cohorts option \<Rightarrow> real \<Rightarrow> heap \<Rightarrow> Cohort \<Rightarrow> error + heap \<times> Cohort" where
  "Cohort_update_raw container dt h c =
     (let h2 = Cohort_update_components container dt h c in
      and_then (Cohort_abortion_fraction container c) (\<lambda>af.
        let survival_fraction = max 0 (1 - af * dt);
            c1 = c\<lparr>num_inflorescences := num_inflorescences c * survival_fraction\<rparr>;
            c2 = c1\<lparr>age := age c1 + dt\<rparr>
        in Inr (h2, c2)))"

text \<open>
  A method whose Python name starts with an underscore carries the suffix \<open>_raw\<close>:
  \<open>Cohort_update_raw\<close> is \<open>Cohort._update\<close>.
\<close>

definition Female_should_trigger_flowering :: "Cohort \<Rightarrow> bool" where
  "Female_should_trigger_flowering c = (age c > t_anthesis c \<and> \<not> has_flowered c)"

definition Female_is_harvestible :: "Cohort \<Rightarrow> bool" where
  "Female_is_harvestible c = (age c \<ge> t_maturity c)"

definition Cohort_is_deletable :: "Cohort \<Rightarrow> bool" where
  "Cohort_is_deletable c =
     (case sex c of
        indeterminate \<Rightarrow> age c > t_differentiation c
      | female \<Rightarrow> age c \<ge> t_maturity c
      | male \<Rightarrow> age c > t_maturity c)"

text \<open>
  \<open>set_fruit\<close> creates the mesocarp oil, the mesocarp fibers and the kernels, in this
  order, each with the cohort's age and maturity time, and replaces \<open>components\<close>.
\<close>

definition Female_set_fruit :: "heap \<Rightarrow> Cohort \<Rightarrow> error + heap \<times> Cohort" where
  "Female_set_fruit h c =
     and_then (BunchComponent_init MesocarpOil (Some (Inr (potential_mass_attr c))) (age c)
                 None (t_maturity c)) (\<lambda>oil.
     and_then (BunchComponent_init MesocarpFibers (Some (Inr (potential_mass_attr c))) (age c)
                 None (t_maturity c)) (\<lambda>fibers.
     and_then (BunchComponent_init Kernels (Some (Inr (potential_mass_attr c))) (age c)
                 None (t_maturity c)) (\<lambda>kernels.
       case alloc h oil of (h1, r_oil) \<Rightarrow>
       case alloc h1 fibers of (h2, r_fibers) \<Rightarrow>
       case alloc h2 kernels of (h3, r_kernel) \<Rightarrow>
         Inr (h3, c\<lparr>mesocarp_oil := Some r_oil, mesocarp_fibers := Some r_fibers,
                     kernel := Some r_kernel,
                     components_attr := [stalk c, r_fibers, r_oil, r_kernel],
                     has_flowered := True\<rparr>))))"

definition Female_update :: "Cohorts option \<Rightarrow> real \<Rightarrow> heap \<Rightarrow> Cohort \<Rightarrow> error + heap \<times> Cohort" where
  "Female_update container dt h c =
     and_then (Cohort_update_raw container dt h c) (\<lambda>(h1, c1).
       if Female_should_trigger_flowering c1 then Female_set_fruit h1 c1 else Inr (h1, c1))"

definition Cohort_update :: "Cohorts option \<Rightarrow> real \<Rightarrow> heap \<Rightarrow> Cohort \<Rightarrow> error + heap \<times> Cohort" where
  "Cohort_update container dt h c =
     (if sex c = female then Female_update container dt h c
      else Cohort_update_raw container dt h c)"

subsection \<open>Constructors and the sex split\<close>

definition Indeterminate_t_maturity_raw :: "Cohorts option \<Rightarrow> Cohort \<Rightarrow> error + real" where
  "Indeterminate_t_maturity_raw container c =
     (case container of None \<Rightarrow> Inr (t_maturity_proto c) | Some s \<Rightarrow> Cohorts_t_maturity s)"

definition Indeterminate_days_in_year :: "Cohorts option \<Rightarrow> Cohort \<Rightarrow> error + real" where
  "Indeterminate_days_in_year container c =
     (case container of
        None \<Rightarrow> Inr (days_in_year_attr c)
      | Some s \<Rightarrow> (case cohorts_palm s of None \<Rightarrow> Inl AttributeError
                   | Some p \<Rightarrow> Inr (days_in_year p)))"

definition bunch_FM_to_DM_ratio :: real where
  "bunch_FM_to_DM_ratio = 19 / 10"

text \<open>
  \<open>Indeterminate.potential_mass\<close>, with \<open>potential_mass_a = 31\<close>,
  \<open>potential_mass_b = 0.10\<close> and \<open>t_differentiation = 0.2\<close>; it ends with the assertion
  \<open>res_DM >= 0\<close>.
\<close>

definition Indeterminate_potential_mass :: "Cohorts option \<Rightarrow> Cohort \<Rightarrow> error + real" where
  "Indeterminate_potential_mass container c =
     (let a = 31; b = 1 / 10 in
      and_then (Indeterminate_t_maturity_raw container c) (\<lambda>T.
      and_then (Indeterminate_t_maturity_raw container c) (\<lambda>T'.
      and_then (Indeterminate_days_in_year container c) (\<lambda>diy.
      and_then (divide_py (Cohort_DAP container + T - T' * (2 / 10)) diy) (\<lambda>x.
        let res_FM = a * (1 - exp (- b * x));
            res_DM = res_FM / bunch_FM_to_DM_ratio
        in if \<not> res_DM \<ge> 0 then Inl AssertionError else Inr res_DM)))))"

definition Indeterminate_female_fraction :: "Cohorts option \<Rightarrow> Cohort \<Rightarrow> error + real" where
  "Indeterminate_female_fraction container c =
     (case container of None \<Rightarrow> Inr (female_fraction_attr c)
      | Some s \<Rightarrow> Cohorts_female_fraction s)"

text \<open>
  The attributes a constructor does not set are given here: references that do not
  exist yet are \<^term>\<open>None\<close> or 0, numbers are 0.
\<close>

definition blank_cohort :: "sex \<Rightarrow> Cohort" where
  "blank_cohort sx =
     \<lparr>sex = sx, num_inflorescences = 0, age = 0, relative_sink_strength = 0, stalk = 0,
      components_attr = [], abortion_fraction_attr = 0, t_differentiation = 0,
      t_maturity_proto = 0, female_fraction_attr = 0, days_in_year_attr = 0,
      potential_mass_attr = 0, t_maturity = 0, has_flowered = False, t_anthesis = 0,
      inflorescence_abortion_t0 = 0, inflorescence_abortion_dt = 0,
      inflorescence_abortion_t1 = 0, bunch_failure_t0 = 0, bunch_failure_dt = 0,
      bunch_failure_t1 = 0, stress_index_attr = 0, mesocarp_oil = None,
      mesocarp_fibers = None, kernel = None\<rparr>"

definition Indeterminate_init :: "Cohorts option \<Rightarrow> heap \<Rightarrow> error + heap \<times> Cohort" where
  "Indeterminate_init container h =
     (let c0 = (blank_cohort indeterminate)
                 \<lparr>num_inflorescences := 1, t_maturity_proto := 1200,
                  female_fraction_attr := 9 / 10, days_in_year_attr := 365\<rparr> in
      and_then (BunchComponent_init Stalk (Some (Indeterminate_potential_mass container c0)) 0
                  None 1200) (\<lambda>b.
        case alloc h b of (h1, r) \<Rightarrow>
          (let c1 = c0\<lparr>stalk := r, age := 0, relative_sink_strength := 0,
                        abortion_fraction_attr := 0\<rparr> in
           and_then (Indeterminate_t_maturity_raw container c1) (\<lambda>T.
             Inr (h1, c1\<lparr>t_differentiation := T * (2 / 10)\<rparr>)))))"

definition Female_set_event_timings :: "Cohort \<Rightarrow> Cohort" where
  "Female_set_event_timings c =
     (let T = t_maturity c;
          c1 = c\<lparr>t_anthesis := T * (82 / 100)\<rparr>;
          c2 = c1\<lparr>inflorescence_abortion_t0 := T * (75 / 100)\<rparr>;
          c3 = c2\<lparr>inflorescence_abortion_dt := T * (3 / 100)\<rparr>;
          c4 = c3\<lparr>inflorescence_abortion_t1 :=
                    inflorescence_abortion_t0 c3 + inflorescence_abortion_dt c3\<rparr>;
          c5 = c4\<lparr>bunch_failure_t0 := T * (92 / 100)\<rparr>;
          c6 = c5\<lparr>bunch_failure_dt := T * (3 / 100)\<rparr>
      in c6\<lparr>bunch_failure_t1 := bunch_failure_t0 c6 + bunch_failure_dt c6\<rparr>)"

definition Female_init :: "heap \<Rightarrow> real \<Rightarrow> real \<Rightarrow> error + heap \<times> Cohort" where
  "Female_init h potential_mass T =
     (let c0 = (blank_cohort female)
                 \<lparr>num_inflorescences := 1, potential_mass_attr := potential_mass\<rparr> in
      and_then (BunchComponent_init Stalk (Some (Inr (potential_mass_attr c0))) 0 None 1200)
        (\<lambda>b.
          case alloc h b of (h1, r) \<Rightarrow>
            (let c1 = c0\<lparr>stalk := r, components_attr := [r], age := 0,
                          has_flowered := False, t_maturity := T,
                          relative_sink_strength := 0\<rparr>;
                 c2 = Female_set_event_timings c1
             in Inr (h1, c2\<lparr>stress_index_attr := 1\<rparr>))))"

definition Male_init :: "heap \<Rightarrow> real \<Rightarrow> real \<Rightarrow> error + heap \<times> Cohort" where
  "Male_init h potential_mass T =
     (let c0 = (blank_cohort male)
                 \<lparr>potential_mass_attr := potential_mass, num_inflorescences := 1\<rparr> in
      and_then (BunchComponent_init Stalk (Some (Inr (potential_mass_attr c0))) 0 None 1200)
        (\<lambda>b.
          case alloc h b of (h1, r) \<Rightarrow>
            Inr (h1, c0\<lparr>stalk := r, components_attr := [r], age := 0,
                        has_flowered := False, t_maturity := T,
                        relative_sink_strength := 0, abortion_fraction_attr := 0\<rparr>)))"

text \<open>
  \<open>self.stalk.copy()\<close> on the store: the duplicate is a new object.
\<close>

definition copy_component :: "heap \<Rightarrow> ref \<Rightarrow> error + heap \<times> ref" where
  "copy_component h x = and_then (BunchComponent_copy (h ! x)) (\<lambda>d. Inr (alloc h d))"

text \<open>
  \<open>to_male\<close> and \<open>to_female\<close>: the arguments of the constructor are read first
  (\<open>potential_mass\<close>, then \<open>_t_maturity\<close>), the new cohort is built with a stalk of its
  own, that stalk is replaced by a copy of the stalk of the indeterminate cohort, and
  the count and the relative sink strength are split by the female fraction.
\<close>

definition Indeterminate_to_male :: "Cohorts option \<Rightarrow> heap \<Rightarrow> Cohort \<Rightarrow> error + heap \<times> Cohort" where
  "Indeterminate_to_male container h c =
     and_then (Indeterminate_potential_mass container c) (\<lambda>pm.
     and_then (Indeterminate_t_maturity_raw container c) (\<lambda>T.
     and_then (Male_init h pm T) (\<lambda>(h1, cohort).
     and_then (copy_component h1 (stalk c)) (\<lambda>(h2, r).
       let cohort1 = cohort\<lparr>stalk := r\<rparr>;
           cohort2 = cohort1\<lparr>components_attr := [stalk cohort1]\<rparr>;
           cohort3 = cohort2\<lparr>age := age c\<rparr>
       in and_then (Indeterminate_female_fraction container c) (\<lambda>ff.
            let f = 1 - ff;
                cohort4 = cohort3\<lparr>num_inflorescences := f * num_inflorescences c\<rparr>
            in Inr (h2, cohort4\<lparr>relative_sink_strength :=
                                    f * relative_sink_strength c\<rparr>))))))"

definition Indeterminate_to_female :: "Cohorts option \<Rightarrow> heap \<Rightarrow> Cohort \<Rightarrow> error + heap \<times> Cohort" where
  "Indeterminate_to_female container h c =
     and_then (Indeterminate_potential_mass container c) (\<lambda>pm.
     and_then (Indeterminate_t_maturity_raw container c) (\<lambda>T.
     and_then (Female_init h pm T) (\<lambda>(h1, cohort).
     and_then (copy_component h1 (stalk c)) (\<lambda>(h2, r).
       let cohort1 = cohort\<lparr>stalk := r\<rparr>;
           cohort2 = cohort1\<lparr>components_attr := [stalk cohort1]\<rparr>;
           cohort3 = cohort2\<lparr>age := age c\<rparr>
       in and_then (Indeterminate_female_fraction container c) (\<lambda>f.
            let cohort4 = cohort3\<lparr>num_inflorescences := f * num_inflorescences c\<rparr>
            in Inr (h2, cohort4\<lparr>relative_sink_strength :=
                                    f * relative_sink_strength c\<rparr>))))))"

subsection \<open>The update of the container (\<open>cohorts_container.py\<close>)\<close>

text \<open>
  Every cohort of the container was built with the container as its \<open>_container\<close>, so
  the iterations pass the container to the methods of the cohorts. These methods read the
  container's rates and palm, never its list of cohorts.
\<close>

fun update_existing_loop :: "Cohorts \<Rightarrow> real \<Rightarrow> Cohort list \<Rightarrow> heap \<Rightarrow> error + heap \<times> Cohort list" where
  "update_existing_loop s dt [] h = Inr (h, [])"
| "update_existing_loop s dt (c # cs) h =
     and_then (Cohort_update (Some s) dt h c) (\<lambda>(h1, c1).
       and_then (update_existing_loop s dt cs h1) (\<lambda>(h2, cs').
         Inr (h2, c1 # cs')))"

definition Cohorts_update_existing_cohorts :: "real \<Rightarrow> heap \<Rightarrow> Cohorts \<Rightarrow> error + heap \<times> Cohorts" where
  "Cohorts_update_existing_cohorts dt h s =
     and_then (update_existing_loop s dt (cohorts s) h) (\<lambda>(h1, cs).
       Inr (h1, s\<lparr>cohorts := cs\<rparr>))"

fun update_sex_loop :: "Cohorts \<Rightarrow> Cohort list \<Rightarrow> heap \<Rightarrow> error + heap \<times> Cohort list" where
  "update_sex_loop s [] h = Inr (h, [])"
| "update_sex_loop s (c # cs) h =
     (if sex c = indeterminate \<and> age c > t_differentiation c
      then and_then (Indeterminate_to_female (Some s) h c) (\<lambda>(h1, f).
           and_then (Indeterminate_to_male (Some s) h1 c) (\<lambda>(h2, m).
           and_then (update_sex_loop s cs h2) (\<lambda>(h3, cs').
             Inr (h3, f # m # cs'))))
      else and_then (update_sex_loop s cs h) (\<lambda>(h1, cs'). Inr (h1, c # cs')))"

definition Cohorts_update_sex :: "heap \<Rightarrow> Cohorts \<Rightarrow> error + heap \<times> Cohorts" where
  "Cohorts_update_sex h s =
     and_then (update_sex_loop s (cohorts s) h) (\<lambda>(h1, cs).
       Inr (h1, s\<lparr>cohorts := cs\<rparr>))"

definition Cohorts_update_new_cohorts :: "real \<Rightarrow> heap \<Rightarrow> Cohorts \<Rightarrow> error + heap \<times> Cohorts" where
  "Cohorts_update_new_cohorts dt h s =
     and_then (Indeterminate_init (Some s) h) (\<lambda>(h1, new_cohort).
       and_then (Cohorts_initiation_rate s) (\<lambda>rate.
         let new_cohort1 = new_cohort\<lparr>num_inflorescences := rate * dt\<rparr>
         in Inr (h1, s\<lparr>cohorts := cohorts s @ [new_cohort1]\<rparr>)))"

definition Cohorts_females :: "Cohorts \<Rightarrow> Cohort list" where
  "Cohorts_females s = filter (\<lambda>x. sex x = female) (cohorts s)"

definition Cohorts_get_potential_sink_strength :: "heap \<Rightarrow> Cohorts \<Rightarrow> real" where
  "Cohorts_get_potential_sink_strength h s =
     sum_list (map (Cohort_cohort_sink_strength h) (cohorts s))"

definition Cohort_set_relative_sink_strength :: "Cohorts option \<Rightarrow> heap \<Rightarrow> Cohort \<Rightarrow> Cohort" where
  "Cohort_set_relative_sink_strength container h c =
     (let res = Cohort_get_relative_sink_strength container h c
      in c\<lparr>relative_sink_strength := res\<rparr>)"

definition Cohorts_set_relative_sink_strengths :: "heap \<Rightarrow> Cohorts \<Rightarrow> Cohorts" where
  "Cohorts_set_relative_sink_strengths h s =
     s\<lparr>cohorts := map (Cohort_set_relative_sink_strength (Some s) h) (cohorts s)\<rparr>"

text \<open>
  The parts of \<open>Cohorts.update\<close>, in the order of the source. \<open>Cohorts_update_population\<close>
  is the part up to the new indeterminate cohort. \<open>Cohorts_record_harvest\<close> is
  \<open>harvest = [x for x in self._females if x.is_harvestible]\<close> followed by
  \<open>if harvest: last_cohort = harvest[0]; self._bunches = [last_cohort]\<close>.
  \<open>Cohorts_remove_deletable\<close> is the filter on \<open>is_deletable\<close>.
\<close>

definition Cohorts_update_population :: "real \<Rightarrow> heap \<Rightarrow> Cohorts \<Rightarrow> error + heap \<times> Cohorts" where
  "Cohorts_update_population dt h s =
     (let s1 = s\<lparr>assim_growth := Cohorts_get_assim_growth s\<rparr> in
      and_then (Cohorts_update_existing_cohorts dt h s1) (\<lambda>(h2, s2).
      and_then (Cohorts_update_sex h2 s2) (\<lambda>(h3, s3).
        Cohorts_update_new_cohorts dt h3 s3)))"

definition Cohorts_harvest :: "Cohorts \<Rightarrow> Cohort list" where
  "Cohorts_harvest s = filter Female_is_harvestible (Cohorts_females s)"

definition Cohorts_record_harvest :: "Cohorts \<Rightarrow> Cohorts" where
  "Cohorts_record_harvest s =
     (case Cohorts_harvest s of
        [] \<Rightarrow> s
      | last_cohort # rest \<Rightarrow> s\<lparr>bunches := [last_cohort]\<rparr>)"

definition Cohorts_remove_deletable :: "Cohorts \<Rightarrow> Cohorts" where
  "Cohorts_remove_deletable s =
     s\<lparr>cohorts := filter (\<lambda>x. \<not> Cohort_is_deletable x) (cohorts s)\<rparr>"

definition Cohorts_update :: "real \<Rightarrow> heap \<Rightarrow> Cohorts \<Rightarrow> error + heap \<times> Cohorts" where
  "Cohorts_update dt h s =
     and_then (Cohorts_update_population dt h s) (\<lambda>(h4, s4).
       let s5 = Cohorts_record_harvest s4;
           s6 = Cohorts_remove_deletable s5;
           s7 = s6\<lparr>potential_sink_strength := Cohorts_get_potential_sink_strength h4 s6\<rparr>
       in Inr (h4, Cohorts_set_relative_sink_strengths h4 s7))"

text \<open>
  The lifetime of one cohort: the container calls \<open>update(dt)\<close> once per step, with the
  container as it is at that step. \<open>Cohort_run\<close> returns the store and the cohort after
  each update, or the first error.
\<close>

fun Cohort_run :: "(Cohorts option \<times> real) list \<Rightarrow> heap \<Rightarrow> Cohort \<Rightarrow> error + (heap \<times> Cohort) list" where
  "Cohort_run [] h c = Inr []"
| "Cohort_run ((container, dt) # steps) h c =
     and_then (Cohort_update container dt h c) (\<lambda>(h1, c1).
       and_then (Cohort_run steps h1 c1) (\<lambda>rest. Inr ((h1, c1) # rest)))"

section \<open>Predicates and example objects of the statements\<close>

text \<open>
  Both raw fractions of a female cohort have the value \<open>1 - exp(-0.95 x)\<close> at the stress
  index \<open>x\<close>, and each is read only while the cohort's age is in its window.
\<close>

definition stress_response :: "real \<Rightarrow> real" where
  "stress_response x = 1 - exp (- (95 / 100) * x)"

definition in_inflorescence_abortion_window :: "Cohort \<Rightarrow> bool" where
  "in_inflorescence_abortion_window c =
     (inflorescence_abortion_t0 c \<le> age c \<and> age c < inflorescence_abortion_t1 c)"

definition in_bunch_failure_window :: "Cohort \<Rightarrow> bool" where
  "in_bunch_failure_window c = (bunch_failure_t0 c \<le> age c \<and> age c < bunch_failure_t1 c)"

text \<open>The classes of the components behind a list of references.\<close>

definition kinds :: "heap \<Rightarrow> ref list \<Rightarrow> component_kind list" where
  "kinds h xs = map (\<lambda>x. bc_kind (h ! x)) xs"

text \<open>What holds of a female cohort that has flowered, at every later moment.\<close>

definition flowered_like :: "heap \<Rightarrow> Cohort \<Rightarrow> heap \<times> Cohort \<Rightarrow> bool" where
  "flowered_like h c st =
     (case st of (h', c') \<Rightarrow>
        has_flowered c' \<and> \<not> Female_should_trigger_flowering c'
        \<and> components_attr c' = components_attr c \<and> length h' = length h
        \<and> kinds h' (components_attr c') = kinds h (components_attr c))"

text \<open>
  A female cohort of potential mass 10 and maturity time 1200 at age 980, shortly before
  its anthesis at 984, with its stalk; and the same cohort after one update of 10 days,
  in which it has flowered, with the three components that \<open>set_fruit\<close> has created.
\<close>

definition example_stalk :: BunchComponent where
  "example_stalk =
     \<lparr>bc_kind = Stalk, bc_potential_mass = 5 / 2, bc_t_maturity = 1200,
      bc_potential_growth_function = \<lparr>qf_x1 = 0, qf_x2 = 900, qf_h = 1 / 240\<rparr>,
      bc_mass = 2, bc_age = 980, bc_potential_sink_strength = 0,
      bc_assim_growth_attr = 0, bc_total_mass_attr = 0\<rparr>"

definition example_female :: Cohort where
  "example_female =
     Female_set_event_timings
       ((blank_cohort female)
          \<lparr>num_inflorescences := 9 / 10, age := 980, relative_sink_strength := 1,
           stalk := 0, components_attr := [0], potential_mass_attr := 10,
           t_maturity := 1200, stress_index_attr := 1\<rparr>)"

definition example_oil :: BunchComponent where
  "example_oil =
     \<lparr>bc_kind = MesocarpOil, bc_potential_mass = 7 / 2, bc_t_maturity = 1200,
      bc_potential_growth_function = \<lparr>qf_x1 = 1080, qf_x2 = 1140, qf_h = 7 / 80\<rparr>,
      bc_mass = 0, bc_age = 990, bc_potential_sink_strength = 0,
      bc_assim_growth_attr = 0, bc_total_mass_attr = 0\<rparr>"

definition example_fibers :: BunchComponent where
  "example_fibers =
     \<lparr>bc_kind = MesocarpFibers, bc_potential_mass = 7 / 2, bc_t_maturity = 1200,
      bc_potential_growth_function = \<lparr>qf_x1 = 990, qf_x2 = 1140, qf_h = 7 / 200\<rparr>,
      bc_mass = 0, bc_age = 990, bc_potential_sink_strength = 0,
      bc_assim_growth_attr = 0, bc_total_mass_attr = 0\<rparr>"

definition example_kernels :: BunchComponent where
  "example_kernels =
     \<lparr>bc_kind = Kernels, bc_potential_mass = 1 / 2, bc_t_maturity = 1200,
      bc_potential_growth_function = \<lparr>qf_x1 = 1050, qf_x2 = 1170, qf_h = 1 / 160\<rparr>,
      bc_mass = 0, bc_age = 990, bc_potential_sink_strength = 0,
      bc_assim_growth_attr = 0, bc_total_mass_attr = 0\<rparr>"

definition example_flowered :: Cohort where
  "example_flowered =
     example_female
       \<lparr>age := 990, mesocarp_oil := Some 1, mesocarp_fibers := Some 2, kernel := Some 3,
        components_attr := [0, 2, 1, 3], has_flowered := True\<rparr>"

text \<open>
  When the sex split of an indeterminate cohort cannot raise: its stalk exists and has a
  maturity time other than 0, and the clock that the potential mass is computed from is
  not negative (the days after planting with a palm, the prototype maturity time
  without a container) with a positive year length.
\<close>

definition Indeterminate_split_ready :: "Cohorts option \<Rightarrow> heap \<Rightarrow> Cohort \<Rightarrow> bool" where
  "Indeterminate_split_ready container h c =
     (stalk c < length h \<and> bc_t_maturity (h ! stalk c) \<noteq> 0
      \<and> (case container of
            None \<Rightarrow> 0 \<le> t_maturity_proto c \<and> 0 < days_in_year_attr c
          | Some s \<Rightarrow>
              (case cohorts_palm s of
                 None \<Rightarrow> False
               | Some p \<Rightarrow> 0 \<le> DAP p \<and> 0 < days_in_year p)))"

text \<open>What holds of a male cohort at every moment after the split.\<close>

definition male_like :: "Cohort \<Rightarrow> heap \<times> Cohort \<Rightarrow> bool" where
  "male_like m st =
     (sex (snd st) = male \<and> abortion_fraction_attr (snd st) = 0
      \<and> num_inflorescences (snd st) = num_inflorescences m)"

text \<open>The counts of a cohort over a run, from the count before the first update.\<close>

definition counts :: "Cohort \<Rightarrow> (heap \<times> Cohort) list \<Rightarrow> real list" where
  "counts c states = num_inflorescences c # map (\<lambda>st. num_inflorescences (snd st)) states"

text \<open>
  A palm field eight years after planting, a container in it whose cohorts receive all
  the assimilates they can use, and an indeterminate cohort of the container that is
  due for its sex split, with its stalk.
\<close>

definition example_palm :: Palm where
  "example_palm = \<lparr>planting_density = 143, DAP = 3000, MAP = 98, YAP = 8, days_in_year = 365,
     days_in_month = 30, palm_dt = 10, fronds_initiation_rate = 1 / 16,
     assim_growth_trunk = 20, assim_growth_generative = 50\<rparr>"

definition example_container :: Cohorts where
  "example_container =
     (Cohorts_init (Some example_palm))\<lparr>assim_growth := 50, potential_sink_strength := 50\<rparr>"

definition example_indeterminate_stalk :: BunchComponent where
  "example_indeterminate_stalk =
     \<lparr>bc_kind = Stalk, bc_potential_mass = 2, bc_t_maturity = 1200,
      bc_potential_growth_function = \<lparr>qf_x1 = 0, qf_x2 = 900, qf_h = 1 / 300\<rparr>,
      bc_mass = 3 / 10, bc_age = 280, bc_potential_sink_strength = 1736 / 419175,
      bc_assim_growth_attr = 0, bc_total_mass_attr = 0\<rparr>"

definition example_indeterminate :: Cohort where
  "example_indeterminate =
     (blank_cohort indeterminate)
       \<lparr>num_inflorescences := 12, age := 280, relative_sink_strength := 1 / 4, stalk := 0,
        t_differentiation := 270, t_maturity_proto := 1200, female_fraction_attr := 9 / 10,
        days_in_year_attr := 365\<rparr>"

text \<open>
  The components of a cohort are different objects of the store.
\<close>

definition Cohort_components_valid :: "heap \<Rightarrow> Cohort \<Rightarrow> bool" where
  "Cohort_components_valid h c =
     (distinct (Cohort_components c) \<and> list_all (\<lambda>x. x < length h) (Cohort_components c))"

text \<open>
  The mass that \<open>update_mass\<close> gives a component: the realized growth rate is the
  smaller of the potential growth rate at the component's age and the conversion
  efficiency times the assimilates allocated to it, both read in the store \<open>h\<close>.
\<close>

definition grown_mass :: "Cohorts option \<Rightarrow> Cohort \<Rightarrow> heap \<Rightarrow> real \<Rightarrow> ref \<Rightarrow> real" where
  "grown_mass container c h dt x =
     bc_mass (h ! x)
     + min (func (bc_potential_growth_function (h ! x)) (bc_age (h ! x)))
           (conversion_efficiency (bc_kind (h ! x))
              * BunchComponent_assim_growth (Some (container, c)) h (h ! x)) * dt"

text \<open>
  What every population that the simulation reaches satisfies: no potential sink
  strength in the store is negative, every cohort refers to existing components and has
  a count that is not negative, and the stored total potential sink strength is not
  negative.
\<close>

definition heap_ok :: "heap \<Rightarrow> bool" where
  "heap_ok h = list_all (\<lambda>b. 0 \<le> bc_potential_sink_strength b) h"

definition cohort_ok :: "heap \<Rightarrow> Cohort \<Rightarrow> bool" where
  "cohort_ok h c =
     (stalk c < length h \<and> list_all (\<lambda>x. x < length h) (components_attr c)
      \<and> 0 \<le> num_inflorescences c)"

definition population_ok :: "heap \<Rightarrow> Cohorts \<Rightarrow> bool" where
  "population_ok h s =
     (heap_ok h \<and> list_all (cohort_ok h) (cohorts s) \<and> 0 \<le> potential_sink_strength s)"

text \<open>
  The values that the container reads from the palm are those of a palm field: the days
  after planting, the frond initiation rate and the planting density are not negative
  and a year has a positive number of days.
\<close>

definition Palm_valid :: "Palm \<Rightarrow> bool" where
  "Palm_valid p =
     (0 \<le> DAP p \<and> 0 < days_in_year p \<and> 0 \<le> fronds_initiation_rate p
      \<and> 0 \<le> planting_density p)"

text \<open>
  The populations that a simulation reaches: the container starts empty, and before
  each \<open>update(dt)\<close> the palm has advanced its clock, so that the update reads the palm as
  it is at that step.
\<close>

inductive Cohorts_reachable :: "heap \<Rightarrow> Cohorts \<Rightarrow> bool" where
  initial: "Cohorts_reachable [] (Cohorts_init palm)"
| advance: "Cohorts_reachable h s \<Longrightarrow> Palm_valid p \<Longrightarrow> 0 \<le> dt
     \<Longrightarrow> Cohorts_update dt h (s\<lparr>cohorts_palm := Some p\<rparr>) = Inr (h', s')
     \<Longrightarrow> Cohorts_reachable h' s'"

text \<open>
  A palm field in which the container initiates cohorts: its values are those of a palm
  field, a month has a positive number of days, the onset time of 28 months has passed,
  and the frond initiation rate and the planting density are positive. \<open>next_palm\<close> is
  the example palm ten days later.
\<close>

definition Palm_initiating :: "Palm \<Rightarrow> bool" where
  "Palm_initiating p =
     (Palm_valid p \<and> 0 < days_in_month p \<and> 28 \<le> MAP p \<and> 0 < fronds_initiation_rate p
      \<and> 0 < planting_density p)"

definition next_palm :: Palm where
  "next_palm = example_palm\<lparr>DAP := 3010\<rparr>"

text \<open>
  A new indeterminate cohort and its stalk, as \<open>Indeterminate()\<close> and the initiation
  rate leave them in such a palm field: age 0, a positive count, no abortion, a
  differentiation time of at least 150 days, and a stalk that grows from day 0 to day
  900 and has not started to grow.
\<close>

definition new_cohort_like :: "ref \<Rightarrow> BunchComponent \<Rightarrow> Cohort \<Rightarrow> bool" where
  "new_cohort_like r b c =
     (sex c = indeterminate \<and> stalk c = r \<and> age c = 0 \<and> abortion_fraction_attr c = 0
      \<and> 150 \<le> t_differentiation c \<and> 0 < num_inflorescences c
      \<and> bc_kind b = Stalk \<and> bc_age b = 0 \<and> bc_potential_sink_strength b = 0
      \<and> qf_x1 (bc_potential_growth_function b) = 0
      \<and> qf_x2 (bc_potential_growth_function b) = 900
      \<and> 0 < qf_h (bc_potential_growth_function b))"

text \<open>
  A component as its constructor and the updates leave it: built for a potential mass
  and a maturity time, with a mass, an age and the potential sink strength of that age.
\<close>

definition grown_component :: "component_kind \<Rightarrow> real \<Rightarrow> real \<Rightarrow> real \<Rightarrow> real \<Rightarrow> BunchComponent" where
  "grown_component kind pm T m a =
     (let b = \<lparr>bc_kind = kind, bc_potential_mass = pm, bc_t_maturity = T,
               bc_potential_growth_function =
                 \<lparr>qf_x1 = T * t_growth_start kind, qf_x2 = T * t_growth_end kind,
                  qf_h = (3 / 2) * pm / (T * t_growth_end kind - T * t_growth_start kind)\<rparr>,
               bc_mass = m, bc_age = a, bc_potential_sink_strength = 0,
               bc_assim_growth_attr = 0, bc_total_mass_attr = 0\<rparr>
      in b\<lparr>bc_potential_sink_strength := BunchComponent_get_potential_sink_strength b\<rparr>)"

text \<open>
  A female cohort that has flowered, 1100 days old with a maturity time of 1200 days, in
  the growth windows of its mesocarp fibers, mesocarp oil and kernels, with its four
  components; and a container that holds this cohort alone and allocates the assimilates
  \<open>a\<close> to it, with the potential sink strength of its population.
\<close>

definition growing_heap :: heap where
  "growing_heap =
     [grown_component Stalk (5 / 2) 1200 2 1100,
      grown_component MesocarpOil (7 / 2) 1200 1 1100,
      grown_component MesocarpFibers (7 / 2) 1200 2 1100,
      grown_component Kernels (1 / 2) 1200 (1 / 10) 1100]"

definition growing_female :: Cohort where
  "growing_female =
     Female_set_event_timings
       ((blank_cohort female)
          \<lparr>num_inflorescences := 5, age := 1100, relative_sink_strength := 1, stalk := 0,
           components_attr := [0, 2, 1, 3], potential_mass_attr := 10, t_maturity := 1200,
           has_flowered := True, stress_index_attr := 1, mesocarp_oil := Some 1,
           mesocarp_fibers := Some 2, kernel := Some 3\<rparr>)"

definition growing_container :: "real \<Rightarrow> Cohorts" where
  "growing_container a =
     (let s = (Cohorts_init (Some example_palm))\<lparr>cohorts := [growing_female]\<rparr>
      in s\<lparr>assim_growth := a,
           potential_sink_strength := Cohorts_get_potential_sink_strength growing_heap s\<rparr>)"

text \<open>
  A container ten days before two of its female cohorts are harvestible. The cohorts
  are in the order of their creation: the first is 1195 days old with a maturity time of
  1200 days, the second is 1185 days old with a maturity time of 1195 days. Both have
  flowered and have their four components.
\<close>

definition harvest_heap :: heap where
  "harvest_heap =
     [grown_component Stalk (5 / 2) 1200 2 1195,
      grown_component MesocarpOil (7 / 2) 1200 3 1195,
      grown_component MesocarpFibers (7 / 2) 1200 3 1195,
      grown_component Kernels (1 / 2) 1200 (2 / 5) 1195,
      grown_component Stalk (5 / 2) 1200 2 1185,
      grown_component MesocarpOil (7 / 2) 1195 3 1185,
      grown_component MesocarpFibers (7 / 2) 1195 3 1185,
      grown_component Kernels (1 / 2) 1195 (2 / 5) 1185]"

definition older_female :: Cohort where
  "older_female =
     Female_set_event_timings
       ((blank_cohort female)
          \<lparr>num_inflorescences := 5, age := 1195, stalk := 0, components_attr := [0, 2, 1, 3],
           potential_mass_attr := 10, t_maturity := 1200, has_flowered := True,
           stress_index_attr := 1, mesocarp_oil := Some 1, mesocarp_fibers := Some 2,
           kernel := Some 3\<rparr>)"

definition younger_female :: Cohort where
  "younger_female =
     Female_set_event_timings
       ((blank_cohort female)
          \<lparr>num_inflorescences := 6, age := 1185, stalk := 4, components_attr := [4, 6, 5, 7],
           potential_mass_attr := 10, t_maturity := 1195, has_flowered := True,
           stress_index_attr := 1, mesocarp_oil := Some 5, mesocarp_fibers := Some 6,
           kernel := Some 7\<rparr>)"

definition harvest_container :: Cohorts where
  "harvest_container =
     (Cohorts_init (Some example_palm))\<lparr>cohorts := [older_female, younger_female]\<rparr>"

text \<open>
  The ages of the cohorts in the harvest list before the removal, and of the cohorts
  recorded in \<open>_bunches\<close>, after an update; \<^term>\<open>None\<close> if the update raises.
\<close>

definition harvestible_ages_in_update :: "real \<Rightarrow> heap \<Rightarrow> Cohorts \<Rightarrow> real list option" where
  "harvestible_ages_in_update dt h s =
     (case Cohorts_update_population dt h s of
        Inl e \<Rightarrow> None
      | Inr (h4, s4) \<Rightarrow> Some (map age (Cohorts_harvest s4)))"

definition recorded_ages_after_update :: "real \<Rightarrow> heap \<Rightarrow> Cohorts \<Rightarrow> real list option" where
  "recorded_ages_after_update dt h s =
     (case Cohorts_update dt h s of
        Inl e \<Rightarrow> None
      | Inr (h', s') \<Rightarrow> Some (map age (bunches s')))"

section \<open>Properties of the sequencing\<close>

lemma and_then_Inr [simp]: "and_then (Inr x) f = f x"
  by (simp add: and_then_def)

lemma and_then_Inl [simp]: "and_then (Inl e) f = Inl e"
  by (simp add: and_then_def)

lemma and_then_eq_Inr: "and_then r f = Inr y \<longleftrightarrow> (\<exists>x. r = Inr x \<and> f x = Inr y)"
  by (cases r) simp_all

section \<open>Properties of the partitioning functions\<close>

lemma prioritized_loop_length:
  "length (snd (prioritized_loop S Ds Ss)) = length Ss + length Ds"
  by (induction S Ds Ss rule: prioritized_loop.induct) simp_all

lemma prioritized_loop_sum:
  "sum_list (snd (prioritized_loop S Ds Ss)) + fst (prioritized_loop S Ds Ss)
     = sum_list Ss + S"
  by (induction S Ds Ss rule: prioritized_loop.induct) simp_all

lemma prioritized_loop_nonneg:
  "0 \<le> S \<Longrightarrow> \<forall>D \<in> set Ds. 0 \<le> D \<Longrightarrow> \<forall>x \<in> set Ss. 0 \<le> x
     \<Longrightarrow> 0 \<le> fst (prioritized_loop S Ds Ss)
         \<and> (\<forall>x \<in> set (snd (prioritized_loop S Ds Ss)). 0 \<le> x)"
  by (induction S Ds Ss rule: prioritized_loop.induct) auto

lemma clamp_nonneg_id:
  "\<forall>x \<in> set xs. (0::real) \<le> x \<Longrightarrow> map (\<lambda>x. if x < 0 then 0 else x) xs = xs"
  by (induction xs) auto

lemma prioritized_partitioning_length:
  "length (prioritized_partitioning S Ds) = Suc (length (butlast Ds))"
  using prioritized_loop_length [of S "butlast Ds" "[]"]
  by (cases "prioritized_loop S (butlast Ds) []") (simp add: prioritized_partitioning_def)

lemma prioritized_partitioning_sum:
  assumes "0 \<le> S" and "\<forall>D \<in> set Ds. 0 \<le> D"
  shows "sum_list (prioritized_partitioning S Ds) = S"
proof -
  obtain S' Ss where loop: "prioritized_loop S (butlast Ds) [] = (S', Ss)"
    by (cases "prioritized_loop S (butlast Ds) []")
  have "\<forall>D \<in> set (butlast Ds). 0 \<le> D"
    using assms(2) by (meson in_set_butlastD)
  with assms(1) have "0 \<le> S' \<and> (\<forall>x \<in> set Ss. 0 \<le> x)"
    using prioritized_loop_nonneg [of S "butlast Ds" "[]"] loop by simp
  then have "map (\<lambda>x. if x < 0 then 0 else x) (Ss @ [S']) = Ss @ [S']"
    by (intro clamp_nonneg_id) auto
  moreover have "sum_list Ss + S' = S"
    using prioritized_loop_sum [of S "butlast Ds" "[]"] loop by simp
  ultimately show ?thesis
    by (simp add: prioritized_partitioning_def loop)
qed

lemma sum_list_scale: "sum_list (map (\<lambda>D. c * D) Ds) = c * sum_list (Ds :: real list)"
  by (induction Ds) (simp_all add: distrib_left)

lemma proportionate_partitioning_py_sum:
  assumes "sum_list Ds \<noteq> 0"
  shows "\<exists>Ss. proportionate_partitioning_py S Ds = Inr Ss \<and> length Ss = length Ds
           \<and> sum_list Ss = S"
proof -
  let ?Ss = "map (\<lambda>D. S / sum_list Ds * D) Ds"
  have "sum_list ?Ss = S / sum_list Ds * sum_list Ds"
    by (rule sum_list_scale)
  also have "\<dots> = S" using assms by simp
  finally have sum: "sum_list ?Ss = S" .
  have "proportionate_partitioning_py S Ds = Inr ?Ss"
    using assms by (simp add: proportionate_partitioning_py_def divide_py_def Let_def)
  with sum show ?thesis by (intro exI [of _ ?Ss]) simp
qed

lemma sum_list_blend:
  "length xs = length ys \<Longrightarrow>
     sum_list (map2 (\<lambda>a b. k * a + (1 - k) * b) xs ys)
       = k * sum_list xs + (1 - k) * sum_list (ys :: real list)"
  by (induction xs ys rule: list_induct2) (simp_all add: algebra_simps)

text \<open>
  C10. The three calls of the priority edge case:
  \<open>prioritized_partitioning(2, [1.5, 1])\<close> returns \<open>[1.5, 0.5]\<close>,
  \<open>prioritized_partitioning(2, [2, 1])\<close> returns \<open>[2, 0]\<close> and
  \<open>prioritized_partitioning(4, [2, 1])\<close> returns \<open>[2, 2]\<close>.
\<close>

theorem prioritized_partitioning_edge_cases:
  "prioritized_partitioning 2 [3/2, 1] = [3/2, 1/2]
   \<and> prioritized_partitioning 2 [2, 1] = [2, 0]
   \<and> prioritized_partitioning 4 [2, 1] = [2, 2]"
  by (simp add: prioritized_partitioning_def)

lemma number_value_add [simp]:
  "number_value (number_add a b) = float64_add (number_value a) (number_value b)"
  by (simp add: number_add_def Let_def)

lemma is_numpy_add [simp]: "is_numpy (number_add a b) = (is_numpy a \<or> is_numpy b)"
  by (simp add: number_add_def Let_def)

lemma number_value_mult [simp]:
  "number_value (number_mult a b) = float64_mult (number_value a) (number_value b)"
  by (simp add: number_mult_def Let_def)

lemma is_numpy_foldl:
  "is_numpy (foldl number_add a Ds) = (is_numpy a \<or> (\<exists>D \<in> set Ds. is_numpy D))"
  by (induction Ds arbitrary: a) auto

lemma is_numpy_sum_py: "is_numpy (sum_py Ds) = (\<exists>D \<in> set Ds. is_numpy D)"
  by (simp add: sum_py_def is_numpy_foldl)

lemma foldl_python_numbers:
  "foldl number_add (PyNum (Finite a)) (map (\<lambda>D. PyNum (Finite D)) Ds)
     = PyNum (Finite (a + sum_list Ds))"
  by (induction Ds arbitrary: a) (simp_all add: number_add_def algebra_simps)

lemma sum_py_python_numbers:
  "sum_py (map (\<lambda>D. PyNum (Finite D)) Ds) = PyNum (Finite (sum_list Ds))"
  by (simp add: sum_py_def foldl_python_numbers)

text \<open>
  On finite Python numbers \<open>proportionate_partitioning\<close> raises when
  \<open>proportionate_partitioning_py\<close> does, and returns the same shares otherwise.
\<close>

lemma proportionate_partitioning_python_numbers:
  "proportionate_partitioning (PyNum (Finite S)) (map (\<lambda>D. PyNum (Finite D)) Ds)
     = (case proportionate_partitioning_py S Ds of
          Inl e \<Rightarrow> Inl e
        | Inr Ss \<Rightarrow> Inr (map Finite Ss))"
  by (simp add: proportionate_partitioning_def proportionate_partitioning_py_def
      sum_py_python_numbers number_truediv_def divide_py_def Let_def o_def)

text \<open>
  C9, as stated: for every supply \<open>S\<close>, \<open>proportionate_partitioning(S, D)\<close> on a demand
  list whose sum is 0 returns no value, the division by the zero total demand raises.
  It fails for numpy operands: with the demands \<open>[numpy.float64(0), numpy.float64(0)]\<close>
  the total is a numpy zero, \<open>5 / total_demand\<close> is \<open>inf\<close> with a warning, and the call
  returns the array \<open>[nan, nan]\<close>.
\<close>

theorem proportionate_partitioning_zero_demand_counterexample:
  "number_value (sum_py [NpNum (Finite 0), NpNum (Finite 0)]) = Finite 0
   \<and> proportionate_partitioning (PyNum (Finite 5)) [NpNum (Finite 0), NpNum (Finite 0)]
       = Inr [NaN, NaN]
   \<and> proportionate_partitioning (PyNum (Finite 5)) [NpNum (Finite 0), NpNum (Finite 0)]
       \<noteq> Inl ZeroDivisionError"
  by (simp add: proportionate_partitioning_def sum_py_def number_add_def number_truediv_def
      Let_def)

text \<open>
  C9, amended: for every supply \<open>S\<close> and every demand list \<open>D\<close> whose sum is 0,
  \<open>proportionate_partitioning(S, D)\<close> returns no value and raises \<open>ZeroDivisionError\<close>
  when \<open>S\<close> and all demands are Python numbers; when \<open>S\<close> or a demand is a numpy number
  the call returns the array of the \<open>(S / 0) * Di\<close>, whose entries are \<open>inf\<close>, \<open>-inf\<close> or
  \<open>nan\<close>.
\<close>

theorem proportionate_partitioning_zero_demand:
  assumes "number_value (sum_py Ds) = Finite 0"
  shows "proportionate_partitioning S Ds =
     (if is_numpy S \<or> (\<exists>D \<in> set Ds. is_numpy D)
      then Inr (map (\<lambda>D. float64_mult (float64_divide (number_value S) (Finite 0))
                            (number_value D)) Ds)
      else Inl ZeroDivisionError)"
  using assms
  by (simp add: proportionate_partitioning_def number_truediv_def is_numpy_sum_py Let_def)

theorem proportionate_partitioning_zero_demand_witness:
  "number_value (sum_py [PyNum (Finite 0), PyNum (Finite 0)]) = Finite 0
   \<and> proportionate_partitioning (PyNum (Finite 5)) [PyNum (Finite 0), PyNum (Finite 0)]
       = Inl ZeroDivisionError"
  using proportionate_partitioning_zero_demand
          [of "[PyNum (Finite 0), PyNum (Finite 0)]" "PyNum (Finite 5)"]
  by (simp add: sum_py_def number_add_def)

text \<open>
  C1, as stated: the allocation of \<open>parametrized_partitioning(S, D, k)\<close> sums to
  \<open>min(S, sum(D))\<close> within tolerance. It fails when the supply exceeds the total
  demand: the last demand receives all the supply that is left, so for \<open>S = 4\<close>,
  \<open>D = [2, 1]\<close> and \<open>k = 1\<close> the allocation is \<open>[2, 2]\<close>, of sum 4, while
  \<open>min(S, sum(D))\<close> is 3.
\<close>

theorem parametrized_partitioning_sum_counterexample:
  "parametrized_partitioning 4 [2, 1] 1 = Inr [2, 2]
   \<and> \<not> \<bar>sum_list [2, 2] - min 4 (sum_list [2, 1 :: real])\<bar> \<le> 1 / 10 ^ 9"
  by (simp add: parametrized_partitioning_def prioritized_partitioning_def
      proportionate_partitioning_py_def divide_py_def)

text \<open>
  C1, amended: for every supply \<open>S \<ge> 0\<close>, every demand list \<open>D\<close> with each
  \<open>Di \<ge> 0\<close> and \<open>sum(D) > 0\<close>, and every \<open>k\<close> in \<open>[0, 1]\<close>,
  \<open>parametrized_partitioning(S, D, k)\<close> returns an allocation, one share per demand,
  that sums to the supply \<open>S\<close>.
\<close>

theorem parametrized_partitioning_sum:
  assumes "0 \<le> S" and "\<forall>D \<in> set Ds. 0 \<le> D" and "0 < sum_list Ds"
    and "0 \<le> k" and "k \<le> 1"
  shows "\<exists>Ss. parametrized_partitioning S Ds k = Inr Ss
           \<and> length Ss = length Ds \<and> sum_list Ss = S"
proof -
  from assms(3) have ne: "Ds \<noteq> []" by auto
  obtain Ps where Ps: "proportionate_partitioning_py S Ds = Inr Ps"
    and len: "length Ps = length Ds" and psum: "sum_list Ps = S"
    using proportionate_partitioning_py_sum [of Ds S] assms(3) by auto
  let ?prio = "prioritized_partitioning S Ds"
  have plen: "length ?prio = length Ds"
    using ne by (simp add: prioritized_partitioning_length)
  have "sum_list (map2 (\<lambda>a b. k * a + (1 - k) * b) ?prio Ps)
          = k * sum_list ?prio + (1 - k) * sum_list Ps"
    using plen len by (intro sum_list_blend) simp
  also have "\<dots> = S"
    using prioritized_partitioning_sum [OF assms(1,2)] psum by (simp add: algebra_simps)
  finally show ?thesis
    using Ps plen len by (simp add: parametrized_partitioning_def)
qed

theorem parametrized_partitioning_sum_witness:
  "(0::real) \<le> 4 \<and> (0::real) \<le> 2 \<and> (0::real) \<le> 1 \<and> 0 < sum_list [2, 1 :: real]
   \<and> (0::real) \<le> 4/5 \<and> (4/5 :: real) \<le> 1
   \<and> (\<exists>Ss. parametrized_partitioning 4 [2, 1] (4/5) = Inr Ss
          \<and> length Ss = length [2, 1 :: real] \<and> sum_list Ss = 4)"
  using parametrized_partitioning_sum [of 4 "[2, 1]" "4/5"] by simp

section \<open>Properties of the trunk\<close>

lemma Trunk_update_Some:
  assumes "Trunk_update palm dt s = Inr s'"
  obtains p where "palm = Some p" "Trunk_density palm \<noteq> 0" "days_in_month p \<noteq> 0"
    "trunk_lignified_mass s' = trunk_lignified_mass s
        + trunk_mass s / Trunk_density palm * ((74 / 100) / days_in_month p) * dt"
    "trunk_mass s' = trunk_mass s + (69 / 100) * assim_growth_trunk p * dt"
    "0 \<le> trunk_mass s'" "0 < trunk_lignified_mass s'"
  using assms
  by (auto simp: Trunk_update_def Trunk_lignified_mass_change_rate_def Trunk_volume_def
      and_then_def divide_py_def Let_def Trunk_mass_change_rate_def Trunk_mass_growth_rate_def
      Trunk_mass_loss_rate_def Trunk_assim_growth_def
      split: sum.splits option.splits if_splits)

lemma Trunk_update_mono:
  assumes "Trunk_update palm dt s = Inr s'" "0 \<le> trunk_mass s" "Trunk_step_valid (palm, dt)"
  shows "trunk_lignified_mass s \<le> trunk_lignified_mass s' \<and> 0 \<le> trunk_mass s'"
proof -
  from assms(1) obtain p where p: "palm = Some p"
    "trunk_lignified_mass s' = trunk_lignified_mass s
        + trunk_mass s / Trunk_density palm * ((74 / 100) / days_in_month p) * dt"
    "0 \<le> trunk_mass s'"
    by (rule Trunk_update_Some)
  from assms(3) p(1) have v: "0 \<le> dt" "0 \<le> YAP p" "0 < days_in_month p" by simp_all
  have "0 < Trunk_density palm" using v(2) p(1) by (simp add: Trunk_density_def Trunk_YAP_def)
  then have "0 \<le> trunk_mass s / Trunk_density palm * ((74 / 100) / days_in_month p) * dt"
    using assms(2) v by simp
  with p show ?thesis by simp
qed

lemma dark_lignification_pos: "0 < dark_lignification y"
  by (simp add: dark_lignification_def add_nonneg_pos)

lemma Trunk_final_Nil [simp]: "Trunk_final s [] = Inr s"
  by (simp add: Trunk_final_def)

lemma Trunk_final_Cons:
  "Trunk_final s ((palm, dt) # steps)
     = and_then (Trunk_update palm dt s) (\<lambda>s'. Trunk_final s' steps)"
  by (cases "Trunk_update palm dt s")
     (auto simp: Trunk_final_def and_then_def split: sum.splits)

lemma Trunk_final_append:
  "Trunk_final s (xs @ ys) = and_then (Trunk_final s xs) (\<lambda>s'. Trunk_final s' ys)"
proof (induction xs arbitrary: s)
  case Nil
  show ?case by simp
next
  case (Cons x xs)
  obtain palm dt where x: "x = (palm, dt)" by (cases x)
  show ?case
    unfolding x append_Cons Trunk_final_Cons
    by (cases "Trunk_update palm dt s") (simp_all add: Cons.IH)
qed

lemma dark_update:
  assumes "0 \<le> l"
  shows "Trunk_update (Some (dark_palm_in_year y)) 10
           \<lparr>trunk_mass = 143 / 10, trunk_lignified_mass = l, trunk_assim_growth_attr = 0\<rparr>
         = Inr \<lparr>trunk_mass = 143 / 10, trunk_lignified_mass = l + dark_lignification y,
                trunk_assim_growth_attr = 0\<rparr>"
proof -
  have d: "(762 / 100) * real y + 83 \<noteq> 0"
    using add_nonneg_pos [of "(762 / 100) * real y" 83] by simp
  have "0 < l + dark_lignification y"
    using assms dark_lignification_pos [of y] by simp
  then show ?thesis
    using d
    by (simp add: Trunk_update_def Trunk_lignified_mass_change_rate_def Trunk_volume_def
      divide_py_def Let_def Trunk_mass_change_rate_def Trunk_mass_growth_rate_def
      Trunk_mass_loss_rate_def Trunk_assim_growth_def Trunk_density_def Trunk_YAP_def
      dark_palm_def dark_palm_in_year_def dark_lignification_def)
qed

lemma dark_replicate:
  assumes "0 \<le> l"
  shows "Trunk_final \<lparr>trunk_mass = 143 / 10, trunk_lignified_mass = l, trunk_assim_growth_attr = 0\<rparr>
           (replicate n (Some (dark_palm_in_year y), 10))
         = Inr \<lparr>trunk_mass = 143 / 10,
                trunk_lignified_mass = l + real n * dark_lignification y,
                trunk_assim_growth_attr = 0\<rparr>"
  using assms
proof (induction n arbitrary: l)
  case 0
  show ?case by simp
next
  case (Suc n)
  have "0 \<le> l + dark_lignification y"
    using Suc.prems dark_lignification_pos [of y] by simp
  from Suc.IH [OF this] show ?case
    by (simp add: Trunk_final_Cons dark_update [OF Suc.prems] algebra_simps)
qed

lemma dark_years_run:
  "Trunk_final \<lparr>trunk_mass = 143 / 10, trunk_lignified_mass = 0, trunk_assim_growth_attr = 0\<rparr>
     (dark_years n)
   = Inr \<lparr>trunk_mass = 143 / 10,
          trunk_lignified_mass = (\<Sum>y<n. 36 * dark_lignification y),
          trunk_assim_growth_attr = 0\<rparr>"
proof (induction n)
  case 0
  show ?case by (simp add: dark_years_def)
next
  case (Suc n)
  have nonneg: "0 \<le> (\<Sum>y<n. 36 * dark_lignification y)"
    by (intro sum_nonneg) (simp add: dark_lignification_pos less_imp_le)
  have "dark_years (Suc n) = dark_years n @ dark_year n"
    by (simp add: dark_years_def)
  then show ?case
    by (simp add: Trunk_final_append Suc.IH dark_year_def dark_replicate [OF nonneg])
qed

lemma Trunk_update_rate:
  assumes "Trunk_update palm dt s = Inr s'"
  obtains p where "palm = Some p"
    "Trunk_lignified_mass_change_rate palm s
       = Inr (trunk_mass s / ((762 / 100) * YAP p + 83) * ((74 / 100) / days_in_month p))"
    "trunk_lignified_mass s' = trunk_lignified_mass s
        + trunk_mass s / ((762 / 100) * YAP p + 83) * ((74 / 100) / days_in_month p) * dt"
  using assms
  by (auto simp: Trunk_update_def Trunk_lignified_mass_change_rate_def Trunk_volume_def
      and_then_def divide_py_def Let_def Trunk_density_def Trunk_YAP_def
      split: sum.splits option.splits if_splits)

lemma Trunk_run_length:
  "Trunk_run s steps = Inr states \<Longrightarrow> length states = length steps"
proof (induction steps arbitrary: s states)
  case Nil
  then show ?case by simp
next
  case (Cons st steps)
  obtain palm dt where st: "st = (palm, dt)" by (cases st)
  from Cons.prems st obtain s' states' where
    run: "Trunk_run s' steps = Inr states'" and states: "states = s' # states'"
    by (auto simp: and_then_def split: sum.splits)
  from Cons.IH [OF run] states show ?case by simp
qed

lemma Trunk_run_rate:
  assumes "Trunk_run s steps = Inr states" and "i < length steps"
  shows "\<exists>p. fst (steps ! i) = Some p
     \<and> Trunk_lignified_mass_change_rate (Some p) ((s # states) ! i)
         = Inr (trunk_mass ((s # states) ! i) / ((762 / 100) * YAP p + 83)
                  * ((74 / 100) / days_in_month p))
     \<and> trunk_lignified_mass (states ! i)
         = trunk_lignified_mass ((s # states) ! i)
           + trunk_mass ((s # states) ! i) / ((762 / 100) * YAP p + 83)
               * ((74 / 100) / days_in_month p) * snd (steps ! i)"
  using assms
proof (induction steps arbitrary: s states i)
  case Nil
  then show ?case by simp
next
  case (Cons st steps)
  obtain palm dt where st: "st = (palm, dt)" by (cases st)
  from Cons.prems(1) st obtain s' states' where
    upd: "Trunk_update palm dt s = Inr s'" and run: "Trunk_run s' steps = Inr states'"
    and states: "states = s' # states'"
    by (auto simp: and_then_def split: sum.splits)
  show ?case
  proof (cases i)
    case 0
    from upd obtain p where "palm = Some p"
      "Trunk_lignified_mass_change_rate palm s
         = Inr (trunk_mass s / ((762 / 100) * YAP p + 83) * ((74 / 100) / days_in_month p))"
      "trunk_lignified_mass s' = trunk_lignified_mass s
          + trunk_mass s / ((762 / 100) * YAP p + 83) * ((74 / 100) / days_in_month p) * dt"
      by (rule Trunk_update_rate)
    with 0 st states show ?thesis by simp
  next
    case (Suc j)
    with Cons.prems(2) have j: "j < length steps" by simp
    from Cons.IH [OF run j] Suc states show ?thesis by simp
  qed
qed

lemma Trunk_run_sorted:
  assumes "Trunk_run s steps = Inr states" and "0 \<le> trunk_mass s"
    and "\<forall>st \<in> set steps. Trunk_step_valid st"
  shows "sorted (map trunk_lignified_mass (s # states))"
  using assms
proof (induction steps arbitrary: s states)
  case Nil
  then show ?case by simp
next
  case (Cons st steps)
  obtain palm dt where st: "st = (palm, dt)" by (cases st)
  from Cons.prems(1) st obtain s' states' where
    upd: "Trunk_update palm dt s = Inr s'" and run: "Trunk_run s' steps = Inr states'"
    and states: "states = s' # states'"
    by (auto simp: and_then_def split: sum.splits)
  from Cons.prems(3) st have "Trunk_step_valid (palm, dt)" by simp
  with upd Cons.prems(2)
  have step: "trunk_lignified_mass s \<le> trunk_lignified_mass s'" "0 \<le> trunk_mass s'"
    using Trunk_update_mono by blast+
  from Cons.prems(3) have "\<forall>st \<in> set steps. Trunk_step_valid st" by simp
  with Cons.IH [OF run step(2)] have "sorted (map trunk_lignified_mass (s' # states'))" .
  with step(1) states show ?case by auto
qed

text \<open>
  C3, as stated: the trunk's \<open>lignified_mass\<close> never decreases and its rate is capped so
  that it never exceeds the trunk's \<open>mass\<close>. The second half fails: the rate is
  \<open>volume * lignification_rate / days_in_month\<close> with no bound. In the zero-light case a
  trunk keeps its initial mass of 14.3, and after 16 years (576 updates of 10 days) its
  lignified mass is above 15.
\<close>

theorem Trunk_lignified_mass_cap_counterexample:
  "Trunk_init (Some dark_palm)
     = Inr \<lparr>trunk_mass = 143 / 10, trunk_lignified_mass = 0, trunk_assim_growth_attr = 0\<rparr>
   \<and> Trunk_final \<lparr>trunk_mass = 143 / 10, trunk_lignified_mass = 0, trunk_assim_growth_attr = 0\<rparr>
         (dark_years 16)
     = Inr \<lparr>trunk_mass = 143 / 10,
            trunk_lignified_mass = (\<Sum>y<16. 36 * dark_lignification y),
            trunk_assim_growth_attr = 0\<rparr>
   \<and> \<not> (\<Sum>y<16. 36 * dark_lignification y) \<le> 143 / 10"
proof -
  have "15 < (\<Sum>y<16. 36 * dark_lignification y)"
    by (simp add: eval_nat_numeral dark_lignification_def)
  then show ?thesis
    using dark_years_run [of 16] by (simp add: Trunk_init_def dark_palm_def)
qed

text \<open>
  C3, amended: across every simulated trajectory (each update with \<open>dt \<ge> 0\<close>,
  \<open>YAP \<ge> 0\<close> and a positive month length, from a trunk of nonnegative mass) the
  \<open>lignified_mass\<close> never decreases from one \<open>update(dt)\<close> call to the next. Each update
  adds \<open>rate * dt\<close>, where the rate is \<open>volume * lignification_rate / days_in_month\<close>
  with the volume \<open>mass / (7.62 * YAP + 83)\<close> of the mass before the update; the rate is
  not capped by the mass.
\<close>

theorem Trunk_lignified_mass_never_decreases:
  assumes "Trunk_run s steps = Inr states" and "0 \<le> trunk_mass s"
    and "\<forall>st \<in> set steps. Trunk_step_valid st"
  shows "sorted (map trunk_lignified_mass (s # states))
     \<and> length states = length steps
     \<and> (\<forall>i < length steps. \<exists>p. fst (steps ! i) = Some p
          \<and> Trunk_lignified_mass_change_rate (Some p) ((s # states) ! i)
              = Inr (trunk_mass ((s # states) ! i) / ((762 / 100) * YAP p + 83)
                       * ((74 / 100) / days_in_month p))
          \<and> trunk_lignified_mass (states ! i)
              = trunk_lignified_mass ((s # states) ! i)
                + trunk_mass ((s # states) ! i) / ((762 / 100) * YAP p + 83)
                    * ((74 / 100) / days_in_month p) * snd (steps ! i))"
  using Trunk_run_sorted [OF assms] Trunk_run_length [OF assms(1)]
    Trunk_run_rate [OF assms(1)]
  by blast

theorem Trunk_lignified_mass_never_decreases_witness:
  "Trunk_run \<lparr>trunk_mass = 143 / 10, trunk_lignified_mass = 0, trunk_assim_growth_attr = 0\<rparr>
     [(Some dark_palm, 10), (Some lit_palm, 10), (Some later_palm, 10)]
     = Inr [\<lparr>trunk_mass = 143 / 10, trunk_lignified_mass = 5291 / 124500,
              trunk_assim_growth_attr = 0\<rparr>,
            \<lparr>trunk_mass = 244 / 5, trunk_lignified_mass = 5291 / 62250,
              trunk_assim_growth_attr = 0\<rparr>,
            \<lparr>trunk_mass = 244 / 5, trunk_lignified_mass = 1867165151 / 8743697250,
              trunk_assim_growth_attr = 0\<rparr>]
   \<and> (0::real) \<le> 143 / 10
   \<and> Trunk_step_valid (Some dark_palm, 10)
   \<and> Trunk_step_valid (Some lit_palm, 10)
   \<and> Trunk_step_valid (Some later_palm, 10)
   \<and> sorted [0, 5291 / 124500, 5291 / 62250, 1867165151 / 8743697250 :: real]
   \<and> Trunk_lignified_mass_change_rate (Some later_palm)
        \<lparr>trunk_mass = 244 / 5, trunk_lignified_mass = 5291 / 62250,
              trunk_assim_growth_attr = 0\<rparr>
       = Inr ((244 / 5) / ((762 / 100) * 1 + 83) * ((74 / 100) / 31))
   \<and> (1867165151 / 8743697250 :: real)
       = 5291 / 62250 + (244 / 5) / ((762 / 100) * 1 + 83) * ((74 / 100) / 31) * 10"
proof -
  let ?s = "\<lparr>trunk_mass = 143 / 10, trunk_lignified_mass = 0, trunk_assim_growth_attr = 0\<rparr>"
  let ?s1 = "\<lparr>trunk_mass = 143 / 10, trunk_lignified_mass = 5291 / 124500,
              trunk_assim_growth_attr = 0\<rparr>"
  let ?s2 = "\<lparr>trunk_mass = 244 / 5, trunk_lignified_mass = 5291 / 62250,
              trunk_assim_growth_attr = 0\<rparr>"
  let ?s3 = "\<lparr>trunk_mass = 244 / 5, trunk_lignified_mass = 1867165151 / 8743697250,
              trunk_assim_growth_attr = 0\<rparr>"
  let ?steps = "[(Some dark_palm, 10 :: real), (Some lit_palm, 10), (Some later_palm, 10)]"
  have run: "Trunk_run ?s ?steps = Inr [?s1, ?s2, ?s3]"
    by (simp add: Trunk_update_def Trunk_lignified_mass_change_rate_def Trunk_volume_def
      and_then_def divide_py_def Let_def Trunk_mass_change_rate_def Trunk_mass_growth_rate_def
      Trunk_mass_loss_rate_def Trunk_assim_growth_def Trunk_density_def Trunk_YAP_def
      dark_palm_def lit_palm_def later_palm_def)
  have valid: "\<forall>st \<in> set ?steps. Trunk_step_valid st"
    by (simp add: dark_palm_def lit_palm_def later_palm_def)
  have mass: "0 \<le> trunk_mass ?s" by simp
  have yap: "YAP later_palm = 1" "days_in_month later_palm = 31"
    by (simp_all add: later_palm_def dark_palm_def)
  note res = Trunk_lignified_mass_never_decreases [OF run mass valid]
  from res have srt: "sorted [0, 5291 / 124500, 5291 / 62250, 1867165151 / 8743697250 :: real]"
    by simp
  from res have "\<exists>p. fst (?steps ! 2) = Some p
          \<and> Trunk_lignified_mass_change_rate (Some p) ((?s # [?s1, ?s2, ?s3]) ! 2)
              = Inr (trunk_mass ((?s # [?s1, ?s2, ?s3]) ! 2) / ((762 / 100) * YAP p + 83)
                       * ((74 / 100) / days_in_month p))
          \<and> trunk_lignified_mass ([?s1, ?s2, ?s3] ! 2)
              = trunk_lignified_mass ((?s # [?s1, ?s2, ?s3]) ! 2)
                + trunk_mass ((?s # [?s1, ?s2, ?s3]) ! 2) / ((762 / 100) * YAP p + 83)
                    * ((74 / 100) / days_in_month p) * snd (?steps ! 2)"
    by (elim conjE allE [of _ 2] impE) simp_all
  then obtain p where p: "fst (?steps ! 2) = Some p"
     "Trunk_lignified_mass_change_rate (Some p) ((?s # [?s1, ?s2, ?s3]) ! 2)
              = Inr (trunk_mass ((?s # [?s1, ?s2, ?s3]) ! 2) / ((762 / 100) * YAP p + 83)
                       * ((74 / 100) / days_in_month p))"
     "trunk_lignified_mass ([?s1, ?s2, ?s3] ! 2)
              = trunk_lignified_mass ((?s # [?s1, ?s2, ?s3]) ! 2)
                + trunk_mass ((?s # [?s1, ?s2, ?s3]) ! 2) / ((762 / 100) * YAP p + 83)
                    * ((74 / 100) / days_in_month p) * snd (?steps ! 2)"
    by blast
  from p(1) have pl: "p = later_palm" by simp
  have "Trunk_lignified_mass_change_rate (Some later_palm) ?s2
       = Inr ((244 / 5) / ((762 / 100) * 1 + 83) * ((74 / 100) / 31))"
    using p(2) unfolding pl yap by simp
  moreover have "(1867165151 / 8743697250 :: real)
       = 5291 / 62250 + (244 / 5) / ((762 / 100) * 1 + 83) * ((74 / 100) / 31) * 10"
    by simp
  ultimately show ?thesis using run valid srt by simp
qed

section \<open>Properties of a cohort\<close>

lemma Cohorts_Ic_le_1: "Cohorts_Ic s \<le> 1"
  by (simp add: Cohorts_Ic_def Let_def)

lemma Cohorts_stress_index_nonneg: "0 \<le> Cohorts_stress_index s"
  using Cohorts_Ic_le_1 [of s] by (simp add: Cohorts_stress_index_def)

lemma stress_response_bounds: "0 \<le> x \<Longrightarrow> 0 \<le> stress_response x \<and> stress_response x < 1"
  by (simp add: stress_response_def)

lemma inv_exp_eq: "1 - 1 / exp (95 / 100 * x) = stress_response x"
  by (simp add: stress_response_def exp_minus inverse_eq_divide)

lemma Female_inflorescence_abortion_fraction_raw_eq:
  "0 \<le> Female_stress_index container c \<Longrightarrow>
   Female_inflorescence_abortion_fraction_raw container c
     = Inr (stress_response (Female_stress_index container c))"
  unfolding Female_inflorescence_abortion_fraction_raw_def Let_def inv_exp_eq
  using stress_response_bounds [of "Female_stress_index container c"] by simp

lemma Female_bunch_failure_fraction_raw_eq:
  "0 \<le> Female_stress_index container c \<Longrightarrow>
   Female_bunch_failure_fraction_raw container c
     = Inr (stress_response (Female_stress_index container c))"
  using stress_response_bounds [of "Female_stress_index container c"]
  by (simp add: Female_bunch_failure_fraction_raw_def Let_def stress_response_def)

lemma Female_abortion_fraction_eq:
  assumes "0 \<le> Female_stress_index container c"
  shows "Female_abortion_fraction container c =
           Inr ((if in_inflorescence_abortion_window c
                 then stress_response (Female_stress_index container c) else 0)
              + (if in_bunch_failure_window c
                 then stress_response (Female_stress_index container c) else 0))"
  using assms
  by (simp add: Female_abortion_fraction_def Female_inflorescence_abortion_fraction_def
      Female_bunch_failure_fraction_def stress_inflorescence_abortion_def
      stress_bunch_failure_def Female_inflorescence_abortion_fraction_raw_eq
      Female_bunch_failure_fraction_raw_eq in_inflorescence_abortion_window_def
      in_bunch_failure_window_def Let_def)

lemma growth_window_nonzero: "T \<noteq> 0 \<Longrightarrow> T * t_growth_end kind - T * t_growth_start kind \<noteq> 0"
  by (cases kind) simp_all

lemma func_nonneg: "0 \<le> func q x"
  by (simp add: func_def Let_def)

lemma conversion_efficiency_pos: "0 < conversion_efficiency kind"
  by (cases kind) simp_all

lemma get_potential_sink_strength_nonneg: "0 \<le> BunchComponent_get_potential_sink_strength b"
  unfolding BunchComponent_get_potential_sink_strength_def
      BunchComponent_mass_growth_rate_potential_def Let_def
  by (intro divide_nonneg_pos func_nonneg conversion_efficiency_pos)

lemma BunchComponent_init_result:
  assumes "BunchComponent_init kind own a pmo T = Inr b"
  shows "bc_kind b = kind \<and> bc_mass b = 0 \<and> bc_age b = a \<and> bc_t_maturity b = T
         \<and> bc_potential_sink_strength b = BunchComponent_get_potential_sink_strength b
         \<and> (\<forall>pm. pmo = Some pm \<longrightarrow> bc_potential_mass b = pm)"
  using assms
  by (auto simp: BunchComponent_init_def and_then_eq_Inr Let_def make_quadratic_function_def
      BunchComponent_get_potential_sink_strength_def
      BunchComponent_mass_growth_rate_potential_def)

lemma BunchComponent_init_returns:
  assumes "T \<noteq> 0" and "pmo \<noteq> None \<or> (\<exists>total. own = Some (Inr total))"
  shows "\<exists>b. BunchComponent_init kind own a pmo T = Inr b"
proof -
  from assms(2) obtain pm where
    "(case pmo of Some pm \<Rightarrow> Inr pm
      | None \<Rightarrow> (case own of None \<Rightarrow> Inl AttributeError
                   | Some r \<Rightarrow> and_then r (\<lambda>total. Inr (potential_mass_fraction kind * total))))
       = (Inr pm :: error + real)"
    by (cases pmo) auto
  then show ?thesis
    using growth_window_nonzero [OF assms(1), of kind]
    by (simp add: BunchComponent_init_def Let_def make_quadratic_function_def divide_py_def)
qed

lemma BunchComponent_copy_returns:
  assumes "bc_t_maturity b \<noteq> 0"
  shows "\<exists>d. BunchComponent_copy b = Inr d \<and> bc_kind d = bc_kind b \<and> bc_mass d = bc_mass b
           \<and> bc_age d = bc_age b \<and> bc_t_maturity d = bc_t_maturity b
           \<and> bc_potential_mass d = bc_potential_mass b
           \<and> bc_potential_sink_strength d = BunchComponent_get_potential_sink_strength d"
proof -
  obtain d0 where d0: "BunchComponent_init (bc_kind b) None 0 (Some (bc_potential_mass b))
                 (bc_t_maturity b) = Inr d0"
    using BunchComponent_init_returns [OF assms, of "Some (bc_potential_mass b)" None "bc_kind b" 0]
    by auto
  from BunchComponent_init_result [OF d0] d0 show ?thesis
    by (simp add: BunchComponent_copy_def Let_def BunchComponent_get_potential_sink_strength_def
      BunchComponent_mass_growth_rate_potential_def)
qed

lemma update_mass_loop_length [simp]: "length (update_mass_loop container c dt xs h) = length h"
  by (induction xs arbitrary: h) simp_all

lemma update_age_loop_length [simp]: "length (update_age_loop dt xs h) = length h"
  by (induction xs arbitrary: h) simp_all

lemma Cohort_update_components_length [simp]:
  "length (Cohort_update_components container dt h c) = length h"
  by (simp add: Cohort_update_components_def Let_def)

lemma Cohort_update_raw_result:
  assumes "Cohort_abortion_fraction container c = Inr af"
  shows "Cohort_update_raw container dt h c =
           Inr (Cohort_update_components container dt h c,
                c\<lparr>num_inflorescences := num_inflorescences c * max 0 (1 - af * dt),
                  age := age c + dt\<rparr>)"
  using assms by (simp add: Cohort_update_raw_def Let_def)

lemma Female_stress_index_nonneg:
  "0 \<le> stress_index_attr c \<Longrightarrow> 0 \<le> Female_stress_index container c"
  by (cases container) (simp_all add: Female_stress_index_def Cohorts_stress_index_nonneg)

lemma Female_abortion_fraction_returns:
  assumes "sex c = female" and "0 \<le> stress_index_attr c"
  shows "\<exists>af. Cohort_abortion_fraction container c = Inr af \<and> 0 \<le> af
           \<and> (af \<noteq> 0 \<longrightarrow> in_inflorescence_abortion_window c \<or> in_bunch_failure_window c)"
proof -
  let ?x = "Female_stress_index container c"
  have x: "0 \<le> ?x" using assms(2) by (rule Female_stress_index_nonneg)
  then have "0 \<le> stress_response ?x" using stress_response_bounds by blast
  then show ?thesis
    using assms(1) Female_abortion_fraction_eq [OF x]
    by (auto simp: Cohort_abortion_fraction_def)
qed

lemma Female_set_fruit_returns:
  assumes "t_maturity c \<noteq> 0"
  shows "\<exists>oil fibers kernels.
           Female_set_fruit h c =
             Inr (h @ [oil, fibers, kernels],
                  c\<lparr>mesocarp_oil := Some (length h), mesocarp_fibers := Some (length h + 1),
                    kernel := Some (length h + 2),
                    components_attr := [stalk c, length h + 1, length h, length h + 2],
                    has_flowered := True\<rparr>)
           \<and> bc_kind oil = MesocarpOil \<and> bc_kind fibers = MesocarpFibers
           \<and> bc_kind kernels = Kernels"
proof -
  let ?own = "Some (Inr (potential_mass_attr c)) :: (error + real) option"
  obtain oil where oil: "BunchComponent_init MesocarpOil ?own (age c) None (t_maturity c) = Inr oil"
    using BunchComponent_init_returns [OF assms, of None ?own MesocarpOil "age c"] by auto
  obtain fibers where fibers:
    "BunchComponent_init MesocarpFibers ?own (age c) None (t_maturity c) = Inr fibers"
    using BunchComponent_init_returns [OF assms, of None ?own MesocarpFibers "age c"] by auto
  obtain kernels where kernels:
    "BunchComponent_init Kernels ?own (age c) None (t_maturity c) = Inr kernels"
    using BunchComponent_init_returns [OF assms, of None ?own Kernels "age c"] by auto
  have "Female_set_fruit h c =
             Inr (h @ [oil, fibers, kernels],
                  c\<lparr>mesocarp_oil := Some (length h), mesocarp_fibers := Some (length h + 1),
                    kernel := Some (length h + 2),
                    components_attr := [stalk c, length h + 1, length h, length h + 2],
                    has_flowered := True\<rparr>)"
    by (simp add: Female_set_fruit_def oil fibers kernels alloc_def)
  with BunchComponent_init_result [OF oil] BunchComponent_init_result [OF fibers]
    BunchComponent_init_result [OF kernels]
  show ?thesis by blast
qed

lemma Female_update_flowered:
  assumes "sex c = female" and "has_flowered c"
    and "Cohort_abortion_fraction container c = Inr af"
  shows "Cohort_update container dt h c =
           Inr (Cohort_update_components container dt h c,
                c\<lparr>num_inflorescences := num_inflorescences c * max 0 (1 - af * dt),
                  age := age c + dt\<rparr>)"
  using assms
  by (simp add: Cohort_update_def Female_update_def Cohort_update_raw_result
      Female_should_trigger_flowering_def)

lemma Female_update_returns:
  assumes "sex c = female" and "t_maturity c \<noteq> 0"
    and af: "Cohort_abortion_fraction container c = Inr af"
  shows "\<exists>h' c'. Cohort_update container dt h c = Inr (h', c')
           \<and> num_inflorescences c' = num_inflorescences c * max 0 (1 - af * dt)
           \<and> age c' = age c + dt \<and> sex c' = female \<and> t_maturity c' = t_maturity c
           \<and> stress_index_attr c' = stress_index_attr c
           \<and> (has_flowered c \<longrightarrow> has_flowered c')"
proof -
  let ?c1 = "c\<lparr>num_inflorescences := num_inflorescences c * max 0 (1 - af * dt),
                  age := age c + dt\<rparr>"
  let ?h1 = "Cohort_update_components container dt h c"
  have raw: "Cohort_update_raw container dt h c = Inr (?h1, ?c1)"
    using af by (rule Cohort_update_raw_result)
  show ?thesis
  proof (cases "Female_should_trigger_flowering ?c1")
    case True
    have "t_maturity ?c1 \<noteq> 0" using assms(2) by simp
    from Female_set_fruit_returns [OF this, of ?h1] True raw assms(1)
    show ?thesis
      by (auto simp: Cohort_update_def Female_update_def)
  next
    case False
    with raw assms(1) show ?thesis
      by (simp add: Cohort_update_def Female_update_def)
  qed
qed

lemma list_update_preserve:
  assumes "\<And>b. f (g b) = f b"
  shows "f (h[x := g (h ! x)] ! i) = f (h ! i)"
proof (cases "i = x \<and> x < length h")
  case True
  then show ?thesis using assms by simp
next
  case False
  then show ?thesis by (cases "i = x") (simp_all add: list_update_beyond)
qed

lemma update_mass_kind [simp]: "bc_kind (BunchComponent_update_mass own h dt b) = bc_kind b"
  by (simp add: BunchComponent_update_mass_def)

lemma update_age_kind [simp]: "bc_kind (BunchComponent_update_age dt b) = bc_kind b"
  by (simp add: BunchComponent_update_age_def Let_def)

lemma update_mass_loop_kind: "bc_kind (update_mass_loop container c dt xs h ! i) = bc_kind (h ! i)"
proof (induction xs arbitrary: h)
  case Nil
  show ?case by simp
next
  case (Cons x xs)
  have "bc_kind (h[x := BunchComponent_update_mass (Some (container, c)) h dt (h ! x)] ! i)
          = bc_kind (h ! i)"
    by (rule list_update_preserve) simp
  with Cons.IH show ?case by simp
qed

lemma update_age_loop_kind: "bc_kind (update_age_loop dt xs h ! i) = bc_kind (h ! i)"
proof (induction xs arbitrary: h)
  case Nil
  show ?case by simp
next
  case (Cons x xs)
  have "bc_kind (h[x := BunchComponent_update_age dt (h ! x)] ! i) = bc_kind (h ! i)"
    by (rule list_update_preserve) simp
  with Cons.IH show ?case by simp
qed

lemma Cohort_update_components_kind:
  "bc_kind (Cohort_update_components container dt h c ! i) = bc_kind (h ! i)"
  by (simp add: Cohort_update_components_def Let_def update_age_loop_kind update_mass_loop_kind)

lemma kinds_update_components [simp]:
  "kinds (Cohort_update_components container dt h c) xs = kinds h xs"
  by (simp add: kinds_def Cohort_update_components_kind)

lemma flowered_run:
  assumes "sex c = female" and "has_flowered c" and "0 \<le> stress_index_attr c"
  shows "\<exists>states. Cohort_run steps h c = Inr states \<and> length states = length steps
           \<and> list_all (flowered_like h c) states"
  using assms
proof (induction steps arbitrary: h c)
  case Nil
  show ?case by simp
next
  case (Cons st steps)
  obtain container dt where st: "st = (container, dt)" by (cases st)
  obtain af where af: "Cohort_abortion_fraction container c = Inr af"
    using Female_abortion_fraction_returns [OF Cons.prems(1,3)] by blast
  let ?h1 = "Cohort_update_components container dt h c"
  let ?c1 = "c\<lparr>num_inflorescences := num_inflorescences c * max 0 (1 - af * dt),
                  age := age c + dt\<rparr>"
  have upd: "Cohort_update container dt h c = Inr (?h1, ?c1)"
    using Cons.prems(1,2) af by (rule Female_update_flowered)
  have "sex ?c1 = female" "has_flowered ?c1" "0 \<le> stress_index_attr ?c1"
    using Cons.prems by simp_all
  from Cons.IH [OF this, of ?h1] obtain rest where
    rest: "Cohort_run steps ?h1 ?c1 = Inr rest" "length rest = length steps"
      "list_all (flowered_like ?h1 ?c1) rest"
    by blast
  have here: "flowered_like h c (?h1, ?c1)"
    using Cons.prems(2) by (simp add: flowered_like_def Female_should_trigger_flowering_def)
  have "flowered_like h c x" if "flowered_like ?h1 ?c1 x" for x
    using that by (cases x) (auto simp: flowered_like_def)
  with rest(3) have "list_all (flowered_like h c) rest"
    by (simp add: list_all_iff)
  with here rest(1,2) upd st show ?case by simp
qed

lemmas example_defs = example_stalk_def example_female_def example_oil_def example_fibers_def
  example_kernels_def example_flowered_def Female_set_event_timings_def blank_cohort_def

lemmas cohort_eval_defs = Cohort_update_def Female_update_def Cohort_update_raw_def
  Cohort_update_components_def Cohort_components_def Cohort_abortion_fraction_def
  Female_abortion_fraction_def Female_inflorescence_abortion_fraction_def
  Female_bunch_failure_fraction_def Female_should_trigger_flowering_def
  Female_set_fruit_def BunchComponent_init_def make_quadratic_function_def divide_py_def
  alloc_def BunchComponent_update_mass_def BunchComponent_update_age_def
  BunchComponent_mass_growth_rate_def BunchComponent_mass_growth_rate_potential_def
  BunchComponent_get_potential_sink_strength_def func_def Let_def
  stress_inflorescence_abortion_def stress_bunch_failure_def
  BunchComponent_assim_growth_def BunchComponent_relative_sink_strength_def
  Cohort_assim_growth_organ_def Cohort_assim_growth_cohort_def
  Cohort_cohort_sink_strength_def Cohort_potential_sink_strength_def

lemma example_update:
  "Cohort_update None 10 [example_stalk] example_female
     = Inr ([example_stalk\<lparr>bc_age := 990\<rparr>, example_oil, example_fibers, example_kernels],
            example_flowered)"
  by (simp add: example_defs cohort_eval_defs)

lemma Female_update_flowering:
  assumes "sex c = female" and "t_maturity c \<noteq> 0" and "0 \<le> stress_index_attr c"
    and "\<not> has_flowered c" and "age c + dt > t_anthesis c"
    and "stalk c < length h" and "bc_kind (h ! stalk c) = Stalk"
  shows "\<exists>h' c'. Cohort_update container dt h c = Inr (h', c')
           \<and> has_flowered c' \<and> sex c' = female \<and> t_maturity c' \<noteq> 0
           \<and> 0 \<le> stress_index_attr c'
           \<and> length h' = length h + 3
           \<and> components_attr c' = [stalk c, length h + 1, length h, length h + 2]
           \<and> kinds h' (components_attr c') = [Stalk, MesocarpFibers, MesocarpOil, Kernels]"
proof -
  obtain af where af: "Cohort_abortion_fraction container c = Inr af"
    using Female_abortion_fraction_returns [OF assms(1,3)] by blast
  let ?c1 = "c\<lparr>num_inflorescences := num_inflorescences c * max 0 (1 - af * dt),
                  age := age c + dt\<rparr>"
  let ?h1 = "Cohort_update_components container dt h c"
  have raw: "Cohort_update_raw container dt h c = Inr (?h1, ?c1)"
    using af by (rule Cohort_update_raw_result)
  have trig: "Female_should_trigger_flowering ?c1"
    using assms(4,5) by (simp add: Female_should_trigger_flowering_def)
  have "t_maturity ?c1 \<noteq> 0" using assms(2) by simp
  from Female_set_fruit_returns [OF this, of ?h1] obtain oil fibers kernels where
    fruit: "Female_set_fruit ?h1 ?c1 =
             Inr (?h1 @ [oil, fibers, kernels],
                  ?c1\<lparr>mesocarp_oil := Some (length ?h1), mesocarp_fibers := Some (length ?h1 + 1),
                    kernel := Some (length ?h1 + 2),
                    components_attr := [stalk ?c1, length ?h1 + 1, length ?h1, length ?h1 + 2],
                    has_flowered := True\<rparr>)"
    and k: "bc_kind oil = MesocarpOil" "bc_kind fibers = MesocarpFibers"
      "bc_kind kernels = Kernels"
    by blast
  have stalk_kind: "bc_kind ((?h1 @ [oil, fibers, kernels]) ! stalk c) = Stalk"
    using assms(6,7) by (simp add: nth_append Cohort_update_components_kind)
  have upd: "Cohort_update container dt h c =
             Inr (?h1 @ [oil, fibers, kernels],
                  ?c1\<lparr>mesocarp_oil := Some (length ?h1), mesocarp_fibers := Some (length ?h1 + 1),
                    kernel := Some (length ?h1 + 2),
                    components_attr := [stalk ?c1, length ?h1 + 1, length ?h1, length ?h1 + 2],
                    has_flowered := True\<rparr>)"
    using raw trig fruit assms(1) by (simp add: Cohort_update_def Female_update_def)
  show ?thesis
    unfolding upd using assms(1,2,3) stalk_kind k
    by (simp add: kinds_def nth_append)
qed

text \<open>
  C7. \<open>set_fruit\<close> is one-shot. For a female cohort that has flowered,
  \<open>should_trigger_flowering\<close> is false, and after every later update the cohort has still
  flowered, does not trigger flowering, and has the same \<open>components\<close>, of the same
  classes, in a store of the same size: no component is added. The update in which a
  female cohort flowers returns a cohort that has flowered, whose \<open>components\<close> are four
  distinct objects: the stalk, one mesocarp fibers, one mesocarp oil and one kernels
  component, the last three new in the store.
\<close>

theorem Female_set_fruit_one_shot:
  assumes "sex c = female" and "0 \<le> stress_index_attr c" and "t_maturity c \<noteq> 0"
  shows "(has_flowered c \<longrightarrow>
            \<not> Female_should_trigger_flowering c
            \<and> (\<exists>states. Cohort_run steps h c = Inr states \<and> length states = length steps
                  \<and> list_all (flowered_like h c) states))
       \<and> (\<not> has_flowered c \<and> age c + dt > t_anthesis c
            \<and> stalk c < length h \<and> bc_kind (h ! stalk c) = Stalk \<longrightarrow>
            (\<exists>h' c'. Cohort_update container dt h c = Inr (h', c')
               \<and> sex c' = female \<and> 0 \<le> stress_index_attr c' \<and> t_maturity c' \<noteq> 0
               \<and> has_flowered c' \<and> length h' = length h + 3
               \<and> distinct (components_attr c')
               \<and> kinds h' (components_attr c') = [Stalk, MesocarpFibers, MesocarpOil, Kernels]))"
proof (intro conjI impI)
  assume "has_flowered c"
  then show "\<not> Female_should_trigger_flowering c"
    by (simp add: Female_should_trigger_flowering_def)
next
  assume "has_flowered c"
  with assms show "\<exists>states. Cohort_run steps h c = Inr states \<and> length states = length steps
                  \<and> list_all (flowered_like h c) states"
    by (intro flowered_run)
next
  assume a: "\<not> has_flowered c \<and> age c + dt > t_anthesis c
            \<and> stalk c < length h \<and> bc_kind (h ! stalk c) = Stalk"
  from Female_update_flowering [of c dt h container] assms a
  obtain h' c' where r: "Cohort_update container dt h c = Inr (h', c')"
    "has_flowered c'" "sex c' = female" "t_maturity c' \<noteq> 0" "0 \<le> stress_index_attr c'"
    "length h' = length h + 3"
    "components_attr c' = [stalk c, length h + 1, length h, length h + 2]"
    "kinds h' (components_attr c') = [Stalk, MesocarpFibers, MesocarpOil, Kernels]"
    by blast
  have "distinct (components_attr c')" using r(7) a by simp
  with r show "\<exists>h' c'. Cohort_update container dt h c = Inr (h', c')
               \<and> sex c' = female \<and> 0 \<le> stress_index_attr c' \<and> t_maturity c' \<noteq> 0
               \<and> has_flowered c' \<and> length h' = length h + 3
               \<and> distinct (components_attr c')
               \<and> kinds h' (components_attr c') = [Stalk, MesocarpFibers, MesocarpOil, Kernels]"
    by blast
qed

theorem Female_set_fruit_one_shot_witness:
  "sex example_female = female \<and> 0 \<le> stress_index_attr example_female
   \<and> t_maturity example_female \<noteq> 0
   \<and> \<not> has_flowered example_female \<and> age example_female + 10 > t_anthesis example_female
   \<and> stalk example_female < length [example_stalk]
   \<and> bc_kind ([example_stalk] ! stalk example_female) = Stalk
   \<and> (\<exists>h' c'. Cohort_update None 10 [example_stalk] example_female = Inr (h', c')
         \<and> sex c' = female \<and> 0 \<le> stress_index_attr c' \<and> t_maturity c' \<noteq> 0
         \<and> has_flowered c' \<and> length h' = length [example_stalk] + 3
         \<and> distinct (components_attr c')
         \<and> kinds h' (components_attr c') = [Stalk, MesocarpFibers, MesocarpOil, Kernels])
   \<and> sex example_flowered = female \<and> 0 \<le> stress_index_attr example_flowered
   \<and> t_maturity example_flowered \<noteq> 0 \<and> has_flowered example_flowered
   \<and> \<not> Female_should_trigger_flowering example_flowered
   \<and> (\<exists>states.
         Cohort_run [(None, 10), (None, 10)]
           [example_stalk\<lparr>bc_age := 990\<rparr>, example_oil, example_fibers, example_kernels]
           example_flowered = Inr states
         \<and> length states = length [(None :: Cohorts option, 10 :: real), (None, 10)]
         \<and> list_all (flowered_like
              [example_stalk\<lparr>bc_age := 990\<rparr>, example_oil, example_fibers, example_kernels]
              example_flowered) states)"
proof -
  have f: "sex example_female = female" "0 \<le> stress_index_attr example_female"
    "t_maturity example_female \<noteq> 0" "\<not> has_flowered example_female"
    "age example_female + 10 > t_anthesis example_female"
    "stalk example_female < length [example_stalk]"
    "bc_kind ([example_stalk] ! stalk example_female) = Stalk"
    by (simp_all add: example_defs Let_def)
  have g: "sex example_flowered = female" "0 \<le> stress_index_attr example_flowered"
    "t_maturity example_flowered \<noteq> 0" "has_flowered example_flowered"
    by (simp_all add: example_defs Let_def)
  from Female_set_fruit_one_shot [OF f(1,2,3), of "[]" "[example_stalk]" 10 None]
    Female_set_fruit_one_shot [OF g(1,2,3), of "[(None, 10), (None, 10)]"
      "[example_stalk\<lparr>bc_age := 990\<rparr>, example_oil, example_fibers, example_kernels]" 10 None]
    f g
  show ?thesis by simp
qed

section \<open>The sex split and the abortion of inflorescences\<close>

lemma Cohorts_t_maturity_returns:
  assumes "cohorts_palm s = Some p" and "days_in_year p \<noteq> 0"
  shows "\<exists>T. Cohorts_t_maturity s = Inr T \<and> 0 < T"
proof -
  have "0 < 1 + exp x" for x :: real
    by (simp add: add_pos_pos)
  then have "(0::real) < 1500 * (1 / (1 + exp x))" for x :: real
    by simp
  then show ?thesis
    using assms
    by (simp add: Cohorts_t_maturity_def Cohorts_years_def divide_py_def Let_def)
qed

lemma Indeterminate_t_maturity_returns:
  assumes "Indeterminate_split_ready container h c"
  shows "\<exists>T. Indeterminate_t_maturity_raw container c = Inr T \<and> 0 \<le> T"
proof (cases container)
  case None
  with assms show ?thesis
    by (simp add: Indeterminate_t_maturity_raw_def Indeterminate_split_ready_def)
next
  case (Some s)
  with assms obtain p where p: "cohorts_palm s = Some p" "0 < days_in_year p"
    by (auto simp: Indeterminate_split_ready_def split: option.splits)
  then have "days_in_year p \<noteq> 0" by simp
  from Cohorts_t_maturity_returns [OF p(1) this] Some show ?thesis
    by (auto simp: Indeterminate_t_maturity_raw_def)
qed

lemma Indeterminate_potential_mass_returns:
  assumes "Indeterminate_split_ready container h c"
  shows "\<exists>pm. Indeterminate_potential_mass container c = Inr pm \<and> 0 \<le> pm"
proof -
  obtain T where T: "Indeterminate_t_maturity_raw container c = Inr T" "0 \<le> T"
    using Indeterminate_t_maturity_returns [OF assms] by blast
  obtain diy where diy: "Indeterminate_days_in_year container c = Inr diy" "0 < diy"
    and dap: "0 \<le> Cohort_DAP container"
    using assms
    by (auto simp: Indeterminate_split_ready_def Indeterminate_days_in_year_def Cohort_DAP_def
        split: option.splits)
  let ?x = "(Cohort_DAP container + T - T * (2 / 10)) / diy"
  have "0 \<le> Cohort_DAP container + T - T * (2 / 10)" using dap T(2) by simp
  then have x: "0 \<le> ?x" using diy(2) by simp
  define r where "r = 31 * (1 - exp (- (1 / 10) * ?x)) / bunch_FM_to_DM_ratio"
  have "(0::real) \<le> 31 * (1 - exp (- (1 / 10) * y)) / bunch_FM_to_DM_ratio" if "0 \<le> y" for y
    using that by (simp add: bunch_FM_to_DM_ratio_def)
  from this [OF x] have r0: "0 \<le> r" unfolding r_def .
  have eq: "Indeterminate_potential_mass container c
              = (if \<not> r \<ge> 0 then Inl AssertionError else Inr r)"
    unfolding r_def using T(1) diy
    by (simp add: Indeterminate_potential_mass_def Let_def divide_py_def)
  show ?thesis unfolding eq using r0 by simp
qed

lemma Indeterminate_female_fraction_returns:
  assumes "Indeterminate_split_ready container h c"
  shows "\<exists>ff. Indeterminate_female_fraction container c = Inr ff"
proof (cases container)
  case None
  then show ?thesis by (simp add: Indeterminate_female_fraction_def)
next
  case (Some s)
  with assms obtain p where p: "cohorts_palm s = Some p" "0 < days_in_year p"
    by (auto simp: Indeterminate_split_ready_def split: option.splits)
  then show ?thesis
    using Some
    by (simp add: Indeterminate_female_fraction_def Cohorts_female_fraction_def
        Cohorts_female_fraction_baseline_def Cohorts_years_def divide_py_def Let_def)
qed

lemma stalk_init_returns:
  "\<exists>b. BunchComponent_init Stalk own 0 (Some pm) 1200 = Inr b"
  "\<exists>b. BunchComponent_init Stalk (Some (Inr tm)) 0 None 1200 = Inr b"
  using BunchComponent_init_returns [of 1200 "Some pm" own Stalk 0]
    BunchComponent_init_returns [of 1200 None "Some (Inr tm)" Stalk 0]
  by simp_all

lemma Male_init_returns:
  "\<exists>b m. Male_init h pm T = Inr (h @ [b], m) \<and> sex m = male \<and> abortion_fraction_attr m = 0
     \<and> t_maturity m = T \<and> potential_mass_attr m = pm"
proof -
  obtain b where "BunchComponent_init Stalk (Some (Inr pm)) 0 None 1200 = Inr b"
    using stalk_init_returns(2) by blast
  then show ?thesis
    by (simp add: Male_init_def Let_def alloc_def blank_cohort_def)
qed

lemma Female_init_returns:
  "\<exists>b f. Female_init h pm T = Inr (h @ [b], f) \<and> sex f = female \<and> stress_index_attr f = 1
     \<and> t_maturity f = T \<and> potential_mass_attr f = pm \<and> \<not> has_flowered f
     \<and> t_anthesis f = T * (82 / 100)
     \<and> inflorescence_abortion_t0 f = T * (75 / 100)
     \<and> inflorescence_abortion_t1 f = T * (75 / 100) + T * (3 / 100)
     \<and> bunch_failure_t0 f = T * (92 / 100)
     \<and> bunch_failure_t1 f = T * (92 / 100) + T * (3 / 100)"
proof -
  obtain b where "BunchComponent_init Stalk (Some (Inr pm)) 0 None 1200 = Inr b"
    using stalk_init_returns(2) by blast
  then show ?thesis
    by (simp add: Female_init_def Let_def alloc_def blank_cohort_def Female_set_event_timings_def)
qed

lemma copy_component_returns:
  assumes "x < length h" and "bc_t_maturity (h ! x) \<noteq> 0"
  shows "\<exists>d. copy_component h x = Inr (h @ [d], length h) \<and> bc_kind d = bc_kind (h ! x)
           \<and> bc_mass d = bc_mass (h ! x) \<and> bc_age d = bc_age (h ! x)
           \<and> bc_potential_mass d = bc_potential_mass (h ! x)
           \<and> bc_t_maturity d = bc_t_maturity (h ! x)
           \<and> bc_potential_sink_strength d = BunchComponent_get_potential_sink_strength d"
  using BunchComponent_copy_returns [OF assms(2)]
  by (auto simp: copy_component_def alloc_def)

lemma Indeterminate_to_male_returns:
  assumes ready: "Indeterminate_split_ready container h c"
    and ff: "Indeterminate_female_fraction container c = Inr ff"
  shows "\<exists>b d m. Indeterminate_to_male container h c = Inr (h @ [b, d], m)
           \<and> sex m = male \<and> abortion_fraction_attr m = 0
           \<and> stalk m = length h + 1 \<and> components_attr m = [length h + 1]
           \<and> age m = age c
           \<and> num_inflorescences m = (1 - ff) * num_inflorescences c
           \<and> relative_sink_strength m = (1 - ff) * relative_sink_strength c
           \<and> bc_kind d = bc_kind (h ! stalk c)
           \<and> bc_mass d = bc_mass (h ! stalk c) \<and> bc_age d = bc_age (h ! stalk c)
           \<and> bc_potential_sink_strength d = BunchComponent_get_potential_sink_strength d"
proof -
  obtain pm where pm: "Indeterminate_potential_mass container c = Inr pm"
    using Indeterminate_potential_mass_returns [OF ready] by blast
  obtain T where T: "Indeterminate_t_maturity_raw container c = Inr T"
    using Indeterminate_t_maturity_returns [OF ready] by blast
  obtain b m0 where m0: "Male_init h pm T = Inr (h @ [b], m0)" "sex m0 = male"
    "abortion_fraction_attr m0 = 0"
    using Male_init_returns [of h pm T] by blast
  have st: "stalk c < length (h @ [b])" "bc_t_maturity ((h @ [b]) ! stalk c) \<noteq> 0"
    "(h @ [b]) ! stalk c = h ! stalk c"
    using ready by (simp_all add: Indeterminate_split_ready_def nth_append)
  from copy_component_returns [OF st(1,2)] obtain d where
    d: "copy_component (h @ [b]) (stalk c) = Inr ((h @ [b]) @ [d], length (h @ [b]))"
      "bc_kind d = bc_kind (h ! stalk c)"
      "bc_mass d = bc_mass (h ! stalk c)" "bc_age d = bc_age (h ! stalk c)"
      "bc_potential_sink_strength d = BunchComponent_get_potential_sink_strength d"
    unfolding st(3) by blast
  show ?thesis
    using pm T m0 d ff
    by (simp add: Indeterminate_to_male_def Let_def)
qed

lemma Indeterminate_to_female_returns:
  assumes ready: "Indeterminate_split_ready container h c"
    and ff: "Indeterminate_female_fraction container c = Inr ff"
  shows "\<exists>b d f. Indeterminate_to_female container h c = Inr (h @ [b, d], f)
           \<and> sex f = female \<and> stress_index_attr f = 1 \<and> \<not> has_flowered f
           \<and> stalk f = length h + 1 \<and> components_attr f = [length h + 1]
           \<and> age f = age c
           \<and> num_inflorescences f = ff * num_inflorescences c
           \<and> relative_sink_strength f = ff * relative_sink_strength c
           \<and> bc_kind d = bc_kind (h ! stalk c)
           \<and> bc_mass d = bc_mass (h ! stalk c) \<and> bc_age d = bc_age (h ! stalk c)
           \<and> bc_potential_sink_strength d = BunchComponent_get_potential_sink_strength d"
proof -
  obtain pm where pm: "Indeterminate_potential_mass container c = Inr pm"
    using Indeterminate_potential_mass_returns [OF ready] by blast
  obtain T where T: "Indeterminate_t_maturity_raw container c = Inr T"
    using Indeterminate_t_maturity_returns [OF ready] by blast
  obtain b f0 where f0: "Female_init h pm T = Inr (h @ [b], f0)" "sex f0 = female"
    "stress_index_attr f0 = 1" "\<not> has_flowered f0"
    using Female_init_returns [of h pm T] by blast
  have st: "stalk c < length (h @ [b])" "bc_t_maturity ((h @ [b]) ! stalk c) \<noteq> 0"
    "(h @ [b]) ! stalk c = h ! stalk c"
    using ready by (simp_all add: Indeterminate_split_ready_def nth_append)
  from copy_component_returns [OF st(1,2)] obtain d where
    d: "copy_component (h @ [b]) (stalk c) = Inr ((h @ [b]) @ [d], length (h @ [b]))"
      "bc_kind d = bc_kind (h ! stalk c)"
      "bc_mass d = bc_mass (h ! stalk c)" "bc_age d = bc_age (h ! stalk c)"
      "bc_potential_sink_strength d = BunchComponent_get_potential_sink_strength d"
    unfolding st(3) by blast
  show ?thesis
    using pm T f0 d ff
    by (simp add: Indeterminate_to_female_def Let_def)
qed

lemma Indeterminate_split_ready_append:
  "Indeterminate_split_ready container h c \<Longrightarrow> Indeterminate_split_ready container (h @ h') c"
  by (simp add: Indeterminate_split_ready_def nth_append)

text \<open>
  C4. When an indeterminate cohort with count \<open>N\<close>, relative sink strength \<open>r\<close> and a
  stalk of mass \<open>m\<close> and age \<open>a\<close> is split as \<open>update_sex\<close> does, by \<open>to_female()\<close> and
  then \<open>to_male()\<close>, both calls return, the counts of the two children add up to \<open>N\<close>
  and their relative sink strengths to \<open>r\<close>, and each child has as its only component
  a stalk of its own: a new object of the store, different from the other child's stalk
  and from the original, of mass \<open>m\<close> and age \<open>a\<close>. The stalk of the original is
  unchanged.
\<close>

theorem sex_split_conservation:
  assumes "Indeterminate_split_ready container h c"
  shows "\<exists>hf f hm m.
           Indeterminate_to_female container h c = Inr (hf, f)
           \<and> Indeterminate_to_male container hf c = Inr (hm, m)
           \<and> sex f = female \<and> sex m = male
           \<and> num_inflorescences m + num_inflorescences f = num_inflorescences c
           \<and> relative_sink_strength m + relative_sink_strength f = relative_sink_strength c
           \<and> components_attr f = [stalk f] \<and> components_attr m = [stalk m]
           \<and> length h \<le> stalk f \<and> stalk f < length hm
           \<and> length h \<le> stalk m \<and> stalk m < length hm
           \<and> stalk f \<noteq> stalk m
           \<and> bc_mass (hm ! stalk f) = bc_mass (h ! stalk c)
           \<and> bc_mass (hm ! stalk m) = bc_mass (h ! stalk c)
           \<and> bc_age (hm ! stalk f) = bc_age (h ! stalk c)
           \<and> bc_age (hm ! stalk m) = bc_age (h ! stalk c)
           \<and> hm ! stalk c = h ! stalk c"
proof -
  obtain ff where ff: "Indeterminate_female_fraction container c = Inr ff"
    using Indeterminate_female_fraction_returns [OF assms] by blast
  from Indeterminate_to_female_returns [OF assms ff] obtain b d f where
    f: "Indeterminate_to_female container h c = Inr (h @ [b, d], f)" "sex f = female"
      "stalk f = length h + 1" "components_attr f = [length h + 1]"
      "num_inflorescences f = ff * num_inflorescences c"
      "relative_sink_strength f = ff * relative_sink_strength c"
      "bc_mass d = bc_mass (h ! stalk c)" "bc_age d = bc_age (h ! stalk c)"
    by blast
  let ?hf = "h @ [b, d]"
  have ready': "Indeterminate_split_ready container ?hf c"
    using assms by (rule Indeterminate_split_ready_append)
  have same: "?hf ! stalk c = h ! stalk c"
    using assms by (simp add: Indeterminate_split_ready_def nth_append)
  from Indeterminate_to_male_returns [OF ready' ff] obtain b' d' m where
    m: "Indeterminate_to_male container ?hf c = Inr (?hf @ [b', d'], m)" "sex m = male"
      "stalk m = length ?hf + 1" "components_attr m = [length ?hf + 1]"
      "num_inflorescences m = (1 - ff) * num_inflorescences c"
      "relative_sink_strength m = (1 - ff) * relative_sink_strength c"
      "bc_mass d' = bc_mass (h ! stalk c)" "bc_age d' = bc_age (h ! stalk c)"
    unfolding same by blast
  let ?hm = "?hf @ [b', d']"
  have sc: "stalk c < length h" using assms by (simp add: Indeterminate_split_ready_def)
  have at_f: "?hm ! stalk f = d" using f(3) by (simp add: nth_append)
  have at_m: "?hm ! stalk m = d'" using m(3) by (simp add: nth_append)
  have at_c: "?hm ! stalk c = h ! stalk c" using sc by (simp add: nth_append)
  have sums: "num_inflorescences m + num_inflorescences f = num_inflorescences c"
    "relative_sink_strength m + relative_sink_strength f = relative_sink_strength c"
    using f(5,6) m(5,6) by (simp_all add: algebra_simps)
  show ?thesis
    apply (rule exI [of _ ?hf], rule exI [of _ f], rule exI [of _ ?hm], rule exI [of _ m])
    using f(1,2,3,4,7,8) m(1,2,3,4,7,8) at_f at_m at_c sums
    by simp
qed

lemma Cohort_update_not_female:
  assumes "sex c \<noteq> female"
  shows "Cohort_update container dt h c =
           Inr (Cohort_update_components container dt h c,
                c\<lparr>num_inflorescences :=
                    num_inflorescences c * max 0 (1 - abortion_fraction_attr c * dt),
                  age := age c + dt\<rparr>)"
  using assms
  by (simp add: Cohort_update_def Cohort_update_raw_def Cohort_abortion_fraction_def Let_def)

lemma male_run:
  assumes "sex c = male" and "abortion_fraction_attr c = 0"
  shows "\<exists>states. Cohort_run steps h c = Inr states \<and> length states = length steps
           \<and> list_all (male_like c) states"
  using assms
proof (induction steps arbitrary: h c)
  case Nil
  show ?case by simp
next
  case (Cons st steps)
  obtain container dt where st: "st = (container, dt)" by (cases st)
  let ?h1 = "Cohort_update_components container dt h c"
  let ?c1 = "c\<lparr>num_inflorescences :=
                    num_inflorescences c * max 0 (1 - abortion_fraction_attr c * dt),
                  age := age c + dt\<rparr>"
  have upd: "Cohort_update container dt h c = Inr (?h1, ?c1)"
    using Cons.prems(1) by (intro Cohort_update_not_female) simp
  have c1: "sex ?c1 = male" "abortion_fraction_attr ?c1 = 0"
    "num_inflorescences ?c1 = num_inflorescences c"
    using Cons.prems by simp_all
  from Cons.IH [OF c1(1,2), of ?h1] obtain rest where
    rest: "Cohort_run steps ?h1 ?c1 = Inr rest" "length rest = length steps"
      "list_all (male_like ?c1) rest"
    by blast
  have "male_like c = male_like ?c1"
    unfolding male_like_def fun_eq_iff c1(3) by simp
  with rest(3) have "list_all (male_like c) rest" by simp
  moreover have "male_like c (?h1, ?c1)" using c1 by (simp add: male_like_def)
  ultimately show ?case using rest(1,2) upd st by simp
qed

lemma survival_le:
  assumes "0 \<le> (n::real)" and "0 \<le> (af::real)" and "0 \<le> (dt::real)"
  shows "n * max 0 (1 - af * dt) \<le> n" and "0 \<le> n * max 0 (1 - af * dt)"
proof -
  have "0 \<le> af * dt" using assms(2,3) by (rule mult_nonneg_nonneg)
  then have "max 0 (1 - af * dt) \<le> 1" by simp
  with assms(1) show "n * max 0 (1 - af * dt) \<le> n"
    using mult_left_le by blast
  show "0 \<le> n * max 0 (1 - af * dt)" using assms(1) by simp
qed

lemma female_run:
  assumes "sex c = female" and "0 \<le> stress_index_attr c" and "t_maturity c \<noteq> 0"
    and "0 \<le> num_inflorescences c" and "list_all (\<lambda>st. 0 \<le> snd st) steps"
  shows "\<exists>states. Cohort_run steps h c = Inr states \<and> length states = length steps
           \<and> sorted_wrt (\<lambda>a b. b \<le> a) (counts c states)"
  using assms
proof (induction steps arbitrary: h c)
  case Nil
  show ?case by (simp add: counts_def)
next
  case (Cons st steps)
  obtain container dt where st: "st = (container, dt)" by (cases st)
  with Cons.prems(5) have dt: "0 \<le> dt" and steps: "list_all (\<lambda>st. 0 \<le> snd st) steps"
    by simp_all
  obtain af where af: "Cohort_abortion_fraction container c = Inr af" "0 \<le> af"
    using Female_abortion_fraction_returns [OF Cons.prems(1,2)] by blast
  from Female_update_returns [OF Cons.prems(1,3) af(1), of dt h] obtain h1 c1 where
    upd: "Cohort_update container dt h c = Inr (h1, c1)"
    and c1: "num_inflorescences c1 = num_inflorescences c * max 0 (1 - af * dt)"
      "sex c1 = female" "t_maturity c1 = t_maturity c"
      "stress_index_attr c1 = stress_index_attr c"
    by blast
  have le: "num_inflorescences c1 \<le> num_inflorescences c" "0 \<le> num_inflorescences c1"
    using survival_le [OF Cons.prems(4) af(2) dt] c1(1) by simp_all
  have "0 \<le> stress_index_attr c1" "t_maturity c1 \<noteq> 0"
    using c1 Cons.prems by simp_all
  from Cons.IH [OF c1(2) this le(2) steps, of h1] obtain rest where
    rest: "Cohort_run steps h1 c1 = Inr rest" "length rest = length steps"
      "sorted_wrt (\<lambda>a b. b \<le> a) (counts c1 rest)"
    by blast
  have "sorted_wrt (\<lambda>a b. b \<le> a) (counts c ((h1, c1) # rest))"
    using rest(3) le(1) by (auto simp: counts_def)
  with rest(1,2) upd st show ?case by simp
qed

lemma example_indeterminate_stalk_sink_strength:
  "bc_potential_sink_strength example_indeterminate_stalk
     = BunchComponent_get_potential_sink_strength example_indeterminate_stalk"
  by (simp add: example_indeterminate_stalk_def BunchComponent_get_potential_sink_strength_def
      BunchComponent_mass_growth_rate_potential_def func_def Let_def)

lemma example_split_ready:
  "Indeterminate_split_ready (Some example_container) [example_indeterminate_stalk]
     example_indeterminate"
  by (simp add: Indeterminate_split_ready_def example_container_def Cohorts_init_def
      example_palm_def example_indeterminate_def example_indeterminate_stalk_def
      blank_cohort_def)

theorem sex_split_conservation_witness:
  "Indeterminate_split_ready (Some example_container) [example_indeterminate_stalk]
     example_indeterminate
   \<and> (\<exists>hf f hm m.
         Indeterminate_to_female (Some example_container) [example_indeterminate_stalk]
           example_indeterminate = Inr (hf, f)
         \<and> Indeterminate_to_male (Some example_container) hf example_indeterminate = Inr (hm, m)
         \<and> sex f = female \<and> sex m = male
         \<and> num_inflorescences m + num_inflorescences f = 12
         \<and> relative_sink_strength m + relative_sink_strength f = 1 / 4
         \<and> components_attr f = [stalk f] \<and> components_attr m = [stalk m]
         \<and> 1 \<le> stalk f \<and> stalk f < length hm \<and> 1 \<le> stalk m \<and> stalk m < length hm
         \<and> stalk f \<noteq> stalk m
         \<and> bc_mass (hm ! stalk f) = 3 / 10 \<and> bc_mass (hm ! stalk m) = 3 / 10
         \<and> bc_age (hm ! stalk f) = 280 \<and> bc_age (hm ! stalk m) = 280
         \<and> hm ! 0 = example_indeterminate_stalk)"
  using sex_split_conservation [OF example_split_ready] example_split_ready
  by (simp add: example_indeterminate_def example_indeterminate_stalk_def blank_cohort_def)

text \<open>
  C6. On every update of a female cohort the abortion fraction is read without an
  error and is not negative, it is other than 0 only while the age of the cohort is in
  the inflorescence abortion window \<open>[t0, t1)\<close> or in the bunch failure window, and the
  update multiplies \<open>num_inflorescences\<close> by \<open>max(0, 1 - abortion_fraction*dt)\<close>. Hence
  over a lifetime of updates with \<open>dt \<ge> 0\<close>, from a count that is not negative, the
  counts never increase. The male cohort that a sex split returns has the abortion
  fraction 0 and keeps its count in every later update.
\<close>

theorem num_inflorescences_abortion:
  "(sex c = female \<and> 0 \<le> stress_index_attr c \<and> t_maturity c \<noteq> 0 \<longrightarrow>
      (\<exists>af h' c'. Cohort_abortion_fraction container c = Inr af \<and> 0 \<le> af
         \<and> (af \<noteq> 0 \<longrightarrow> in_inflorescence_abortion_window c \<or> in_bunch_failure_window c)
         \<and> Cohort_update container dt h c = Inr (h', c')
         \<and> num_inflorescences c' = num_inflorescences c * max 0 (1 - af * dt)))
   \<and> (sex c = female \<and> 0 \<le> stress_index_attr c \<and> t_maturity c \<noteq> 0
        \<and> 0 \<le> num_inflorescences c \<and> list_all (\<lambda>st. 0 \<le> snd st) steps \<longrightarrow>
      (\<exists>states. Cohort_run steps h c = Inr states \<and> length states = length steps
         \<and> sorted_wrt (\<lambda>a b. b \<le> a) (counts c states)))
   \<and> (Indeterminate_split_ready container h c \<longrightarrow>
      (\<exists>hm m. Indeterminate_to_male container h c = Inr (hm, m) \<and> sex m = male
         \<and> Cohort_abortion_fraction container m = Inr 0
         \<and> (\<exists>states. Cohort_run steps hm m = Inr states \<and> length states = length steps
               \<and> list_all (male_like m) states)))"
proof (intro conjI impI)
  assume a: "sex c = female \<and> 0 \<le> stress_index_attr c \<and> t_maturity c \<noteq> 0"
  then obtain af where af: "Cohort_abortion_fraction container c = Inr af" "0 \<le> af"
    "af \<noteq> 0 \<longrightarrow> in_inflorescence_abortion_window c \<or> in_bunch_failure_window c"
    using Female_abortion_fraction_returns [of c container] by blast
  from a Female_update_returns [OF _ _ af(1), of dt h] obtain h' c' where
    "Cohort_update container dt h c = Inr (h', c')"
    "num_inflorescences c' = num_inflorescences c * max 0 (1 - af * dt)"
    by blast
  with af show "\<exists>af h' c'. Cohort_abortion_fraction container c = Inr af \<and> 0 \<le> af
         \<and> (af \<noteq> 0 \<longrightarrow> in_inflorescence_abortion_window c \<or> in_bunch_failure_window c)
         \<and> Cohort_update container dt h c = Inr (h', c')
         \<and> num_inflorescences c' = num_inflorescences c * max 0 (1 - af * dt)"
    by blast
next
  assume "sex c = female \<and> 0 \<le> stress_index_attr c \<and> t_maturity c \<noteq> 0
        \<and> 0 \<le> num_inflorescences c \<and> list_all (\<lambda>st. 0 \<le> snd st) steps"
  then show "\<exists>states. Cohort_run steps h c = Inr states \<and> length states = length steps
         \<and> sorted_wrt (\<lambda>a b. b \<le> a) (counts c states)"
    by (intro female_run) simp_all
next
  assume ready: "Indeterminate_split_ready container h c"
  obtain ff where ff: "Indeterminate_female_fraction container c = Inr ff"
    using Indeterminate_female_fraction_returns [OF ready] by blast
  from Indeterminate_to_male_returns [OF ready ff] obtain hm m where
    m: "Indeterminate_to_male container h c = Inr (hm, m)" "sex m = male"
      "abortion_fraction_attr m = 0"
    by blast
  have "Cohort_abortion_fraction container m = Inr 0"
    using m(2,3) by (simp add: Cohort_abortion_fraction_def)
  with m male_run [OF m(2,3), of steps hm]
  show "\<exists>hm m. Indeterminate_to_male container h c = Inr (hm, m) \<and> sex m = male
         \<and> Cohort_abortion_fraction container m = Inr 0
         \<and> (\<exists>states. Cohort_run steps hm m = Inr states \<and> length states = length steps
               \<and> list_all (male_like m) states)"
    by blast
qed

theorem num_inflorescences_abortion_witness:
  "sex (example_female\<lparr>age := 910\<rparr>) = female
   \<and> 0 \<le> stress_index_attr (example_female\<lparr>age := 910\<rparr>)
   \<and> t_maturity (example_female\<lparr>age := 910\<rparr>) \<noteq> 0
   \<and> 0 \<le> num_inflorescences (example_female\<lparr>age := 910\<rparr>)
   \<and> list_all (\<lambda>st. 0 \<le> snd st) [(None :: Cohorts option, 10 :: real), (None, 10)]
   \<and> (\<exists>af h' c'.
         Cohort_abortion_fraction None (example_female\<lparr>age := 910\<rparr>) = Inr af \<and> 0 \<le> af
         \<and> (af \<noteq> 0 \<longrightarrow> in_inflorescence_abortion_window (example_female\<lparr>age := 910\<rparr>)
                        \<or> in_bunch_failure_window (example_female\<lparr>age := 910\<rparr>))
         \<and> Cohort_update None 10 [example_stalk] (example_female\<lparr>age := 910\<rparr>) = Inr (h', c')
         \<and> num_inflorescences c'
             = num_inflorescences (example_female\<lparr>age := 910\<rparr>) * max 0 (1 - af * 10))
   \<and> (\<exists>states.
         Cohort_run [(None, 10), (None, 10)] [example_stalk] (example_female\<lparr>age := 910\<rparr>)
           = Inr states
         \<and> length states = length [(None :: Cohorts option, 10 :: real), (None, 10)]
         \<and> sorted_wrt (\<lambda>a b. b \<le> a) (counts (example_female\<lparr>age := 910\<rparr>) states))
   \<and> Indeterminate_split_ready (Some example_container) [example_indeterminate_stalk]
         example_indeterminate
   \<and> (\<exists>hm m.
         Indeterminate_to_male (Some example_container) [example_indeterminate_stalk]
           example_indeterminate = Inr (hm, m)
         \<and> sex m = male
         \<and> Cohort_abortion_fraction (Some example_container) m = Inr 0
         \<and> (\<exists>states.
               Cohort_run [(None, 10), (None, 10)] hm m = Inr states
               \<and> length states = length [(None :: Cohorts option, 10 :: real), (None, 10)]
               \<and> list_all (male_like m) states))"
proof -
  let ?F = "example_female\<lparr>age := 910\<rparr>"
  have f: "sex ?F = female" "0 \<le> stress_index_attr ?F" "t_maturity ?F \<noteq> 0"
    "0 \<le> num_inflorescences ?F"
    by (simp_all add: example_defs Let_def)
  have s: "list_all (\<lambda>st. 0 \<le> snd st) [(None :: Cohorts option, 10 :: real), (None, 10)]"
    by simp
  from num_inflorescences_abortion [of ?F None 10 "[example_stalk]" "[(None, 10), (None, 10)]"]
    num_inflorescences_abortion [of example_indeterminate "Some example_container" 10
      "[example_indeterminate_stalk]" "[(None, 10), (None, 10)]"]
    f s example_split_ready
  show ?thesis by simp
qed

section \<open>The order of the updates within a cohort\<close>

lemma update_mass_loop_frame:
  "bc_age (update_mass_loop container c dt xs h ! i) = bc_age (h ! i)
   \<and> bc_potential_sink_strength (update_mass_loop container c dt xs h ! i)
       = bc_potential_sink_strength (h ! i)
   \<and> bc_potential_growth_function (update_mass_loop container c dt xs h ! i)
       = bc_potential_growth_function (h ! i)"
proof (induction xs arbitrary: h)
  case Nil
  show ?case by simp
next
  case (Cons x xs)
  let ?h' = "h[x := BunchComponent_update_mass (Some (container, c)) h dt (h ! x)]"
  have "bc_age (?h' ! i) = bc_age (h ! i)"
    "bc_potential_sink_strength (?h' ! i) = bc_potential_sink_strength (h ! i)"
    "bc_potential_growth_function (?h' ! i) = bc_potential_growth_function (h ! i)"
    by (rule list_update_preserve, simp add: BunchComponent_update_mass_def)+
  with Cons.IH [of ?h'] show ?case by simp
qed

lemma Cohort_potential_sink_strength_cong:
  assumes "\<And>i. bc_potential_sink_strength (h' ! i) = bc_potential_sink_strength (h ! i)"
  shows "Cohort_potential_sink_strength h' c = Cohort_potential_sink_strength h c"
  using assms by (simp add: Cohort_potential_sink_strength_def)

lemma BunchComponent_mass_growth_rate_cong:
  assumes "\<And>i. bc_potential_sink_strength (h' ! i) = bc_potential_sink_strength (h ! i)"
  shows "BunchComponent_mass_growth_rate (Some (container, c)) h' b
           = BunchComponent_mass_growth_rate (Some (container, c)) h b"
proof -
  have p: "Cohort_potential_sink_strength h' c = Cohort_potential_sink_strength h c"
    using assms by (rule Cohort_potential_sink_strength_cong)
  then have "Cohort_assim_growth_cohort container h' c = Cohort_assim_growth_cohort container h c"
    by (cases container) (simp_all add: Cohort_assim_growth_cohort_def
        Cohort_cohort_sink_strength_def)
  then have "Cohort_assim_growth_organ container h' c = Cohort_assim_growth_organ container h c"
    by (simp add: Cohort_assim_growth_organ_def)
  with p show ?thesis
    by (simp add: BunchComponent_mass_growth_rate_def BunchComponent_assim_growth_def
      BunchComponent_relative_sink_strength_def)
qed

lemma update_mass_loop_other:
  "x \<notin> set xs \<Longrightarrow> update_mass_loop container c dt xs h ! x = h ! x"
  by (induction xs arbitrary: h) auto

lemma update_mass_loop_mass:
  assumes "distinct xs" and "list_all (\<lambda>x. x < length h) xs" and "x \<in> set xs"
  shows "update_mass_loop container c dt xs h ! x
           = BunchComponent_update_mass (Some (container, c)) h dt (h ! x)"
  using assms
proof (induction xs arbitrary: h)
  case Nil
  then show ?case by simp
next
  case (Cons y xs)
  let ?h' = "h[y := BunchComponent_update_mass (Some (container, c)) h dt (h ! y)]"
  have y: "y < length h" "y \<notin> set xs" "distinct xs" using Cons.prems by simp_all
  have valid: "list_all (\<lambda>x. x < length ?h') xs" using Cons.prems(2) by simp
  show ?case
  proof (cases "x = y")
    case True
    then show ?thesis using y by (simp add: update_mass_loop_other)
  next
    case False
    with Cons.prems(3) have x: "x \<in> set xs" by simp
    have same: "bc_potential_sink_strength (?h' ! i) = bc_potential_sink_strength (h ! i)" for i
      by (rule list_update_preserve) (simp add: BunchComponent_update_mass_def)
    have "update_mass_loop container c dt xs ?h' ! x
            = BunchComponent_update_mass (Some (container, c)) ?h' dt (?h' ! x)"
      using y(3) valid x by (rule Cons.IH)
    also have "\<dots> = BunchComponent_update_mass (Some (container, c)) h dt (h ! x)"
      using False BunchComponent_mass_growth_rate_cong [of ?h' h, OF same]
      by (simp add: BunchComponent_update_mass_def)
    finally show ?thesis by simp
  qed
qed

lemma update_age_loop_other:
  "x \<notin> set xs \<Longrightarrow> update_age_loop dt xs h ! x = h ! x"
  by (induction xs arbitrary: h) auto

lemma update_age_loop_age:
  assumes "distinct xs" and "list_all (\<lambda>x. x < length h) xs" and "x \<in> set xs"
  shows "update_age_loop dt xs h ! x = BunchComponent_update_age dt (h ! x)"
  using assms
proof (induction xs arbitrary: h)
  case Nil
  then show ?case by simp
next
  case (Cons y xs)
  let ?h' = "h[y := BunchComponent_update_age dt (h ! y)]"
  have y: "y < length h" "y \<notin> set xs" "distinct xs" using Cons.prems by simp_all
  have valid: "list_all (\<lambda>x. x < length ?h') xs" using Cons.prems(2) by simp
  show ?case
  proof (cases "x = y")
    case True
    then show ?thesis using y by (simp add: update_age_loop_other)
  next
    case False
    with Cons.prems(3) have x: "x \<in> set xs" by simp
    have "update_age_loop dt xs ?h' ! x = BunchComponent_update_age dt (?h' ! x)"
      using y(3) valid x by (rule Cons.IH)
    with False show ?thesis by simp
  qed
qed

lemma update_mass_grown_mass:
  "bc_mass (BunchComponent_update_mass (Some (container, c)) h dt (h ! x))
     = grown_mass container c h dt x"
  by (simp add: BunchComponent_update_mass_def BunchComponent_mass_growth_rate_def Let_def
      BunchComponent_mass_growth_rate_potential_def grown_mass_def)

lemma list_of_four: "length xs = 4 \<Longrightarrow> xs = [xs ! 0, xs ! 1, xs ! 2, xs ! 3]"
  by (auto simp: eval_nat_numeral length_Suc_conv)

lemma map_of_four:
  assumes "length xs = 4"
  shows "map f xs = [f (xs ! 0), f (xs ! 1), f (xs ! 2), f (xs ! 3)]"
proof -
  have "map f xs = map f [xs ! 0, xs ! 1, xs ! 2, xs ! 3]"
    using list_of_four [OF assms] by simp
  then show ?thesis by simp
qed

lemmas growing_defs = growing_heap_def growing_female_def growing_container_def
  grown_component_def Female_set_event_timings_def blank_cohort_def Cohorts_init_def
  example_palm_def BunchComponent_get_potential_sink_strength_def
  BunchComponent_mass_growth_rate_potential_def func_def Let_def

lemma growing_components: "Cohort_components growing_female = [0, 2, 1, 3]"
  by (simp add: Cohort_components_def growing_defs)

lemma growing_valid: "Cohort_components_valid growing_heap growing_female"
  by (simp add: Cohort_components_valid_def growing_components) (simp add: growing_heap_def)

lemma growing_sink_strengths:
  "map bc_potential_sink_strength growing_heap = [0, 5 / 27, 616 / 15525, 25 / 1728]"
  by (simp add: growing_defs)

lemma growing_total: "potential_sink_strength (growing_container a) = 237799 / 198720"
  by (simp add: growing_container_def Let_def Cohorts_get_potential_sink_strength_def
      Cohort_cohort_sink_strength_def Cohort_potential_sink_strength_def growing_components
      Cohorts_init_def)
     (simp add: growing_defs)


lemma growing_abortion:
  "Cohort_abortion_fraction (Some (growing_container a)) growing_female = Inr 0"
  by (simp add: Cohort_abortion_fraction_def Female_abortion_fraction_def
      Female_inflorescence_abortion_fraction_def Female_bunch_failure_fraction_def
      stress_inflorescence_abortion_def stress_bunch_failure_def growing_female_def
      Female_set_event_timings_def blank_cohort_def Let_def)

lemma growing_organ:
  "Cohort_assim_growth_organ (Some (growing_container a)) growing_heap growing_female = a / 5"
  by (simp add: Cohort_assim_growth_organ_def Cohort_assim_growth_cohort_def
      growing_container_def Let_def)
     (simp add: growing_female_def Female_set_event_timings_def blank_cohort_def Let_def)

lemma growing_cohort_sink_strength:
  "Cohort_potential_sink_strength growing_heap growing_female = 237799 / 993600"
  by (simp add: Cohort_potential_sink_strength_def growing_components) (simp add: growing_defs)

lemma growing_rates:
  "map (\<lambda>b. func (bc_potential_growth_function b) 1100) growing_heap
     = [0, 7 / 90, 154 / 5625, 7 / 1152]"
  "map (\<lambda>b. func (bc_potential_growth_function b) 1110) growing_heap
     = [0, 7 / 80, 14 / 625, 1 / 160]"
  by (simp_all add: growing_defs)

lemma growing_allocations:
  "map (\<lambda>b. conversion_efficiency (bc_kind b)
          * BunchComponent_assim_growth (Some (Some (growing_container a), growing_female))
              growing_heap b) growing_heap
     = [0, 7 / 90 * (a * 198720 / 237799), 154 / 5625 * (a * 198720 / 237799),
        7 / 1152 * (a * 198720 / 237799)]"
  by (simp add: BunchComponent_assim_growth_def BunchComponent_relative_sink_strength_def
      growing_organ growing_cohort_sink_strength Let_def)
     (simp add: growing_defs)

lemma growing_grown_mass:
  "map (grown_mass (Some (growing_container 2)) growing_female growing_heap 10) [0, 1, 2, 3]
     = [2, 1 + 7 / 90 * 10, 2 + 154 / 5625 * 10, 1 / 10 + 7 / 1152 * 10]"
  "map (grown_mass (Some (growing_container (1 / 2))) growing_female growing_heap 10)
       [0, 1, 2, 3]
     = [2, 1 + 7728 / 237799 * 10, 2 + 340032 / 29724875 * 10, 1 / 10 + 2415 / 951196 * 10]"
  by (simp_all add: grown_mass_def BunchComponent_assim_growth_def
      BunchComponent_relative_sink_strength_def growing_organ growing_cohort_sink_strength
      Let_def)
     (simp_all add: growing_defs)


text \<open>
  C5. \<open>Cohort._update(dt)\<close> returns the store in which first the mass loop and then the
  age loop have run over the components. After any number of steps of the mass loop no
  age and no potential sink strength in the store has changed. After the whole mass
  loop every component has the mass \<open>grown_mass\<close>, computed from its age, the potential
  sink strengths and the allocation before the update. After the age loop every
  component has that same mass, its age advanced by \<open>dt\<close>, and the potential sink
  strength of its new age.
\<close>

theorem Cohort_update_mass_before_age:
  assumes "Cohort_components_valid h c"
  shows "(\<forall>af. Cohort_abortion_fraction container c = Inr af \<longrightarrow>
            (\<exists>c'. Cohort_update_raw container dt h c
                    = Inr (update_age_loop dt (Cohort_components c)
                             (update_mass_loop container c dt (Cohort_components c) h), c')))
       \<and> (\<forall>n i. bc_age (update_mass_loop container c dt (take n (Cohort_components c)) h ! i)
                   = bc_age (h ! i)
                \<and> bc_potential_sink_strength
                     (update_mass_loop container c dt (take n (Cohort_components c)) h ! i)
                   = bc_potential_sink_strength (h ! i))
       \<and> list_all (\<lambda>x. bc_mass (update_mass_loop container c dt (Cohort_components c) h ! x)
                          = grown_mass container c h dt x)
            (Cohort_components c)
       \<and> list_all (\<lambda>x.
             bc_mass (Cohort_update_components container dt h c ! x)
               = grown_mass container c h dt x
             \<and> bc_age (Cohort_update_components container dt h c ! x) = bc_age (h ! x) + dt
             \<and> bc_potential_sink_strength (Cohort_update_components container dt h c ! x)
                 = func (bc_potential_growth_function (h ! x)) (bc_age (h ! x) + dt)
                     / conversion_efficiency (bc_kind (h ! x)))
            (Cohort_components c)"
proof (intro conjI allI impI)
  fix af
  assume "Cohort_abortion_fraction container c = Inr af"
  then show "\<exists>c'. Cohort_update_raw container dt h c
                    = Inr (update_age_loop dt (Cohort_components c)
                             (update_mass_loop container c dt (Cohort_components c) h), c')"
    by (simp add: Cohort_update_raw_result Cohort_update_components_def)
next
  fix n i
  show "bc_age (update_mass_loop container c dt (take n (Cohort_components c)) h ! i)
          = bc_age (h ! i)"
    by (simp add: update_mass_loop_frame)
  show "bc_potential_sink_strength
          (update_mass_loop container c dt (take n (Cohort_components c)) h ! i)
          = bc_potential_sink_strength (h ! i)"
    by (simp add: update_mass_loop_frame)
next
  let ?xs = "Cohort_components c"
  let ?h1 = "update_mass_loop container c dt ?xs h"
  from assms have d: "distinct ?xs" and v: "list_all (\<lambda>x. x < length h) ?xs"
    by (simp_all add: Cohort_components_valid_def)
  have v1: "list_all (\<lambda>x. x < length ?h1) ?xs" using v by simp
  have mass: "?h1 ! x = BunchComponent_update_mass (Some (container, c)) h dt (h ! x)"
    if "x \<in> set ?xs" for x
    using d v that by (rule update_mass_loop_mass)
  show "list_all (\<lambda>x. bc_mass (?h1 ! x) = grown_mass container c h dt x) ?xs"
    unfolding list_all_iff using mass update_mass_grown_mass by simp
  have aged: "Cohort_update_components container dt h c ! x
                = BunchComponent_update_age dt (?h1 ! x)"
    if "x \<in> set ?xs" for x
    unfolding Cohort_update_components_def Let_def
    using d v1 that by (rule update_age_loop_age)
  show "list_all (\<lambda>x.
             bc_mass (Cohort_update_components container dt h c ! x)
               = grown_mass container c h dt x
             \<and> bc_age (Cohort_update_components container dt h c ! x) = bc_age (h ! x) + dt
             \<and> bc_potential_sink_strength (Cohort_update_components container dt h c ! x)
                 = func (bc_potential_growth_function (h ! x)) (bc_age (h ! x) + dt)
                     / conversion_efficiency (bc_kind (h ! x))) ?xs"
    unfolding list_all_iff
  proof
    fix x
    assume x: "x \<in> set ?xs"
    show "bc_mass (Cohort_update_components container dt h c ! x)
               = grown_mass container c h dt x
             \<and> bc_age (Cohort_update_components container dt h c ! x) = bc_age (h ! x) + dt
             \<and> bc_potential_sink_strength (Cohort_update_components container dt h c ! x)
                 = func (bc_potential_growth_function (h ! x)) (bc_age (h ! x) + dt)
                     / conversion_efficiency (bc_kind (h ! x))"
      unfolding aged [OF x] mass [OF x]
      using update_mass_grown_mass [of container c h dt x]
      by (simp add: BunchComponent_update_age_def Let_def
          BunchComponent_get_potential_sink_strength_def
          BunchComponent_mass_growth_rate_potential_def BunchComponent_update_mass_def)
  qed
qed

theorem Cohort_update_mass_before_age_witness:
  "Cohort_components_valid growing_heap growing_female
   \<and> Cohort_components growing_female = [0, 2, 1, 3]
   \<and> Cohort_abortion_fraction (Some (growing_container 2)) growing_female = Inr 0
   \<and> (\<exists>c'. Cohort_update_raw (Some (growing_container 2)) 10 growing_heap growing_female
              = Inr (update_age_loop 10 [0, 2, 1, 3]
                       (update_mass_loop (Some (growing_container 2)) growing_female 10
                          [0, 2, 1, 3] growing_heap), c'))
   \<and> map bc_mass growing_heap = [2, 1, 2, 1 / 10]
   \<and> map bc_age growing_heap = [1100, 1100, 1100, 1100]
   \<and> map bc_potential_sink_strength growing_heap = [0, 5 / 27, 616 / 15525, 25 / 1728]
   \<and> map (\<lambda>b. func (bc_potential_growth_function b) 1100) growing_heap
       = [0, 7 / 90, 154 / 5625, 7 / 1152]
   \<and> map (\<lambda>b. func (bc_potential_growth_function b) 1110) growing_heap
       = [0, 7 / 80, 14 / 625, 1 / 160]
   \<and> map bc_age (update_mass_loop (Some (growing_container 2)) growing_female 10
                     [0, 2, 1, 3] growing_heap)
       = [1100, 1100, 1100, 1100]
   \<and> map bc_potential_sink_strength
         (update_mass_loop (Some (growing_container 2)) growing_female 10
            [0, 2, 1, 3] growing_heap)
       = [0, 5 / 27, 616 / 15525, 25 / 1728]
   \<and> map bc_mass (update_mass_loop (Some (growing_container 2)) growing_female 10
                      [0, 2, 1, 3] growing_heap)
       = [2, 1 + 7 / 90 * 10, 2 + 154 / 5625 * 10, 1 / 10 + 7 / 1152 * 10]
   \<and> map bc_mass (Cohort_update_components (Some (growing_container 2)) 10 growing_heap
                      growing_female)
       = [2, 1 + 7 / 90 * 10, 2 + 154 / 5625 * 10, 1 / 10 + 7 / 1152 * 10]
   \<and> map bc_age (Cohort_update_components (Some (growing_container 2)) 10 growing_heap
                     growing_female)
       = [1110, 1110, 1110, 1110]
   \<and> map bc_potential_sink_strength
         (Cohort_update_components (Some (growing_container 2)) 10 growing_heap growing_female)
       = [0, 7 / 80 / (42 / 100), 14 / 625 / (69 / 100), 1 / 160 / (42 / 100)]
   \<and> map bc_mass (Cohort_update_components (Some (growing_container (1 / 2))) 10
                      growing_heap growing_female)
       = [2, 1 + 7728 / 237799 * 10, 2 + 340032 / 29724875 * 10,
          1 / 10 + 2415 / 951196 * 10]"
proof -
  let ?c = "Some (growing_container 2)"
  let ?d = "Some (growing_container (1 / 2))"
  note comps = growing_components
  note res = Cohort_update_mass_before_age [OF growing_valid, of ?c 10]
  note res' = Cohort_update_mass_before_age [OF growing_valid, of ?d 10]
  have len: "length growing_heap = 4" by (simp add: growing_heap_def)
  have h0: "map bc_mass growing_heap = [2, 1, 2, 1 / 10]"
    "map bc_age growing_heap = [1100, 1100, 1100, 1100]"
    by (simp_all add: growing_defs)
  have kinds: "map bc_kind growing_heap = [Stalk, MesocarpOil, MesocarpFibers, Kernels]"
    by (simp add: growing_defs)
  have nth: "map f growing_heap = [a, b, c, d] \<Longrightarrow>
      f (growing_heap ! 0) = a \<and> f (growing_heap ! 1) = b \<and> f (growing_heap ! 2) = c
      \<and> f (growing_heap ! 3) = d" for f :: "BunchComponent \<Rightarrow> 'b" and a b c d
    using map_of_four [OF len, of f] by simp
  from res growing_abortion [of 2] comps
  have raw: "\<exists>c'. Cohort_update_raw ?c 10 growing_heap growing_female
              = Inr (update_age_loop 10 [0, 2, 1, 3]
                       (update_mass_loop ?c growing_female 10 [0, 2, 1, 3] growing_heap), c')"
    by (simp del: update_mass_loop.simps update_age_loop.simps)
  from res have frame: "\<And>i. bc_age (update_mass_loop ?c growing_female 10
        (take 4 (Cohort_components growing_female)) growing_heap ! i) = bc_age (growing_heap ! i)
     \<and> bc_potential_sink_strength (update_mass_loop ?c growing_female 10
        (take 4 (Cohort_components growing_female)) growing_heap ! i)
        = bc_potential_sink_strength (growing_heap ! i)"
    by blast
  have ages1: "map bc_age (update_mass_loop ?c growing_female 10 [0, 2, 1, 3] growing_heap)
       = [1100, 1100, 1100, 1100]"
    using frame nth [OF h0(2)] by (simp add: map_of_four len comps del: update_mass_loop.simps update_age_loop.simps)
  have pss1: "map bc_potential_sink_strength
         (update_mass_loop ?c growing_female 10 [0, 2, 1, 3] growing_heap)
       = [0, 5 / 27, 616 / 15525, 25 / 1728]"
    using frame nth [OF growing_sink_strengths] by (simp add: map_of_four len comps del: update_mass_loop.simps update_age_loop.simps)
  from res growing_grown_mass(1) comps
  have mass1: "map bc_mass (update_mass_loop ?c growing_female 10 [0, 2, 1, 3] growing_heap)
       = [2, 1 + 7 / 90 * 10, 2 + 154 / 5625 * 10, 1 / 10 + 7 / 1152 * 10]"
    by (simp add: map_of_four len del: update_mass_loop.simps update_age_loop.simps)
  from res growing_grown_mass(1) comps
  have mass2: "map bc_mass (Cohort_update_components ?c 10 growing_heap growing_female)
       = [2, 1 + 7 / 90 * 10, 2 + 154 / 5625 * 10, 1 / 10 + 7 / 1152 * 10]"
    by (simp add: map_of_four len del: update_mass_loop.simps update_age_loop.simps)
  from res comps nth [OF h0(2)]
  have ages2: "map bc_age (Cohort_update_components ?c 10 growing_heap growing_female)
       = [1110, 1110, 1110, 1110]"
    by (simp add: map_of_four len del: update_mass_loop.simps update_age_loop.simps)
  from res comps nth [OF growing_rates(2)] nth [OF kinds]
  have pss2: "map bc_potential_sink_strength
         (Cohort_update_components ?c 10 growing_heap growing_female)
       = [0, 7 / 80 / (42 / 100), 14 / 625 / (69 / 100), 1 / 160 / (42 / 100)]"
    using nth [OF h0(2)] by (simp add: map_of_four len del: update_mass_loop.simps update_age_loop.simps)
  from res' growing_grown_mass(2) comps
  have mass3: "map bc_mass (Cohort_update_components ?d 10 growing_heap growing_female)
       = [2, 1 + 7728 / 237799 * 10, 2 + 340032 / 29724875 * 10,
          1 / 10 + 2415 / 951196 * 10]"
    by (simp add: map_of_four len del: update_mass_loop.simps update_age_loop.simps)
  show ?thesis
    using growing_valid comps growing_abortion [of 2] raw h0 growing_sink_strengths
      growing_rates ages1 pss1 mass1 mass2 ages2 pss2 mass3
    by (intro conjI)
qed

section \<open>The populations that a simulation reaches\<close>

lemma power11_le:
  assumes "0 \<le> u" and "u \<le> (1::real)"
  shows "u ^ 11 * (316 / 10 - (2128 / 100) * (156 / 100) * u) \<le> 548 / 100"
proof (cases "u \<le> 4 / 5")
  case True
  have "u ^ 11 \<le> (4 / 5) ^ 11" using True assms(1) by (rule power_mono)
  also have "\<dots> \<le> (1 / 10 :: real)" by (simp add: power_divide)
  finally have p: "u ^ 11 \<le> 1 / 10" .
  have q: "316 / 10 - (2128 / 100) * (156 / 100) * u \<le> 316 / 10" using assms(1) by simp
  have "u ^ 11 * (316 / 10 - (2128 / 100) * (156 / 100) * u) \<le> u ^ 11 * (316 / 10)"
    using q assms(1) by (intro mult_left_mono) simp_all
  also have "\<dots> \<le> (1 / 10) * (316 / 10)" using p by simp
  finally show ?thesis by simp
next
  case False
  then have q: "316 / 10 - (2128 / 100) * (156 / 100) * u \<le> 548 / 100" by simp
  have p: "u ^ 11 \<le> 1" using assms by (simp add: power_le_one)
  show ?thesis
  proof (cases "0 \<le> 316 / 10 - (2128 / 100) * (156 / 100) * u")
    case True
    then have "u ^ 11 * (316 / 10 - (2128 / 100) * (156 / 100) * u)
                 \<le> 1 * (316 / 10 - (2128 / 100) * (156 / 100) * u)"
      using p by (intro mult_right_mono) simp_all
    with q show ?thesis by simp
  next
    case False
    then have "u ^ 11 * (316 / 10 - (2128 / 100) * (156 / 100) * u) \<le> 0"
      using assms(1) by (simp add: mult_le_0_iff)
    then show ?thesis by simp
  qed
qed

lemma female_fraction_baseline_le_one:
  assumes "0 \<le> t"
  shows "(158 / 10) * (1 + 2 * exp (- (22 / 100) * t))
           \<le> (2128 / 100) * (1 + (156 / 100) * exp (- (24 / 100) * (t::real)))"
proof -
  define u where "u = exp (- (2 / 100) * t)"
  have u: "0 \<le> u" "u \<le> 1" using assms by (simp_all add: u_def)
  have e11: "exp (- (22 / 100) * t) = u ^ 11"
    unfolding u_def using exp_of_nat_mult [of 11 "- (2 / 100) * t"] by simp
  have e12: "exp (- (24 / 100) * t) = u ^ 12"
    unfolding u_def using exp_of_nat_mult [of 12 "- (2 / 100) * t"] by simp
  have "u ^ 12 = u ^ 11 * u" by (simp add: power_eq_if)
  with power11_le [OF u] show ?thesis
    unfolding e11 e12 by (simp add: algebra_simps)
qed

lemma heap_ok_update:
  "heap_ok h \<Longrightarrow> 0 \<le> bc_potential_sink_strength b \<Longrightarrow> heap_ok (h[x := b])"
  unfolding heap_ok_def list_all_iff
  using set_update_subset_insert [of h x b] by auto

lemma heap_ok_append:
  "heap_ok h \<Longrightarrow> heap_ok h' \<Longrightarrow> heap_ok (h @ h')"
  by (simp add: heap_ok_def)

lemma heap_ok_nth: "heap_ok h \<Longrightarrow> x < length h \<Longrightarrow> 0 \<le> bc_potential_sink_strength (h ! x)"
  by (simp add: heap_ok_def list_all_length)

lemma cohort_ok_mono:
  "cohort_ok h c \<Longrightarrow> length h \<le> length h' \<Longrightarrow> cohort_ok h' c"
  by (auto simp: cohort_ok_def list_all_iff)

lemma heap_ok_update_mass_loop:
  "heap_ok h \<Longrightarrow> heap_ok (update_mass_loop container c dt xs h)"
proof (induction xs arbitrary: h)
  case Nil
  then show ?case by simp
next
  case (Cons x xs)
  let ?b = "BunchComponent_update_mass (Some (container, c)) h dt (h ! x)"
  show ?case
  proof (cases "x < length h")
    case True
    with Cons.prems have "0 \<le> bc_potential_sink_strength ?b"
      by (simp add: BunchComponent_update_mass_def heap_ok_nth)
    with Cons.prems have "heap_ok (h[x := ?b])" by (rule heap_ok_update)
    then show ?thesis using Cons.IH by simp
  next
    case False
    then have "h[x := ?b] = h" by (simp add: list_update_beyond)
    with Cons show ?thesis by simp
  qed
qed

lemma update_age_sink_strength_nonneg:
  "0 \<le> bc_potential_sink_strength (BunchComponent_update_age dt b)"
  by (simp add: BunchComponent_update_age_def Let_def get_potential_sink_strength_nonneg)

lemma heap_ok_update_age_loop:
  "heap_ok h \<Longrightarrow> heap_ok (update_age_loop dt xs h)"
proof (induction xs arbitrary: h)
  case Nil
  then show ?case by simp
next
  case (Cons x xs)
  have "heap_ok (h[x := BunchComponent_update_age dt (h ! x)])"
    using Cons.prems update_age_sink_strength_nonneg by (rule heap_ok_update)
  then show ?case using Cons.IH by simp
qed

lemma heap_ok_update_components:
  "heap_ok h \<Longrightarrow> heap_ok (Cohort_update_components container dt h c)"
  by (simp add: Cohort_update_components_def Let_def heap_ok_update_mass_loop
      heap_ok_update_age_loop)

lemma init_sink_strength_nonneg:
  assumes "BunchComponent_init kind own a pmo T = Inr b"
  shows "0 \<le> bc_potential_sink_strength b"
  using BunchComponent_init_result [OF assms] get_potential_sink_strength_nonneg [of b]
  by simp

lemma Cohort_update_raw_ok:
  assumes "Cohort_update_raw container dt h c = Inr (h', c')"
    and "heap_ok h" and "cohort_ok h c"
  shows "heap_ok h' \<and> cohort_ok h' c' \<and> length h' = length h \<and> sex c' = sex c"
proof -
  from assms(1) obtain af where
    r: "h' = Cohort_update_components container dt h c"
       "c' = c\<lparr>num_inflorescences := num_inflorescences c * max 0 (1 - af * dt),
               age := age c + dt\<rparr>"
    by (auto simp: Cohort_update_raw_def Let_def and_then_eq_Inr)
  have "0 \<le> num_inflorescences c * max 0 (1 - af * dt)"
    using assms(3) by (simp add: cohort_ok_def)
  then show ?thesis
    using assms(2,3) r by (simp add: heap_ok_update_components cohort_ok_def)
qed

lemma Female_set_fruit_ok:
  assumes "Female_set_fruit h c = Inr (h', c')" and "heap_ok h" and "cohort_ok h c"
  shows "heap_ok h' \<and> cohort_ok h' c' \<and> length h \<le> length h' \<and> sex c' = sex c"
proof -
  from assms(1) obtain oil fibers kernels where
    i: "BunchComponent_init MesocarpOil (Some (Inr (potential_mass_attr c))) (age c) None
          (t_maturity c) = Inr oil"
       "BunchComponent_init MesocarpFibers (Some (Inr (potential_mass_attr c))) (age c) None
          (t_maturity c) = Inr fibers"
       "BunchComponent_init Kernels (Some (Inr (potential_mass_attr c))) (age c) None
          (t_maturity c) = Inr kernels"
    and r: "h' = h @ [oil, fibers, kernels]"
       "c' = c\<lparr>mesocarp_oil := Some (length h), mesocarp_fibers := Some (length h + 1),
                kernel := Some (length h + 2),
                components_attr := [stalk c, length h + 1, length h, length h + 2],
                has_flowered := True\<rparr>"
    by (auto simp: Female_set_fruit_def and_then_eq_Inr alloc_def)
  have "heap_ok [oil, fibers, kernels]"
    using i [THEN init_sink_strength_nonneg] by (simp add: heap_ok_def)
  with assms(2) have "heap_ok h'" unfolding r(1) by (rule heap_ok_append)
  then show ?thesis using assms(3) r by (simp add: cohort_ok_def)
qed

lemma Cohort_update_ok:
  assumes "Cohort_update container dt h c = Inr (h', c')" and "heap_ok h" and "cohort_ok h c"
  shows "heap_ok h' \<and> cohort_ok h' c' \<and> length h \<le> length h'"
proof (cases "sex c = female")
  case False
  with assms(1) have "Cohort_update_raw container dt h c = Inr (h', c')"
    by (simp add: Cohort_update_def)
  from Cohort_update_raw_ok [OF this assms(2,3)] show ?thesis by simp
next
  case True
  with assms(1) obtain h1 c1 where
    raw: "Cohort_update_raw container dt h c = Inr (h1, c1)"
    and rest: "(if Female_should_trigger_flowering c1 then Female_set_fruit h1 c1
                else Inr (h1, c1)) = Inr (h', c')"
    by (auto simp: Cohort_update_def Female_update_def and_then_eq_Inr)
  from Cohort_update_raw_ok [OF raw assms(2,3)]
  have ok1: "heap_ok h1" "cohort_ok h1 c1" "length h1 = length h" by simp_all
  show ?thesis
  proof (cases "Female_should_trigger_flowering c1")
    case True
    with rest have "Female_set_fruit h1 c1 = Inr (h', c')" by simp
    from Female_set_fruit_ok [OF this ok1(1,2)] ok1(3) show ?thesis by simp
  next
    case False
    with rest ok1 show ?thesis by simp
  qed
qed

lemma update_existing_loop_ok:
  assumes "update_existing_loop s dt cs h = Inr (h', cs')"
    and "heap_ok h" and "list_all (cohort_ok h) cs"
  shows "heap_ok h' \<and> list_all (cohort_ok h') cs' \<and> length h \<le> length h'"
  using assms
proof (induction cs arbitrary: h h' cs')
  case Nil
  then show ?case by simp
next
  case (Cons c cs)
  from Cons.prems(1) obtain h1 c1 h2 cs2 where
    u: "Cohort_update (Some s) dt h c = Inr (h1, c1)"
    and l: "update_existing_loop s dt cs h1 = Inr (h2, cs2)"
    and r: "h' = h2" "cs' = c1 # cs2"
    by (auto simp: and_then_eq_Inr)
  from Cons.prems(3) have c: "cohort_ok h c" and cs: "list_all (cohort_ok h) cs" by simp_all
  from Cohort_update_ok [OF u Cons.prems(2) c]
  have ok1: "heap_ok h1" "cohort_ok h1 c1" "length h \<le> length h1" by simp_all
  have "list_all (cohort_ok h1) cs"
    using cs ok1(3) by (auto simp: list_all_iff intro: cohort_ok_mono)
  from Cons.IH [OF l ok1(1) this]
  have ok2: "heap_ok h2" "list_all (cohort_ok h2) cs2" "length h1 \<le> length h2" by simp_all
  have "cohort_ok h2 c1" using ok1(2) ok2(3) by (rule cohort_ok_mono)
  with ok2 ok1(3) r show ?case by simp
qed

lemma Cohorts_female_fraction_bounds:
  assumes "Cohorts_female_fraction s = Inr f" and "cohorts_palm s = Some p" and "Palm_valid p"
  shows "0 \<le> f \<and> f \<le> 1"
proof -
  from assms(3) have p: "0 \<le> DAP p" "0 < days_in_year p" by (simp_all add: Palm_valid_def)
  define t where "t = DAP p / days_in_year p"
  have t: "0 \<le> t" using p by (simp add: t_def)
  have years: "Cohorts_years s = Inr t"
    using assms(2) p by (simp add: Cohorts_years_def Cohorts_DAP_def divide_py_def t_def)
  define num where "num = (158 / 10) * (1 + 2 * exp (- (22 / 100) * t))"
  define den where "den = (2128 / 100) * (1 + (156 / 100) * exp (- (24 / 100) * t))"
  define eff where "eff = exp (- (6 / 10) * Cohorts_stress_index s)"
  have den: "0 < den" unfolding den_def by (simp add: add_pos_pos)
  have num: "0 \<le> num" "num \<le> den"
    unfolding num_def den_def using female_fraction_baseline_le_one [OF t]
    by (simp_all add: add_nonneg_nonneg)
  have eff: "0 \<le> eff" "eff \<le> 1"
    unfolding eff_def using Cohorts_stress_index_nonneg [of s] by simp_all
  have f: "f = num / den * eff"
    using assms(1) years
    by (simp add: Cohorts_female_fraction_def Cohorts_female_fraction_baseline_def Let_def
        Cohorts_calc_female_fraction_decrease_def num_def den_def eff_def)
  have b: "0 \<le> num / den" "num / den \<le> 1" using num den by simp_all
  have "num / den * eff \<le> 1 * 1"
    using b eff by (intro mult_mono) simp_all
  moreover have "0 \<le> num / den * eff" using b(1) eff(1) by (rule mult_nonneg_nonneg)
  ultimately show ?thesis using f by simp
qed

lemma stalk_init_ok:
  assumes "BunchComponent_init Stalk own a pmo T = Inr b" and "heap_ok h"
  shows "heap_ok (h @ [b])"
  using assms(2) init_sink_strength_nonneg [OF assms(1)] by (simp add: heap_ok_def)

lemma copy_component_ok:
  assumes "copy_component h x = Inr (h', r)" and "heap_ok h"
  shows "heap_ok h' \<and> length h' = length h + 1 \<and> r = length h"
proof -
  from assms(1) obtain d0 where
    d0: "BunchComponent_init (bc_kind (h ! x)) None 0 (Some (bc_potential_mass (h ! x)))
           (bc_t_maturity (h ! x)) = Inr d0"
    and r: "h' = h @ [d0\<lparr>bc_mass := bc_mass (h ! x), bc_age := bc_age (h ! x),
                     bc_potential_sink_strength :=
                       BunchComponent_get_potential_sink_strength
                         (d0\<lparr>bc_mass := bc_mass (h ! x), bc_age := bc_age (h ! x)\<rparr>)\<rparr>]"
       "r = length h"
    by (auto simp: copy_component_def BunchComponent_copy_def and_then_eq_Inr alloc_def Let_def)
  show ?thesis
    using assms(2) r by (simp add: heap_ok_def get_potential_sink_strength_nonneg)
qed

lemma Male_init_ok:
  assumes "Male_init h pm T = Inr (h1, m)" and "heap_ok h"
  shows "heap_ok h1 \<and> length h1 = length h + 1"
  using assms stalk_init_ok
  by (auto simp: Male_init_def Let_def and_then_eq_Inr alloc_def)

lemma Female_init_ok:
  assumes "Female_init h pm T = Inr (h1, f)" and "heap_ok h"
  shows "heap_ok h1 \<and> length h1 = length h + 1"
  using assms stalk_init_ok
  by (auto simp: Female_init_def Let_def and_then_eq_Inr alloc_def)

lemma Indeterminate_to_male_ok:
  assumes "Indeterminate_to_male (Some s) h c = Inr (h', m)"
    and "heap_ok h" and "cohort_ok h c"
    and "cohorts_palm s = Some p" and "Palm_valid p"
  shows "heap_ok h' \<and> cohort_ok h' m \<and> length h \<le> length h'"
proof -
  from assms(1) obtain pm T h1 m0 h2 r ff where
    i: "Male_init h pm T = Inr (h1, m0)"
    and c: "copy_component h1 (stalk c) = Inr (h2, r)"
    and ff: "Indeterminate_female_fraction (Some s) c = Inr ff"
    and res: "h' = h2"
      "m = m0\<lparr>stalk := r, components_attr := [r], age := age c,
              num_inflorescences := (1 - ff) * num_inflorescences c,
              relative_sink_strength := (1 - ff) * relative_sink_strength c\<rparr>"
    by (auto simp: Indeterminate_to_male_def and_then_eq_Inr Let_def)
  from Male_init_ok [OF i assms(2)] have h1: "heap_ok h1" "length h1 = length h + 1"
    by simp_all
  from copy_component_ok [OF c h1(1)]
  have h2: "heap_ok h2" "length h2 = length h1 + 1" "r = length h1" by simp_all
  from ff have "Cohorts_female_fraction s = Inr ff"
    by (simp add: Indeterminate_female_fraction_def)
  from Cohorts_female_fraction_bounds [OF this assms(4,5)] have "0 \<le> 1 - ff" by simp
  moreover have "0 \<le> num_inflorescences c" using assms(3) by (simp add: cohort_ok_def)
  ultimately have "0 \<le> (1 - ff) * num_inflorescences c" by (rule mult_nonneg_nonneg)
  then show ?thesis
    using h1 h2 res by (simp add: cohort_ok_def)
qed

lemma Indeterminate_to_female_ok:
  assumes "Indeterminate_to_female (Some s) h c = Inr (h', f)"
    and "heap_ok h" and "cohort_ok h c"
    and "cohorts_palm s = Some p" and "Palm_valid p"
  shows "heap_ok h' \<and> cohort_ok h' f \<and> length h \<le> length h'"
proof -
  from assms(1) obtain pm T h1 f0 h2 r ff where
    i: "Female_init h pm T = Inr (h1, f0)"
    and c: "copy_component h1 (stalk c) = Inr (h2, r)"
    and ff: "Indeterminate_female_fraction (Some s) c = Inr ff"
    and res: "h' = h2"
      "f = f0\<lparr>stalk := r, components_attr := [r], age := age c,
              num_inflorescences := ff * num_inflorescences c,
              relative_sink_strength := ff * relative_sink_strength c\<rparr>"
    by (auto simp: Indeterminate_to_female_def and_then_eq_Inr Let_def)
  from Female_init_ok [OF i assms(2)] have h1: "heap_ok h1" "length h1 = length h + 1"
    by simp_all
  from copy_component_ok [OF c h1(1)]
  have h2: "heap_ok h2" "length h2 = length h1 + 1" "r = length h1" by simp_all
  from ff have "Cohorts_female_fraction s = Inr ff"
    by (simp add: Indeterminate_female_fraction_def)
  from Cohorts_female_fraction_bounds [OF this assms(4,5)] have "0 \<le> ff" by simp
  moreover have "0 \<le> num_inflorescences c" using assms(3) by (simp add: cohort_ok_def)
  ultimately have "0 \<le> ff * num_inflorescences c" by (rule mult_nonneg_nonneg)
  then show ?thesis
    using h1 h2 res by (simp add: cohort_ok_def)
qed

lemma update_sex_loop_ok:
  assumes "update_sex_loop s cs h = Inr (h', cs')"
    and "heap_ok h" and "list_all (cohort_ok h) cs"
    and "cohorts_palm s = Some p" and "Palm_valid p"
  shows "heap_ok h' \<and> list_all (cohort_ok h') cs' \<and> length h \<le> length h'"
  using assms(1,2,3)
proof (induction cs arbitrary: h h' cs')
  case Nil
  then show ?case by simp
next
  case (Cons c cs)
  from Cons.prems(3) have c: "cohort_ok h c" and cs: "list_all (cohort_ok h) cs" by simp_all
  show ?case
  proof (cases "sex c = indeterminate \<and> age c > t_differentiation c")
    case True
    with Cons.prems(1) obtain h1 f h2 m h3 cs3 where
      f: "Indeterminate_to_female (Some s) h c = Inr (h1, f)"
      and m: "Indeterminate_to_male (Some s) h1 c = Inr (h2, m)"
      and l: "update_sex_loop s cs h2 = Inr (h3, cs3)"
      and r: "h' = h3" "cs' = f # m # cs3"
      by (auto simp: and_then_eq_Inr)
    from Indeterminate_to_female_ok [OF f Cons.prems(2) c assms(4,5)]
    have ok1: "heap_ok h1" "cohort_ok h1 f" "length h \<le> length h1" by simp_all
    have c1: "cohort_ok h1 c" using c ok1(3) by (rule cohort_ok_mono)
    from Indeterminate_to_male_ok [OF m ok1(1) c1 assms(4,5)]
    have ok2: "heap_ok h2" "cohort_ok h2 m" "length h1 \<le> length h2" by simp_all
    have "list_all (cohort_ok h2) cs"
      using cs ok1(3) ok2(3) by (auto simp: list_all_iff intro: cohort_ok_mono)
    from Cons.IH [OF l ok2(1) this]
    have ok3: "heap_ok h3" "list_all (cohort_ok h3) cs3" "length h2 \<le> length h3" by simp_all
    have "cohort_ok h3 f" "cohort_ok h3 m"
      using ok1(2) ok2(2,3) ok3(3) by (auto intro: cohort_ok_mono)
    with ok3 ok2(3) ok1(3) r show ?thesis by simp
  next
    case False
    with Cons.prems(1) obtain h1 cs1 where
      l: "update_sex_loop s cs h = Inr (h1, cs1)" and r: "h' = h1" "cs' = c # cs1"
      by (auto simp: and_then_eq_Inr)
    from Cons.IH [OF l Cons.prems(2) cs]
    have ok: "heap_ok h1" "list_all (cohort_ok h1) cs1" "length h \<le> length h1" by simp_all
    have "cohort_ok h1 c" using c ok(3) by (rule cohort_ok_mono)
    with ok r show ?thesis by simp
  qed
qed

lemma Indeterminate_init_ok:
  assumes "Indeterminate_init container h = Inr (h1, c)" and "heap_ok h"
  shows "heap_ok h1 \<and> length h1 = length h + 1 \<and> stalk c = length h
         \<and> components_attr c = []"
  using assms stalk_init_ok
  by (auto simp: Indeterminate_init_def Let_def and_then_eq_Inr alloc_def blank_cohort_def)

lemma onset_multiplicity_nonneg:
  assumes "Cohorts_calc_onset_multiplicity s m st = Inr r" and "0 \<le> st"
  shows "0 \<le> r"
proof -
  have "0 \<le> 1 - 1 / (1 + st * x ^ 4)" for x :: real
  proof -
    have "0 \<le> st * x ^ 4" using assms(2) by simp
    then have "1 \<le> 1 + st * x ^ 4" by simp
    then have "1 / (1 + st * x ^ 4) \<le> 1" by simp
    then show ?thesis by simp
  qed
  then show ?thesis
    using assms(1)
    by (auto simp: Cohorts_calc_onset_multiplicity_def and_then_eq_Inr Let_def
        split: option.splits if_splits)
qed

lemma Cohorts_initiation_rate_nonneg:
  assumes "Cohorts_initiation_rate s = Inr r" and "cohorts_palm s = Some p" and "Palm_valid p"
  shows "0 \<le> r"
proof -
  from assms(1,2) obtain onset where
    o: "Cohorts_onset_multiplicity_factor s = Inr onset"
    and r: "r = fronds_initiation_rate p * planting_density p * onset"
    by (auto simp: Cohorts_initiation_rate_def and_then_eq_Inr)
  have "0 \<le> onset"
    using o onset_multiplicity_nonneg [of s "Cohorts_MAP s" "1 / 10" onset]
    by (simp add: Cohorts_onset_multiplicity_factor_def)
  moreover have "0 \<le> fronds_initiation_rate p * planting_density p"
    using assms(3) by (simp add: Palm_valid_def)
  ultimately show ?thesis unfolding r by (rule mult_nonneg_nonneg [rotated])
qed

lemma Cohorts_update_new_cohorts_ok:
  assumes "Cohorts_update_new_cohorts dt h s = Inr (h', s')"
    and "heap_ok h" and "list_all (cohort_ok h) (cohorts s)"
    and "cohorts_palm s = Some p" and "Palm_valid p" and "0 \<le> dt"
  shows "heap_ok h' \<and> list_all (cohort_ok h') (cohorts s')
         \<and> potential_sink_strength s' = potential_sink_strength s"
proof -
  from assms(1) obtain new_cohort rate where
    i: "Indeterminate_init (Some s) h = Inr (h', new_cohort)"
    and rate: "Cohorts_initiation_rate s = Inr rate"
    and r: "s' = s\<lparr>cohorts := cohorts s @ [new_cohort\<lparr>num_inflorescences := rate * dt\<rparr>]\<rparr>"
    by (auto simp: Cohorts_update_new_cohorts_def and_then_eq_Inr Let_def)
  from Indeterminate_init_ok [OF i assms(2)]
  have ok: "heap_ok h'" "length h' = length h + 1" "stalk new_cohort = length h"
    "components_attr new_cohort = []"
    by simp_all
  have "0 \<le> rate" using rate assms(4,5) by (rule Cohorts_initiation_rate_nonneg)
  then have "0 \<le> rate * dt" using assms(6) by (rule mult_nonneg_nonneg)
  then have new: "cohort_ok h' (new_cohort\<lparr>num_inflorescences := rate * dt\<rparr>)"
    using ok by (simp add: cohort_ok_def)
  have "list_all (cohort_ok h') (cohorts s)"
    using assms(3) ok(2) by (auto simp: list_all_iff intro: cohort_ok_mono)
  with new ok(1) r show ?thesis by simp
qed

lemma Cohort_potential_sink_strength_nonneg:
  assumes "heap_ok h" and "cohort_ok h c"
  shows "0 \<le> Cohort_potential_sink_strength h c"
proof -
  have "list_all (\<lambda>x. x < length h) (Cohort_components c)"
    using assms(2) by (simp add: cohort_ok_def Cohort_components_def)
  then have "\<forall>x \<in> set (Cohort_components c). 0 \<le> bc_potential_sink_strength (h ! x)"
    using assms(1) by (auto simp: list_all_iff heap_ok_nth)
  then show ?thesis
    unfolding Cohort_potential_sink_strength_def by (intro sum_list_nonneg) auto
qed

lemma Cohorts_get_potential_sink_strength_nonneg:
  assumes "heap_ok h" and "list_all (cohort_ok h) (cohorts s)"
  shows "0 \<le> Cohorts_get_potential_sink_strength h s"
proof -
  have "0 \<le> Cohort_cohort_sink_strength h c" if "c \<in> set (cohorts s)" for c
  proof -
    from that assms(2) have c: "cohort_ok h c" by (simp add: list_all_iff)
    then have "0 \<le> num_inflorescences c" by (simp add: cohort_ok_def)
    moreover have "0 \<le> Cohort_potential_sink_strength h c"
      using assms(1) c by (rule Cohort_potential_sink_strength_nonneg)
    ultimately show ?thesis
      unfolding Cohort_cohort_sink_strength_def by (rule mult_nonneg_nonneg)
  qed
  then show ?thesis
    unfolding Cohorts_get_potential_sink_strength_def by (intro sum_list_nonneg) auto
qed

lemma Cohorts_update_ok:
  assumes "Cohorts_update dt h s = Inr (h', s')" and "population_ok h s"
    and "cohorts_palm s = Some p" and "Palm_valid p" and "0 \<le> dt"
  shows "population_ok h' s' \<and> cohorts_palm s' = cohorts_palm s"
proof -
  let ?s1 = "s\<lparr>assim_growth := Cohorts_get_assim_growth s\<rparr>"
  from assms(2) have h: "heap_ok h" and cs: "list_all (cohort_ok h) (cohorts s)"
    by (simp_all add: population_ok_def)
  from assms(1) obtain h2 cs2 h3 cs3 s4 where
    e: "update_existing_loop ?s1 dt (cohorts ?s1) h = Inr (h2, cs2)"
    and x: "update_sex_loop (?s1\<lparr>cohorts := cs2\<rparr>) cs2 h2 = Inr (h3, cs3)"
    and n: "Cohorts_update_new_cohorts dt h3 (?s1\<lparr>cohorts := cs3\<rparr>) = Inr (h', s4)"
    and r: "s' = Cohorts_set_relative_sink_strengths h'
                   ((Cohorts_remove_deletable (Cohorts_record_harvest s4))
                      \<lparr>potential_sink_strength :=
                         Cohorts_get_potential_sink_strength h'
                           (Cohorts_remove_deletable (Cohorts_record_harvest s4))\<rparr>)"
    by (auto simp: Cohorts_update_def Cohorts_update_population_def
        Cohorts_update_existing_cohorts_def Cohorts_update_sex_def and_then_eq_Inr Let_def)
  from update_existing_loop_ok [OF e h] cs
  have ok2: "heap_ok h2" "list_all (cohort_ok h2) cs2" by simp_all
  have palm2: "cohorts_palm (?s1\<lparr>cohorts := cs2\<rparr>) = Some p" using assms(3) by simp
  from update_sex_loop_ok [OF x ok2 palm2 assms(4)]
  have ok3: "heap_ok h3" "list_all (cohort_ok h3) cs3" by simp_all
  have palm3: "cohorts_palm (?s1\<lparr>cohorts := cs3\<rparr>) = Some p" using assms(3) by simp
  have cs3: "list_all (cohort_ok h3) (cohorts (?s1\<lparr>cohorts := cs3\<rparr>))" using ok3(2) by simp
  from Cohorts_update_new_cohorts_ok [OF n ok3(1) cs3 palm3 assms(4,5)]
  have ok4: "heap_ok h'" "list_all (cohort_ok h') (cohorts s4)" by simp_all
  have palm4: "cohorts_palm s4 = Some p"
    using n palm3
    by (auto simp: Cohorts_update_new_cohorts_def and_then_eq_Inr Let_def)
  let ?s6 = "Cohorts_remove_deletable (Cohorts_record_harvest s4)"
  have c6: "cohorts ?s6 = filter (\<lambda>x. \<not> Cohort_is_deletable x) (cohorts s4)"
    by (simp add: Cohorts_remove_deletable_def Cohorts_record_harvest_def split: list.splits)
  have palm6: "cohorts_palm ?s6 = Some p"
    using palm4
    by (simp add: Cohorts_remove_deletable_def Cohorts_record_harvest_def split: list.splits)
  have ok6: "list_all (cohort_ok h') (cohorts ?s6)"
    using ok4(2) unfolding c6 by (simp add: list_all_iff)
  have pss: "0 \<le> Cohorts_get_potential_sink_strength h' ?s6"
    using ok4(1) ok6 by (rule Cohorts_get_potential_sink_strength_nonneg)
  have "cohort_ok h' (Cohort_set_relative_sink_strength k h' c)" if "cohort_ok h' c" for c k
    using that by (simp add: Cohort_set_relative_sink_strength_def cohort_ok_def Let_def)
  with ok6 have "list_all (cohort_ok h') (cohorts s')"
    unfolding r by (simp add: Cohorts_set_relative_sink_strengths_def list_all_iff)
  moreover have "potential_sink_strength s' = Cohorts_get_potential_sink_strength h' ?s6"
    unfolding r by (simp add: Cohorts_set_relative_sink_strengths_def)
  moreover have "cohorts_palm s' = Some p"
    unfolding r using palm6 by (simp add: Cohorts_set_relative_sink_strengths_def)
  ultimately show ?thesis
    using ok4(1) pss assms(3) by (simp add: population_ok_def)
qed

lemma Cohorts_reachable_ok:
  "Cohorts_reachable h s \<Longrightarrow> population_ok h s"
proof (induction rule: Cohorts_reachable.induct)
  case (initial palm)
  show ?case by (simp add: population_ok_def heap_ok_def Cohorts_init_def)
next
  case (advance h s p dt h' s')
  have "population_ok h (s\<lparr>cohorts_palm := Some p\<rparr>)"
    using advance.IH by (simp add: population_ok_def)
  from Cohorts_update_ok [OF advance.hyps(4) this _ advance.hyps(2,3)]
  show ?case by simp
qed

lemma Ic_bounds:
  assumes "0 \<le> potential_sink_strength s" and "0 \<le> assim_growth s"
  shows "0 \<le> Cohorts_Ic s \<and> Cohorts_Ic s \<le> 1"
  using assms by (simp add: Cohorts_Ic_def Let_def)

text \<open>
  C8. In every population that the simulation reaches, and for every generative
  assimilate allocation \<open>a \<ge> 0\<close> stored as \<open>assim_growth\<close> (the allocation is stored at
  the start of an update, while the potential sink strength is the one stored at the
  end of the update before), \<open>Ic\<close> is \<open>min(1, assim_growth / potential_sink_strength)\<close>,
  taken as 1 when the potential sink strength is 0, \<open>Ic\<close> lies in \<open>[0, 1]\<close>, and
  \<open>stress_index = 1 - Ic\<close> lies in \<open>[0, 1]\<close>.
\<close>

theorem Cohorts_Ic_range:
  assumes "Cohorts_reachable h s" and "0 \<le> a"
  shows "Cohorts_Ic (s\<lparr>assim_growth := a\<rparr>)
           = min 1 (if potential_sink_strength s = 0 then 1 else a / potential_sink_strength s)
         \<and> 0 \<le> Cohorts_Ic (s\<lparr>assim_growth := a\<rparr>) \<and> Cohorts_Ic (s\<lparr>assim_growth := a\<rparr>) \<le> 1
         \<and> Cohorts_stress_index (s\<lparr>assim_growth := a\<rparr>) = 1 - Cohorts_Ic (s\<lparr>assim_growth := a\<rparr>)
         \<and> 0 \<le> Cohorts_stress_index (s\<lparr>assim_growth := a\<rparr>)
         \<and> Cohorts_stress_index (s\<lparr>assim_growth := a\<rparr>) \<le> 1"
proof -
  from Cohorts_reachable_ok [OF assms(1)] have "0 \<le> potential_sink_strength s"
    by (simp add: population_ok_def)
  then have "0 \<le> Cohorts_Ic (s\<lparr>assim_growth := a\<rparr>) \<and> Cohorts_Ic (s\<lparr>assim_growth := a\<rparr>) \<le> 1"
    using assms(2) by (intro Ic_bounds) simp_all
  moreover have "Cohorts_Ic (s\<lparr>assim_growth := a\<rparr>)
           = min 1 (if potential_sink_strength s = 0 then 1 else a / potential_sink_strength s)"
    by (simp add: Cohorts_Ic_def Let_def)
  ultimately show ?thesis by (simp add: Cohorts_stress_index_def)
qed

lemma Palm_valid_example: "Palm_valid example_palm"
  by (simp add: Palm_valid_def example_palm_def)

lemma Indeterminate_init_returns:
  assumes "cohorts_palm s = Some p" and "Palm_valid p"
  shows "\<exists>h1 c. Indeterminate_init (Some s) h = Inr (h1, c)"
proof -
  let ?c0 = "(blank_cohort indeterminate)
                 \<lparr>num_inflorescences := 1, t_maturity_proto := 1200,
                  female_fraction_attr := 9 / 10, days_in_year_attr := 365\<rparr>"
  have ready: "Indeterminate_split_ready (Some s) [example_stalk] ?c0"
    using assms
    by (simp add: Indeterminate_split_ready_def Palm_valid_def blank_cohort_def
        example_stalk_def)
  obtain pm where pm: "Indeterminate_potential_mass (Some s) ?c0 = Inr pm"
    using Indeterminate_potential_mass_returns [OF ready] by blast
  obtain b where b: "BunchComponent_init Stalk (Some (Inr pm)) 0 None 1200 = Inr b"
    using stalk_init_returns(2) by blast
  have "days_in_year p \<noteq> 0" using assms(2) by (simp add: Palm_valid_def)
  from Cohorts_t_maturity_returns [OF assms(1) this] obtain T where
    T: "Cohorts_t_maturity s = Inr T" by blast
  show ?thesis
    using pm b T
    by (simp add: Indeterminate_init_def Let_def alloc_def Indeterminate_t_maturity_raw_def)
qed

lemma Cohorts_initiation_rate_returns:
  assumes "cohorts_palm s = Some p" and "Palm_valid p" and "days_in_month p \<noteq> 0"
  shows "\<exists>r. Cohorts_initiation_rate s = Inr r"
proof -
  have "days_in_year p \<noteq> 0" using assms(2) by (simp add: Palm_valid_def)
  from Cohorts_t_maturity_returns [OF assms(1) this] obtain T where
    T: "Cohorts_t_maturity s = Inr T" by blast
  show ?thesis
    using assms(1,3) T
    by (simp add: Cohorts_initiation_rate_def Cohorts_onset_multiplicity_factor_def
        Cohorts_calc_onset_multiplicity_def divide_py_def Let_def)
qed

lemma logistic_bound:
  assumes "0 \<le> (t::real)"
  shows "750 \<le> 1500 * (1 / (1 + exp (- 4 * 27 * t / 1500)))"
proof -
  define e where "e = exp (- 4 * 27 * t / 1500)"
  have "- 4 * 27 * t / 1500 \<le> 0" using assms by simp
  then have "e \<le> 1" unfolding e_def by (simp only: exp_le_one_iff)
  moreover have "0 < e" unfolding e_def by simp
  ultimately have "750 \<le> 1500 * (1 / (1 + e))" by (simp add: field_simps)
  then show ?thesis unfolding e_def .
qed

lemma Cohorts_t_maturity_bound:
  assumes "cohorts_palm s = Some p" and "Palm_valid p"
  shows "\<exists>T. Cohorts_t_maturity s = Inr T \<and> 750 \<le> T"
proof -
  define t where "t = DAP p / days_in_year p"
  have t: "0 \<le> t" using assms(2) by (simp add: t_def Palm_valid_def)
  have y: "Cohorts_years s = Inr t"
    using assms by (simp add: Cohorts_years_def Cohorts_DAP_def divide_py_def t_def Palm_valid_def)
  define m where "m = 1500 * (1 / (1 + exp (- 4 * 27 * t / 1500)))"
  have m: "750 \<le> m" unfolding m_def using t by (rule logistic_bound)
  have "Cohorts_t_maturity s = (if \<not> m > 0 then Inl AssertionError else Inr m)"
    unfolding m_def Cohorts_t_maturity_def y by (simp add: Let_def)
  with m show ?thesis by simp
qed

lemma Indeterminate_potential_mass_pos:
  assumes "cohorts_palm s = Some p" and "Palm_valid p"
  shows "\<exists>pm. Indeterminate_potential_mass (Some s) c = Inr pm \<and> 0 < pm"
proof -
  obtain T where T: "Cohorts_t_maturity s = Inr T" "750 \<le> T"
    using Cohorts_t_maturity_bound [OF assms] by blast
  have diy: "0 < days_in_year p" and dap: "0 \<le> DAP p"
    using assms(2) by (simp_all add: Palm_valid_def)
  define x where "x = (Cohort_DAP (Some s) + T - T * (2 / 10)) / days_in_year p"
  have "Cohort_DAP (Some s) = DAP p" using assms(1) by (simp add: Cohort_DAP_def)
  then have "0 < Cohort_DAP (Some s) + T - T * (2 / 10)" using dap T(2) by simp
  then have x: "0 < x" unfolding x_def using diy by simp
  define r where "r = 31 * (1 - exp (- (1 / 10) * x)) / bunch_FM_to_DM_ratio"
  have "(0::real) < 31 * (1 - exp (- (1 / 10) * y)) / bunch_FM_to_DM_ratio" if "0 < y" for y
    using that by (simp add: bunch_FM_to_DM_ratio_def)
  from this [OF x] have r0: "0 < r" unfolding r_def .
  have eq: "Indeterminate_potential_mass (Some s) c
              = (if \<not> r \<ge> 0 then Inl AssertionError else Inr r)"
    unfolding r_def x_def using T(1) assms(1) diy
    by (simp add: Indeterminate_potential_mass_def Let_def divide_py_def
        Indeterminate_t_maturity_raw_def Indeterminate_days_in_year_def)
  show ?thesis unfolding eq using r0 by simp
qed

lemma Indeterminate_init_result:
  assumes "cohorts_palm s = Some p" and "Palm_valid p"
  shows "\<exists>b c. Indeterminate_init (Some s) h = Inr (h @ [b], c)
            \<and> new_cohort_like (length h) b c"
proof -
  let ?c0 = "(blank_cohort indeterminate)
                 \<lparr>num_inflorescences := 1, t_maturity_proto := 1200,
                  female_fraction_attr := 9 / 10, days_in_year_attr := 365\<rparr>"
  obtain pm where pm: "Indeterminate_potential_mass (Some s) ?c0 = Inr pm" "0 < pm"
    using Indeterminate_potential_mass_pos [OF assms] by blast
  obtain T where T: "Cohorts_t_maturity s = Inr T" "750 \<le> T"
    using Cohorts_t_maturity_bound [OF assms] by blast
  show ?thesis
    using pm T
    by (simp add: Indeterminate_init_def Let_def alloc_def Indeterminate_t_maturity_raw_def
        BunchComponent_init_def make_quadratic_function_def divide_py_def
        BunchComponent_get_potential_sink_strength_def
        BunchComponent_mass_growth_rate_potential_def func_def new_cohort_like_def
        blank_cohort_def)
qed

lemma Cohorts_initiation_rate_pos:
  assumes "cohorts_palm s = Some p" and "Palm_valid p" and "0 < days_in_month p"
    and "28 \<le> MAP p" and "0 < fronds_initiation_rate p" and "0 < planting_density p"
  shows "\<exists>r. Cohorts_initiation_rate s = Inr r \<and> 0 < r"
proof -
  obtain T where T: "Cohorts_t_maturity s = Inr T" "750 \<le> T"
    using Cohorts_t_maturity_bound [OF assms(1,2)] by blast
  define d where "d = MAP p - (28 - T / days_in_month p)"
  have "0 < T / days_in_month p" using T(2) assms(3) by simp
  then have d: "0 < d" unfolding d_def using assms(4) by simp
  define w where "w = (1 / 10) * d ^ 4"
  have "0 < w" unfolding w_def using d by simp
  then have "1 / (1 + w) < 1" by (simp add: field_simps)
  then have o: "0 < 1 - (1 / (1 + (1 / 10) * d ^ 4))" unfolding w_def by simp
  have lt: "\<not> MAP p < 28 - T / days_in_month p" using d unfolding d_def by simp
  have "Cohorts_onset_multiplicity_factor s = Inr (1 - (1 / (1 + (1 / 10) * d ^ 4)))"
    unfolding d_def using T(1) assms(1,3) lt
    by (simp add: Cohorts_onset_multiplicity_factor_def Cohorts_calc_onset_multiplicity_def
        Cohorts_MAP_def divide_py_def Let_def)
  then show ?thesis
    using assms(1,5,6) o by (simp add: Cohorts_initiation_rate_def)
qed


lemma Cohorts_update_new_cohorts_result:
  assumes "cohorts_palm s = Some p" and "Palm_initiating p" and "0 < dt"
  shows "\<exists>b c. Cohorts_update_new_cohorts dt h s
                  = Inr (h @ [b], s\<lparr>cohorts := cohorts s @ [c]\<rparr>)
            \<and> new_cohort_like (length h) b c"
proof -
  from assms(2) have v: "Palm_valid p" "0 < days_in_month p" "28 \<le> MAP p"
    "0 < fronds_initiation_rate p" "0 < planting_density p"
    by (simp_all add: Palm_initiating_def)
  obtain b c where i: "Indeterminate_init (Some s) h = Inr (h @ [b], c)"
    and l: "new_cohort_like (length h) b c"
    using Indeterminate_init_result [OF assms(1) v(1)] by blast
  obtain r where r: "Cohorts_initiation_rate s = Inr r" "0 < r"
    using Cohorts_initiation_rate_pos [OF assms(1) v] by blast
  have "new_cohort_like (length h) b (c\<lparr>num_inflorescences := r * dt\<rparr>)"
    using l r(2) assms(3) by (simp add: new_cohort_like_def)
  moreover have "Cohorts_update_new_cohorts dt h s
      = Inr (h @ [b], s\<lparr>cohorts := cohorts s @ [c\<lparr>num_inflorescences := r * dt\<rparr>]\<rparr>)"
    using i r(1) by (simp add: Cohorts_update_new_cohorts_def Let_def)
  ultimately show ?thesis by blast
qed

lemma new_cohort_not_deletable:
  assumes "new_cohort_like r b c"
  shows "\<not> Cohort_is_deletable c" "sex c \<noteq> female"
    "Cohort_components c = [r]"
  using assms
  by (simp_all add: new_cohort_like_def Cohort_is_deletable_def Cohort_components_def)

lemma first_update_result:
  assumes "Palm_initiating p" and "0 < dt"
  shows "\<exists>b c s1. Cohorts_update dt [] (Cohorts_init (Some p)) = Inr ([b], s1)
           \<and> cohorts s1 = [c] \<and> new_cohort_like 0 b c"
proof -
  let ?init = "Cohorts_init (Some p)"
  let ?s = "?init\<lparr>assim_growth := Cohorts_get_assim_growth ?init\<rparr>"
  have palm: "cohorts_palm (?s\<lparr>cohorts := []\<rparr>) = Some p"
    by (simp add: Cohorts_init_def)
  obtain b c where n: "Cohorts_update_new_cohorts dt [] (?s\<lparr>cohorts := []\<rparr>)
                  = Inr ([] @ [b], ?s\<lparr>cohorts := []\<rparr>\<lparr>cohorts := cohorts (?s\<lparr>cohorts := []\<rparr>) @ [c]\<rparr>)"
    and l: "new_cohort_like (length ([] :: heap)) b c"
    using Cohorts_update_new_cohorts_result [OF palm assms, of "[]"] by blast
  from l have l0: "new_cohort_like 0 b c" by simp
  note nd = new_cohort_not_deletable [OF l0]
  have c0: "cohorts ?s = []" by (simp add: Cohorts_init_def)
  have pop: "Cohorts_update_population dt [] ?init = Inr ([b], ?s\<lparr>cohorts := [c]\<rparr>)"
    using n c0
    by (simp add: Cohorts_update_population_def Cohorts_update_existing_cohorts_def
        Cohorts_update_sex_def Let_def)
  have like: "new_cohort_like 0 b (Cohort_set_relative_sink_strength cont [b] c)" for cont
    using l0 by (simp add: new_cohort_like_def Cohort_set_relative_sink_strength_def Let_def)
  show ?thesis
    using pop nd like
    by (simp add: Cohorts_update_def Let_def Cohorts_record_harvest_def Cohorts_harvest_def
        Cohorts_females_def Cohorts_remove_deletable_def Cohorts_set_relative_sink_strengths_def)
qed


lemma stalk_after_first_step:
  assumes "new_cohort_like 0 b c" and "0 < dt" and "dt < 900"
  shows "0 < bc_potential_sink_strength
               (BunchComponent_update_age dt (BunchComponent_update_mass own h dt b))"
proof -
  let ?q = "bc_potential_growth_function b"
  from assms(1) have q: "qf_x1 ?q = 0" "qf_x2 ?q = 900" "0 < qf_h ?q"
    and k: "bc_kind b = Stalk" and a: "bc_age b = 0"
    by (simp_all add: new_cohort_like_def)
  have "0 < qf_h ?q * (dt * (900 - dt))" using q(3) assms(2,3) by simp
  then have "0 < - qf_h ?q * (dt - 0) * (dt - 900) / ((1 / 2) * (900 - 0)) ^ 2"
    by (simp add: algebra_simps)
  then have "0 < func ?q dt"
    using q(1,2) assms(2,3) by (simp add: func_def Let_def)
  then show ?thesis
    using k a
    by (simp add: BunchComponent_update_age_def BunchComponent_update_mass_def Let_def
        BunchComponent_get_potential_sink_strength_def
        BunchComponent_mass_growth_rate_potential_def)
qed

lemma update_sex_loop_single:
  assumes "\<not> age c > t_differentiation c"
  shows "update_sex_loop s [c] h = Inr (h, [c])"
  using assms by simp

lemma second_update_result:
  assumes "cohorts s = [c]" and "new_cohort_like 0 b c" and "cohorts_palm s = Some p"
    and "Palm_initiating p" and "0 < dt" and "dt \<le> 150"
  shows "\<exists>h2 s2. Cohorts_update dt [b] s = Inr (h2, s2) \<and> 0 < potential_sink_strength s2"
proof -
  define s1 where "s1 = s\<lparr>assim_growth := Cohorts_get_assim_growth s\<rparr>"
  define b1 where "b1 = BunchComponent_update_age dt
              (BunchComponent_update_mass (Some (Some s1, c)) [b] dt b)"
  define c1 where "c1 = c\<lparr>num_inflorescences :=
                    num_inflorescences c * max 0 (1 - abortion_fraction_attr c * dt),
                  age := age c + dt\<rparr>"
  note nd = new_cohort_not_deletable [OF assms(2)]
  from assms(2) have c: "sex c = indeterminate" "stalk c = 0" "age c = 0"
    "abortion_fraction_attr c = 0" "150 \<le> t_differentiation c" "0 < num_inflorescences c"
    by (simp_all add: new_cohort_like_def)
  have comp: "Cohort_update_components (Some s1) dt [b] c = [b1]"
    by (simp add: Cohort_update_components_def nd(3) Let_def b1_def)
  have upd: "Cohort_update (Some s1) dt [b] c = Inr ([b1], c1)"
    using Cohort_update_not_female [OF nd(2), of "Some s1" dt "[b]"] comp
    by (simp add: c1_def)
  have s1: "cohorts s1 = [c]" "cohorts_palm s1 = Some p"
    using assms(1,3) by (simp_all add: s1_def)
  have ex: "Cohorts_update_existing_cohorts dt [b] s1 = Inr ([b1], s1\<lparr>cohorts := [c1]\<rparr>)"
    using upd s1(1) by (simp add: Cohorts_update_existing_cohorts_def)
  have c1: "sex c1 = indeterminate" "stalk c1 = 0" "age c1 = dt"
    "t_differentiation c1 = t_differentiation c" "num_inflorescences c1 = num_inflorescences c"
    using c by (simp_all add: c1_def)
  have nosplit: "\<not> age c1 > t_differentiation c1"
    using c(5) assms(6) unfolding c1 by simp
  have sx: "Cohorts_update_sex [b1] (s1\<lparr>cohorts := [c1]\<rparr>)
              = Inr ([b1], s1\<lparr>cohorts := [c1]\<rparr>)"
    using update_sex_loop_single [OF nosplit] by (simp add: Cohorts_update_sex_def)
  have palm: "cohorts_palm (s1\<lparr>cohorts := [c1]\<rparr>) = Some p" using s1(2) by simp
  obtain b2 c2 where n: "Cohorts_update_new_cohorts dt [b1] (s1\<lparr>cohorts := [c1]\<rparr>)
      = Inr ([b1] @ [b2], s1\<lparr>cohorts := [c1]\<rparr>
               \<lparr>cohorts := cohorts (s1\<lparr>cohorts := [c1]\<rparr>) @ [c2]\<rparr>)"
    and l2: "new_cohort_like (length [b1]) b2 c2"
    using Cohorts_update_new_cohorts_result [OF palm assms(4,5), of "[b1]"] by blast
  from l2 have l2': "new_cohort_like 1 b2 c2" by simp
  note nd2 = new_cohort_not_deletable [OF l2']
  define s4 where "s4 = s1\<lparr>cohorts := [c1, c2]\<rparr>"
  have pop: "Cohorts_update_population dt [b] s = Inr ([b1, b2], s4)"
    unfolding s4_def using ex sx n
    by (simp add: Cohorts_update_population_def Let_def s1_def [symmetric])
  have ndc: "\<not> Cohort_is_deletable c1"
    using nosplit c1(1) by (simp add: Cohort_is_deletable_def)
  have harvest: "Cohorts_harvest s4 = []"
    unfolding s4_def using c1(1) nd2(2) by (simp add: Cohorts_harvest_def Cohorts_females_def)
  have rec: "Cohorts_record_harvest s4 = s4"
    by (simp add: Cohorts_record_harvest_def harvest)
  have rem: "Cohorts_remove_deletable s4 = s4"
    unfolding s4_def using ndc nd2(1) by (simp add: Cohorts_remove_deletable_def)
  have comps: "Cohort_components c1 = [0]"
    using c1(1,2) by (simp add: Cohort_components_def)
  have pss_b: "0 < bc_potential_sink_strength b1"
    unfolding b1_def using stalk_after_first_step [OF assms(2,5)] assms(6) by simp
  have pss_b2: "bc_potential_sink_strength b2 = 0"
    using l2' by (simp add: new_cohort_like_def)
  have total: "Cohorts_get_potential_sink_strength [b1, b2] s4
                 = num_inflorescences c * bc_potential_sink_strength b1"
    unfolding s4_def using comps nd2(3) pss_b2 c1(5)
    by (simp add: Cohorts_get_potential_sink_strength_def Cohort_cohort_sink_strength_def
        Cohort_potential_sink_strength_def)
  have pos: "0 < Cohorts_get_potential_sink_strength [b1, b2] s4"
    unfolding total using c(6) pss_b by simp
  show ?thesis
    using pop rec rem pos
    by (simp add: Cohorts_update_def Let_def Cohorts_set_relative_sink_strengths_def)
qed


lemma Palm_initiating_example: "Palm_initiating example_palm" "Palm_initiating next_palm"
  by (simp_all add: Palm_initiating_def Palm_valid_def example_palm_def next_palm_def)

theorem Cohorts_Ic_range_witness:
  "\<exists>h1 s1 h2 s2.
     Cohorts_update 10 [] (Cohorts_init (Some example_palm)) = Inr (h1, s1)
     \<and> Cohorts_update 10 h1 (s1\<lparr>cohorts_palm := Some next_palm\<rparr>) = Inr (h2, s2)
     \<and> Cohorts_reachable h2 s2
     \<and> 0 < potential_sink_strength s2
     \<and> 0 \<le> potential_sink_strength s2 / 2
     \<and> Cohorts_Ic (s2\<lparr>assim_growth := potential_sink_strength s2 / 2\<rparr>) = 1 / 2
     \<and> Cohorts_stress_index (s2\<lparr>assim_growth := potential_sink_strength s2 / 2\<rparr>) = 1 / 2
     \<and> 0 \<le> 3 * potential_sink_strength s2
     \<and> Cohorts_Ic (s2\<lparr>assim_growth := 3 * potential_sink_strength s2\<rparr>) = 1
     \<and> Cohorts_stress_index (s2\<lparr>assim_growth := 3 * potential_sink_strength s2\<rparr>) = 0"
proof -
  obtain b c s1 where
    u1: "Cohorts_update 10 [] (Cohorts_init (Some example_palm)) = Inr ([b], s1)"
    and c: "cohorts s1 = [c]" and l: "new_cohort_like 0 b c"
    using first_update_result [OF Palm_initiating_example(1), of 10] by auto
  have c': "cohorts (s1\<lparr>cohorts_palm := Some next_palm\<rparr>) = [c]"
    and p': "cohorts_palm (s1\<lparr>cohorts_palm := Some next_palm\<rparr>) = Some next_palm"
    using c by simp_all
  obtain h2 s2 where
    u2: "Cohorts_update 10 [b] (s1\<lparr>cohorts_palm := Some next_palm\<rparr>) = Inr (h2, s2)"
    and pos: "0 < potential_sink_strength s2"
    using second_update_result [OF c' l p' Palm_initiating_example(2), of 10] by auto
  have v: "Palm_valid example_palm" "Palm_valid next_palm"
    using Palm_initiating_example by (simp_all add: Palm_initiating_def)
  have "(Cohorts_init (Some example_palm))\<lparr>cohorts_palm := Some example_palm\<rparr>
          = Cohorts_init (Some example_palm)"
    by (simp add: Cohorts_init_def)
  with u1 have r1: "Cohorts_reachable [b] s1"
    using Cohorts_reachable.advance [OF Cohorts_reachable.initial v(1), of 10
        "Some example_palm" "[b]" s1]
    by simp
  have r2: "Cohorts_reachable h2 s2"
    using Cohorts_reachable.advance [OF r1 v(2) _ u2] by simp
  have a: "0 \<le> potential_sink_strength s2 / 2" "0 \<le> 3 * potential_sink_strength s2"
    using pos by simp_all
  from Cohorts_Ic_range [OF r2 a(1)] pos
  have half: "Cohorts_Ic (s2\<lparr>assim_growth := potential_sink_strength s2 / 2\<rparr>) = 1 / 2"
    "Cohorts_stress_index (s2\<lparr>assim_growth := potential_sink_strength s2 / 2\<rparr>) = 1 / 2"
    by simp_all
  from Cohorts_Ic_range [OF r2 a(2)] pos
  have full: "Cohorts_Ic (s2\<lparr>assim_growth := 3 * potential_sink_strength s2\<rparr>) = 1"
    "Cohorts_stress_index (s2\<lparr>assim_growth := 3 * potential_sink_strength s2\<rparr>) = 0"
    by simp_all
  show ?thesis
    using u1 u2 r2 pos a half full by blast
qed

section \<open>The harvest recorded by an update\<close>

lemma Cohorts_update_bunches:
  assumes "Cohorts_update_population dt h s = Inr (h4, s4)"
  shows "\<exists>s'. Cohorts_update dt h s = Inr (h4, s')
           \<and> bunches s' = (case Cohorts_harvest s4 of [] \<Rightarrow> bunches s4 | x # xs \<Rightarrow> [x])
           \<and> map age (cohorts s')
               = map age (filter (\<lambda>x. \<not> Cohort_is_deletable x) (cohorts s4))"
  using assms
  by (simp add: Cohorts_update_def Let_def Cohorts_set_relative_sink_strengths_def
      Cohorts_remove_deletable_def Cohorts_record_harvest_def
      Cohort_set_relative_sink_strength_def comp_def split: list.splits)

lemma update_sex_loop_no_indeterminate:
  assumes "list_all (\<lambda>c. sex c \<noteq> indeterminate) cs"
  shows "update_sex_loop s cs h = Inr (h, cs)"
  using assms by (induction cs) simp_all

lemma Indeterminate_init_sex:
  assumes "Indeterminate_init container h = Inr (h1, c)"
  shows "sex c = indeterminate"
  using assms
  by (auto simp: Indeterminate_init_def Let_def and_then_eq_Inr alloc_def blank_cohort_def)

lemma harvest_females:
  "sex older_female = female" "0 \<le> stress_index_attr older_female"
  "t_maturity older_female = 1200" "age older_female = 1195"
  "sex younger_female = female" "0 \<le> stress_index_attr younger_female"
  "t_maturity younger_female = 1195" "age younger_female = 1185"
  by (simp_all add: older_female_def younger_female_def Female_set_event_timings_def
      blank_cohort_def Let_def)

lemma harvest_population:
  "\<exists>h4 s4 c1 c2 new.
     Cohorts_update_population 10 harvest_heap harvest_container = Inr (h4, s4)
     \<and> cohorts s4 = [c1, c2, new] \<and> bunches s4 = []
     \<and> sex c1 = female \<and> age c1 = 1205 \<and> t_maturity c1 = 1200
     \<and> sex c2 = female \<and> age c2 = 1195 \<and> t_maturity c2 = 1195
     \<and> sex new = indeterminate"
proof -
  let ?s1 = "harvest_container\<lparr>assim_growth := Cohorts_get_assim_growth harvest_container\<rparr>"
  have cs: "cohorts ?s1 = [older_female, younger_female]"
    and palm: "cohorts_palm ?s1 = Some example_palm" and b: "bunches ?s1 = []"
    by (simp_all add: harvest_container_def Cohorts_init_def)
  obtain af1 where af1: "Cohort_abortion_fraction (Some ?s1) older_female = Inr af1"
    using Female_abortion_fraction_returns [OF harvest_females(1,2)] by blast
  from Female_update_returns [OF harvest_females(1) _ af1, of 10 harvest_heap]
  obtain h1 c1 where
    u1: "Cohort_update (Some ?s1) 10 harvest_heap older_female = Inr (h1, c1)"
    and c1: "sex c1 = female" "age c1 = 1205" "t_maturity c1 = 1200"
    using harvest_females(3,4) by auto
  obtain af2 where af2: "Cohort_abortion_fraction (Some ?s1) younger_female = Inr af2"
    using Female_abortion_fraction_returns [OF harvest_females(5,6)] by blast
  from Female_update_returns [OF harvest_females(5) _ af2, of 10 h1]
  obtain h2 c2 where
    u2: "Cohort_update (Some ?s1) 10 h1 younger_female = Inr (h2, c2)"
    and c2: "sex c2 = female" "age c2 = 1195" "t_maturity c2 = 1195"
    using harvest_females(7,8) by auto
  have ex: "Cohorts_update_existing_cohorts 10 harvest_heap ?s1
              = Inr (h2, ?s1\<lparr>cohorts := [c1, c2]\<rparr>)"
    using u1 u2 by (simp add: Cohorts_update_existing_cohorts_def cs)
  have "list_all (\<lambda>c. sex c \<noteq> indeterminate) [c1, c2]" using c1(1) c2(1) by simp
  then have sx: "Cohorts_update_sex h2 (?s1\<lparr>cohorts := [c1, c2]\<rparr>)
                   = Inr (h2, ?s1\<lparr>cohorts := [c1, c2]\<rparr>)"
    by (simp add: Cohorts_update_sex_def update_sex_loop_no_indeterminate)
  let ?s3 = "?s1\<lparr>cohorts := [c1, c2]\<rparr>"
  have palm3: "cohorts_palm ?s3 = Some example_palm" using palm by simp
  have m: "days_in_month example_palm \<noteq> 0" by (simp add: example_palm_def)
  obtain h3 new where
    i: "Indeterminate_init (Some ?s3) h2 = Inr (h3, new)"
    using Indeterminate_init_returns [OF palm3 Palm_valid_example] by blast
  obtain r where r: "Cohorts_initiation_rate ?s3 = Inr r"
    using Cohorts_initiation_rate_returns [OF palm3 Palm_valid_example m] by blast
  have nw: "Cohorts_update_new_cohorts 10 h2 ?s3
              = Inr (h3, ?s3\<lparr>cohorts := [c1, c2] @ [new\<lparr>num_inflorescences := r * 10\<rparr>]\<rparr>)"
    using i r by (simp add: Cohorts_update_new_cohorts_def Let_def)
  have pop: "Cohorts_update_population 10 harvest_heap harvest_container
               = Inr (h3, ?s3\<lparr>cohorts := [c1, c2] @ [new\<lparr>num_inflorescences := r * 10\<rparr>]\<rparr>)"
    using ex sx nw by (simp add: Cohorts_update_population_def Let_def)
  have "sex (new\<lparr>num_inflorescences := r * 10\<rparr>) = indeterminate"
    using Indeterminate_init_sex [OF i] by simp
  with pop c1 c2 b show ?thesis by simp
qed

lemma harvest_recorded_before_removal:
  assumes "Cohorts_update_population dt h s = Inr (h4, s4)"
    and "Cohorts_harvest s4 = x # xs"
  shows "\<exists>s'. Cohorts_update dt h s = Inr (h4, s') \<and> bunches s' = [x]
           \<and> x \<in> set (cohorts s4) \<and> sex x = female \<and> Female_is_harvestible x
           \<and> Cohort_is_deletable x"
proof -
  have "x \<in> set (Cohorts_harvest s4)" using assms(2) by simp
  then have x: "x \<in> set (cohorts s4)" "sex x = female" "Female_is_harvestible x"
    by (simp_all add: Cohorts_harvest_def Cohorts_females_def)
  then have "Cohort_is_deletable x"
    by (simp add: Cohort_is_deletable_def Female_is_harvestible_def)
  with Cohorts_update_bunches [OF assms(1)] assms(2) x show ?thesis by auto
qed

text \<open>
  C2, at the container above and \<open>dt = 10\<close>. After the cohorts have been updated, both
  female cohorts are harvestible: the harvest list holds the cohort of age 1205 and then
  the cohort of age 1195. The update records one cohort, the first of that list, of age
  1205: the oldest harvestible female cohort and not the youngest.
\<close>

theorem harvest_records_first_of_list:
  "harvestible_ages_in_update 10 harvest_heap harvest_container = Some [1205, 1195]
   \<and> recorded_ages_after_update 10 harvest_heap harvest_container = Some [1205]"
proof -
  from harvest_population obtain h4 s4 c1 c2 new where
    pop: "Cohorts_update_population 10 harvest_heap harvest_container = Inr (h4, s4)"
    and cs: "cohorts s4 = [c1, c2, new]"
    and c: "sex c1 = female" "age c1 = 1205" "t_maturity c1 = 1200"
      "sex c2 = female" "age c2 = 1195" "t_maturity c2 = 1195" "sex new = indeterminate"
    by blast
  have hv: "Cohorts_harvest s4 = [c1, c2]"
    using cs c by (simp add: Cohorts_harvest_def Cohorts_females_def Female_is_harvestible_def)
  from Cohorts_update_bunches [OF pop] obtain s' where
    "Cohorts_update 10 harvest_heap harvest_container = Inr (h4, s')" "bunches s' = [c1]"
    unfolding hv by auto
  with pop hv c show ?thesis
    by (simp add: harvestible_ages_in_update_def recorded_ages_after_update_def)
qed

end
